(* ===== verification/Prelude.thy ===== *)
theory Prelude
  imports Main "HOL-Library.Word"
begin

text \<open>
  Shared vocabulary of the development. The program is TypeScript running on Deno:
  \<^item> a thrown JavaScript exception is a value of \<open>js_error\<close>, and an
    effectful (\<open>async\<close>) function is a state transformer returning
    \<open>js_error + 'a\<close> together with the new state (\<open>('s, 'a) io\<close>);
  \<^item> a JavaScript object literal with computed keys (\<open>{[k1]: v1, k2: v2}\<close>) is an
    association list in key insertion order, where a repeated key keeps its first
    position and takes the last value (\<open>js_object\<close>);
  \<^item> \<open>xs[0]\<close> on an array is \<open>undefined\<close> when the array is empty (\<open>js_first\<close>).
\<close>

named_theorems io_simps "equations of the world-passing monad"
named_theorems js_simps "equations of the JavaScript object model"

section \<open>Errors and the world-passing monad\<close>

text \<open>
  \<open>Error msg\<close> is \<open>throw Error(msg)\<close> of the source; \<open>TypeError msg\<close> is the
  exception the JavaScript engine raises when a property of \<open>undefined\<close> is read or a
  BigInt is mixed with \<open>undefined\<close>; \<open>CastError\<close> is a failure of Lucid's
  \<open>Data.from\<close> schema cast; \<open>RemoteError msg\<close> is a failure reported by the
  node or indexer.
\<close>

datatype js_error =
    Error string
  | TypeError string
  | CastError
  | RemoteError string

type_synonym ('s, 'a) io = "'s \<Rightarrow> (js_error + 'a) \<times> 's"

definition io_return :: "'a \<Rightarrow> ('s, 'a) io" where
  "io_return a = (\<lambda>s. (Inr a, s))"

definition io_throw :: "js_error \<Rightarrow> ('s, 'a) io" where
  "io_throw e = (\<lambda>s. (Inl e, s))"

definition io_bind :: "('s, 'a) io \<Rightarrow> ('a \<Rightarrow> ('s, 'b) io) \<Rightarrow> ('s, 'b) io" where
  "io_bind m f = (\<lambda>s. case m s of (Inl e, s') \<Rightarrow> (Inl e, s') | (Inr a, s') \<Rightarrow> f a s')"

text \<open>Lifting a pure, possibly throwing computation (a synchronous call).\<close>

definition io_lift :: "js_error + 'a \<Rightarrow> ('s, 'a) io" where
  "io_lift r = (\<lambda>s. (r, s))"

section \<open>JavaScript objects and arrays\<close>

fun js_put :: "('k \<times> 'v) list \<Rightarrow> 'k \<Rightarrow> 'v \<Rightarrow> ('k \<times> 'v) list" where
  "js_put [] k v = [(k, v)]"
| "js_put ((k', v') # kvs) k v =
     (if k' = k then (k, v) # kvs else (k', v') # js_put kvs k v)"

text \<open>An object literal evaluates its properties left to right into an empty object.\<close>

definition js_object :: "('k \<times> 'v) list \<Rightarrow> ('k \<times> 'v) list" where
  "js_object kvs = fold (\<lambda>(k, v) obj. js_put obj k v) kvs []"

text \<open>\<open>xs[0]\<close>: \<open>None\<close> stands for \<open>undefined\<close>.\<close>

definition js_first :: "'a list \<Rightarrow> 'a option" where
  "js_first xs = (case xs of [] \<Rightarrow> None | x # _ \<Rightarrow> Some x)"

text \<open>\<open>!x\<close> for \<open>x : string | undefined\<close>: \<open>undefined\<close> and the empty string are falsy.\<close>

definition js_truthy_string :: "string option \<Rightarrow> string option" where
  "js_truthy_string x = (case x of None \<Rightarrow> None | Some s \<Rightarrow> if s = [] then None else Some s)"

section \<open>Lemmas\<close>

lemma io_return_apply [io_simps, simp]: "io_return a s = (Inr a, s)"
  by (simp add: io_return_def)

lemma io_throw_apply [io_simps, simp]: "io_throw e s = (Inl e, s)"
  by (simp add: io_throw_def)

lemma io_lift_apply [io_simps, simp]: "io_lift r s = (r, s)"
  by (simp add: io_lift_def)

lemma io_bind_Inl [io_simps]: "m s = (Inl e, s') \<Longrightarrow> io_bind m f s = (Inl e, s')"
  by (simp add: io_bind_def)

lemma io_bind_Inr [io_simps]: "m s = (Inr a, s') \<Longrightarrow> io_bind m f s = f a s'"
  by (simp add: io_bind_def)

lemma io_bind_return [simp]: "io_bind (io_return a) f = f a"
  by (simp add: io_bind_def io_return_def)

lemma io_bind_throw [simp]: "io_bind (io_throw e) f = io_throw e"
  by (simp add: io_bind_def io_throw_def fun_eq_iff)

lemma io_bind_lift_Inl [simp]: "io_bind (io_lift (Inl e)) f = io_throw e"
  by (simp add: io_bind_def io_lift_def io_throw_def fun_eq_iff)

lemma io_bind_lift_Inr [simp]: "io_bind (io_lift (Inr a)) f = f a"
  by (simp add: io_bind_def io_lift_def fun_eq_iff)

lemma io_bind_eq_Inr [io_simps]:
  "io_bind m f s = (Inr b, s') \<longleftrightarrow> (\<exists>a s1. m s = (Inr a, s1) \<and> f a s1 = (Inr b, s'))"
  by (auto simp: io_bind_def split: prod.splits sum.splits)

lemma io_bind_eq_Inl [io_simps]:
  "io_bind m f s = (Inl e, s') \<longleftrightarrow>
     m s = (Inl e, s') \<or> (\<exists>a s1. m s = (Inr a, s1) \<and> f a s1 = (Inl e, s'))"
  by (auto simp: io_bind_def split: prod.splits sum.splits)

lemma io_bind_assoc: "io_bind (io_bind m f) g = io_bind m (\<lambda>a. io_bind (f a) g)"
  by (simp add: io_bind_def fun_eq_iff split: prod.splits sum.splits)

lemma js_truthy_string_simps [simp, js_simps]:
  "js_truthy_string None = None" "js_truthy_string (Some s) = (if s = [] then None else Some s)"
  by (simp_all add: js_truthy_string_def)

lemma js_first_simps [simp, js_simps]: "js_first [] = None" "js_first (x # xs) = Some x"
  by (simp_all add: js_first_def)

lemma js_first_None_iff [simp, js_simps]: "js_first xs = None \<longleftrightarrow> xs = []"
  by (simp add: js_first_def split: list.split)

lemma js_first_filter_Some: "js_first (filter P xs) = Some x \<Longrightarrow> P x \<and> x \<in> set xs"
proof -
  assume "js_first (filter P xs) = Some x"
  then obtain ys where "filter P xs = x # ys"
    by (cases "filter P xs") simp_all
  then have "x \<in> set (filter P xs)" by simp
  then show ?thesis by simp
qed

lemma map_of_js_put [js_simps]: "map_of (js_put kvs k v) = (map_of kvs)(k \<mapsto> v)"
  by (induction kvs) (auto simp: fun_eq_iff)

lemma keys_js_put: "map fst (js_put kvs k v) = (if k \<in> set (map fst kvs) then map fst kvs else map fst kvs @ [k])"
  by (induction kvs) (auto simp: rev_image_eqI)

lemma distinct_js_put: "distinct (map fst kvs) \<Longrightarrow> distinct (map fst (js_put kvs k v))"
  by (induction kvs) (auto simp: keys_js_put)

lemma map_of_js_object_fold:
  "map_of (fold (\<lambda>(k, v) obj. js_put obj k v) kvs obj) = map_of obj ++ map_of (rev kvs)"
  by (induction kvs arbitrary: obj) (auto simp: map_of_js_put map_add_def fun_eq_iff split: option.splits)

text \<open>Reading a property of an object literal finds the last value given for it.\<close>

lemma map_of_js_object [simp, js_simps]: "map_of (js_object kvs) = map_of (rev kvs)"
  by (simp add: js_object_def map_of_js_object_fold)

lemma distinct_js_object: "distinct (map fst (js_object kvs))"
proof -
  have "\<And>obj. distinct (map fst obj) \<Longrightarrow> distinct (map fst (fold (\<lambda>(k, v) obj. js_put obj k v) kvs obj))"
    by (induction kvs) (auto simp: distinct_js_put)
  then show ?thesis by (simp add: js_object_def)
qed

text \<open>With distinct keys an object literal is its property list as written.\<close>

lemma js_object_distinct [js_simps]: "distinct (map fst kvs) \<Longrightarrow> js_object kvs = kvs"
proof -
  have "\<And>obj. distinct (map fst (obj @ kvs)) \<Longrightarrow>
          fold (\<lambda>(k, v) obj. js_put obj k v) kvs obj = obj @ kvs"
  proof (induction kvs)
    case Nil
    then show ?case by simp
  next
    case (Cons kv kvs)
    obtain k v where kv: "kv = (k, v)" by (cases kv)
    have put: "js_put obj k v = obj @ [(k, v)]" if "k \<notin> set (map fst obj)" for obj
      using that by (induction obj) auto
    from Cons.prems kv have "k \<notin> set (map fst obj)" by auto
    with Cons.prems Cons.IH [of "obj @ [(k, v)]"] kv put show ?case by simp
  qed
  from this [of "[]"] show "distinct (map fst kvs) \<Longrightarrow> js_object kvs = kvs"
    by (simp add: js_object_def)
qed

lemma js_object_two [js_simps]: "k1 \<noteq> k2 \<Longrightarrow> js_object [(k1, v1), (k2, v2)] = [(k1, v1), (k2, v2)]"
  by (simp add: js_object_distinct)

end
