(* ===== verification/Encoding.thy ===== *)
theory Encoding
  imports Prelude
begin

unbundle bit_operations_syntax

text \<open>
  The string and byte conversions the transaction builder relies on, as the JavaScript
  runtime and Lucid 0.10.7 perform them. None of this is code of the repository; it is
  the environment that \<open>src/transactions/create-ship.ts\<close> calls:
  \<^item> \<open>"SHIP" + n\<close> for a BigInt \<open>n\<close> converts \<open>n\<close> with \<open>BigInt.prototype.toString\<close>
    (decimal, a leading \<open>-\<close> for negative values): \<open>bigint_to_string\<close>;
  \<^item> Lucid's \<open>fromText\<close> is \<open>toHex(new TextEncoder().encode(text))\<close>: UTF-8, then
    lowercase hexadecimal (Deno's \<open>std/encoding/hex\<close>); \<open>toText\<close> is the reverse;
    an Isabelle \<open>char\<close> is read as the code point U+0000 to U+00FF;
  \<^item> Lucid's \<open>toUnit(policyId, name)\<close> rejects a name longer than 64 hex digits
    (32 bytes) and a policy id that is not 56 hex digits long, and otherwise
    concatenates the two.
  The lemmas are the round trips (decimal read after show, \<open>toText\<close> after
  \<open>fromText\<close>, hex decode after encode), the injectivity that follows from them, and
  the lengths.
\<close>

type_synonym byte = "8 word"
type_synonym hex = string

named_theorems encoding_simps "evaluation rules of the string encodings"

section \<open>Decimal representation of BigInt values\<close>

fun nat_digits :: "nat \<Rightarrow> nat list" where
  "nat_digits n = (if n < 10 then [n] else nat_digits (n div 10) @ [n mod 10])"

declare nat_digits.simps [simp del]

definition digit_char :: "nat \<Rightarrow> char" where
  "digit_char d = char_of (48 + d)"

definition nat_to_dec :: "nat \<Rightarrow> string" where
  "nat_to_dec n = map digit_char (nat_digits n)"

definition bigint_to_string :: "int \<Rightarrow> string" where
  "bigint_to_string i =
     (if i < 0 then CHR ''-'' # nat_to_dec (nat (- i)) else nat_to_dec (nat i))"

text \<open>The reading direction, for canonical decimal strings (the round trip).\<close>

definition is_digit :: "char \<Rightarrow> bool" where
  "is_digit c \<longleftrightarrow> 48 \<le> (of_char c :: nat) \<and> (of_char c :: nat) < 58"

definition digits_value :: "nat list \<Rightarrow> nat" where
  "digits_value ds = foldl (\<lambda>a d. 10 * a + d) 0 ds"

definition dec_to_nat :: "string \<Rightarrow> nat option" where
  "dec_to_nat s =
     (if s \<noteq> [] \<and> list_all is_digit s
      then Some (digits_value (map (\<lambda>c. of_char c - 48) s)) else None)"

definition string_to_bigint :: "string \<Rightarrow> int option" where
  "string_to_bigint s =
     (case s of
        [] \<Rightarrow> None
      | c # r \<Rightarrow> if c = CHR ''-'' then map_option (\<lambda>n. - int n) (dec_to_nat r)
                 else map_option int (dec_to_nat s))"

section \<open>UTF-8 and hexadecimal\<close>

definition utf8_char :: "char \<Rightarrow> byte list" where
  "utf8_char c =
     (let n = (of_char c :: nat)
      in if n < 128 then [word_of_nat n]
         else [word_of_nat (192 + n div 64), word_of_nat (128 + n mod 64)])"

definition utf8_encode :: "string \<Rightarrow> byte list" where
  "utf8_encode s = concat (map utf8_char s)"

fun utf8_decode :: "byte list \<Rightarrow> string option" where
  "utf8_decode [] = Some []"
| "utf8_decode [b] = (if unat b < 128 then Some [char_of (unat b)] else None)"
| "utf8_decode (b1 # b2 # bs) =
     (if unat b1 < 128 then map_option (Cons (char_of (unat b1))) (utf8_decode (b2 # bs))
      else if unat b1 \<in> {194, 195} \<and> unat b2 div 64 = 2
      then map_option (Cons (char_of (64 * (unat b1 - 192) + unat b2 mod 64))) (utf8_decode bs)
      else None)"

definition hex_digit :: "nat \<Rightarrow> char" where
  "hex_digit d = (if d < 10 then char_of (48 + d) else char_of (87 + d))"

definition byte_to_hex :: "byte \<Rightarrow> hex" where
  "byte_to_hex b = [hex_digit (unat (drop_bit 4 b)), hex_digit (unat (b AND 15))]"

definition to_hex :: "byte list \<Rightarrow> hex" where
  "to_hex bs = concat (map byte_to_hex bs)"

definition hex_value :: "char \<Rightarrow> nat option" where
  "hex_value c =
     (let n = (of_char c :: nat)
      in if 48 \<le> n \<and> n < 58 then Some (n - 48)
         else if 97 \<le> n \<and> n < 103 then Some (n - 87)
         else if 65 \<le> n \<and> n < 71 then Some (n - 55)
         else None)"

fun from_hex :: "hex \<Rightarrow> byte list option" where
  "from_hex [] = Some []"
| "from_hex [c] = None"
| "from_hex (c1 # c2 # cs) =
     (case (hex_value c1, hex_value c2) of
        (Some h, Some l) \<Rightarrow> map_option (Cons (word_of_nat (16 * h + l))) (from_hex cs)
      | _ \<Rightarrow> None)"

text \<open>Lucid \<open>fromText\<close> and \<open>toText\<close>.\<close>

definition fromText :: "string \<Rightarrow> hex" where
  "fromText s = to_hex (utf8_encode s)"

definition toText :: "hex \<Rightarrow> string option" where
  "toText h = (case from_hex h of None \<Rightarrow> None | Some bs \<Rightarrow> utf8_decode bs)"

section \<open>Asset units\<close>

text \<open>Lucid \<open>toUnit(policyId, name)\<close> without a label: the name is checked first (at most
  64 hex digits, 32 bytes), then the policy id (56 hex digits).\<close>

definition toUnit :: "hex \<Rightarrow> hex \<Rightarrow> js_error + string" where
  "toUnit policyId name =
     (if 64 < length name then Inl (Error ''Asset name size exceeds 32 bytes.'')
      else if length policyId \<noteq> 56 then Inl (Error (''Policy id invalid: '' @ policyId @ ''.''))
      else Inr (policyId @ name))"

section \<open>Decimal digits\<close>

lemma nat_digits_less: "d \<in> set (nat_digits n) \<Longrightarrow> d < 10"
proof (induction n rule: nat_digits.induct)
  case (1 n)
  then show ?case
    by (cases "n < 10") (auto simp: nat_digits.simps [of n])
qed

lemma nat_digits_value: "digits_value (nat_digits n) = n"
proof (induction n rule: nat_digits.induct)
  case (1 n)
  then show ?case
    by (cases "n < 10") (simp_all add: nat_digits.simps [of n] digits_value_def)
qed

lemma nat_digits_length: "n < 10 ^ k \<Longrightarrow> length (nat_digits n) \<le> max 1 k"
proof (induction n arbitrary: k rule: nat_digits.induct)
  case (1 n)
  show ?case
  proof (cases "n < 10")
    case True
    then show ?thesis by (simp add: nat_digits.simps [of n])
  next
    case False
    with "1.prems" obtain k' where k: "k = Suc k'"
      by (cases k) auto
    with "1.prems" have "n div 10 < 10 ^ k'"
      by (simp add: less_mult_imp_div_less mult.commute)
    with "1.IH" False have "length (nat_digits (n div 10)) \<le> max 1 k'"
      by simp
    moreover from False "1.prems" k have "1 \<le> k'"
      by (cases k') auto
    ultimately show ?thesis
      using False k by (simp add: nat_digits.simps [of n])
  qed
qed

lemma nat_digits_length_ge: "10 ^ k \<le> n \<Longrightarrow> k < length (nat_digits n)"
proof (induction n arbitrary: k rule: nat_digits.induct)
  case (1 n)
  show ?case
  proof (cases "n < 10")
    case True
    have "k = 0"
    proof (rule ccontr)
      assume "k \<noteq> 0"
      then have "(10::nat) ^ 1 \<le> 10 ^ k"
        by (intro power_increasing) simp_all
      with "1.prems" True show False by simp
    qed
    with True show ?thesis by (simp add: nat_digits.simps [of n])
  next
    case False
    show ?thesis
    proof (cases k)
      case 0
      then show ?thesis by (simp add: nat_digits.simps [of n])
    next
      case (Suc k')
      with "1.prems" have "10 ^ k' \<le> n div 10"
        by (simp add: less_eq_div_iff_mult_less_eq mult.commute)
      with "1.IH" False have "k' < length (nat_digits (n div 10))"
        by simp
      with False Suc show ?thesis by (simp add: nat_digits.simps [of n])
    qed
  qed
qed

lemma nat_digits_not_Nil [simp]: "nat_digits n \<noteq> []"
  by (simp add: nat_digits.simps [of n])

lemma of_char_digit_char [encoding_simps]: "d < 10 \<Longrightarrow> (of_char (digit_char d) :: nat) = 48 + d"
  by (simp add: digit_char_def)

lemma dec_to_nat_nat_to_dec [encoding_simps]: "dec_to_nat (nat_to_dec n) = Some n"
proof -
  have ds: "\<forall>d \<in> set (nat_digits n). d < 10"
    using nat_digits_less by blast
  then have "map (\<lambda>c. of_char c - 48) (map digit_char (nat_digits n)) = nat_digits n"
    by (induction "nat_digits n") (auto simp: of_char_digit_char map_idI)
  moreover from ds have "list_all is_digit (map digit_char (nat_digits n))"
    by (auto simp: list_all_iff is_digit_def of_char_digit_char)
  ultimately show ?thesis
    by (simp add: dec_to_nat_def nat_to_dec_def nat_digits_value)
qed

lemma nat_to_dec_not_minus: "nat_to_dec n = c # r \<Longrightarrow> c \<noteq> CHR ''-''"
proof -
  assume "nat_to_dec n = c # r"
  then obtain d where "d \<in> set (nat_digits n)" "c = digit_char d"
    by (cases "nat_digits n") (auto simp: nat_to_dec_def)
  then show ?thesis
    using nat_digits_less of_char_digit_char by fastforce
qed

lemma string_to_bigint_to_string [encoding_simps]:
  "string_to_bigint (bigint_to_string i) = Some i"
proof (cases "i < 0")
  case True
  then show ?thesis
    by (simp add: bigint_to_string_def string_to_bigint_def dec_to_nat_nat_to_dec)
next
  case False
  obtain c r where cr: "nat_to_dec (nat i) = c # r"
    by (cases "nat_to_dec (nat i)") (simp_all add: nat_to_dec_def)
  with False show ?thesis
    using nat_to_dec_not_minus [OF cr] dec_to_nat_nat_to_dec [of "nat i"]
    by (simp add: bigint_to_string_def string_to_bigint_def)
qed

lemma bigint_to_string_inj: "bigint_to_string i = bigint_to_string j \<longleftrightarrow> i = j"
  by (metis option.inject string_to_bigint_to_string)

lemma nat_to_dec_ascii: "c \<in> set (nat_to_dec n) \<Longrightarrow> (of_char c :: nat) < 128"
  using nat_digits_less of_char_digit_char by (fastforce simp: nat_to_dec_def)

lemma bigint_to_string_ascii: "c \<in> set (bigint_to_string i) \<Longrightarrow> (of_char c :: nat) < 128"
  by (auto simp: bigint_to_string_def nat_to_dec_ascii split: if_splits)

lemma length_bigint_to_string:
  "0 \<le> i \<Longrightarrow> i < 10 ^ k \<Longrightarrow> length (bigint_to_string i) \<le> max 1 k"
proof -
  assume "0 \<le> i" "i < 10 ^ k"
  then have "nat i < 10 ^ k"
    by (metis nat_less_iff of_nat_numeral of_nat_power)
  then show ?thesis
    using \<open>0 \<le> i\<close> nat_digits_length by (simp add: bigint_to_string_def nat_to_dec_def)
qed

lemma length_bigint_to_string_ge: "10 ^ k \<le> i \<Longrightarrow> k < length (bigint_to_string i)"
proof -
  assume le: "10 ^ k \<le> i"
  have "0 \<le> (10::int) ^ k" by simp
  with le have pos: "0 \<le> i" by linarith
  from le have "int (10 ^ k) \<le> i" by simp
  then have "10 ^ k \<le> nat i"
    using le_nat_iff [OF pos] by blast
  with pos show ?thesis
    using nat_digits_length_ge by (simp add: bigint_to_string_def nat_to_dec_def)
qed

section \<open>UTF-8 and hexadecimal round trips\<close>

lemma unat_byte_of_nat [encoding_simps]: "n < 256 \<Longrightarrow> unat (word_of_nat n :: byte) = n"
  by (simp add: unat_of_nat)

lemma utf8_char_ascii: "(of_char c :: nat) < 128 \<Longrightarrow> utf8_char c = [word_of_nat (of_char c)]"
  by (simp add: utf8_char_def)

lemma utf8_char_two_bytes:
  assumes "\<not> (of_char c :: nat) < 128"
  obtains b1 b2 where "utf8_char c = [b1, b2]"
    and "unat b1 = 192 + of_char c div 64" and "unat b2 = 128 + of_char c mod 64"
proof -
  have "(of_char c :: nat) < 256" by simp
  then have "(of_char c :: nat) div 64 < 4"
    by (simp add: div_less_iff_less_mult)
  then have "192 + (of_char c :: nat) div 64 < 256" by simp
  then have "unat (word_of_nat (192 + of_char c div 64) :: byte) = 192 + of_char c div 64"
    by (rule unat_byte_of_nat)
  moreover have "unat (word_of_nat (128 + of_char c mod 64) :: byte) = 128 + of_char c mod 64"
    by (rule unat_byte_of_nat) simp
  ultimately show ?thesis
    using assms that [of "word_of_nat (192 + of_char c div 64)" "word_of_nat (128 + of_char c mod 64)"]
    by (simp add: utf8_char_def Let_def del: of_nat_add)
qed

lemma two_byte_lead: "128 \<le> (n::nat) \<Longrightarrow> n < 256 \<Longrightarrow> n div 64 \<in> {2, 3}"
proof -
  assume "128 \<le> n" "n < 256"
  then have "2 \<le> n div 64" and "n div 64 < 4"
    using div_le_mono [of 128 n 64] by (simp_all add: div_less_iff_less_mult)
  then show ?thesis by auto
qed

lemma mod_64_two_byte: "(128 + (n::nat) mod 64) mod 64 = n mod 64"
proof -
  have "128 + n mod 64 = n mod 64 + 2 * 64" by simp
  then show ?thesis by (simp only: mod_mult_self1 mod_mod_trivial)
qed

lemma utf8_decode_ascii:
  "(of_char c :: nat) < 128 \<Longrightarrow> utf8_decode (utf8_char c @ bs) = map_option (Cons c) (utf8_decode bs)"
  by (cases bs) (simp_all add: utf8_char_ascii unat_byte_of_nat)

lemma utf8_decode_pair:
  "unat b1 \<in> {194, 195} \<Longrightarrow> unat b2 div 64 = 2 \<Longrightarrow>
   char_of (64 * (unat b1 - 192) + unat b2 mod 64) = c \<Longrightarrow>
   utf8_decode (b1 # b2 # bs) = map_option (Cons c) (utf8_decode bs)"
  by auto

lemma utf8_decode_char: "utf8_decode (utf8_char c @ bs) = map_option (Cons c) (utf8_decode bs)"
proof (cases "(of_char c :: nat) < 128")
  case True
  then show ?thesis by (rule utf8_decode_ascii)
next
  case False
  then obtain b1 b2 where bytes: "utf8_char c = [b1, b2]"
    and u1: "unat b1 = 192 + of_char c div 64" and u2: "unat b2 = 128 + of_char c mod 64"
    by (rule utf8_char_two_bytes)
  have "(of_char c :: nat) < 256" by simp
  with False have "(of_char c :: nat) div 64 \<in> {2, 3}"
    by (intro two_byte_lead) simp_all
  then have lead: "unat b1 \<in> {194, 195}"
    using u1 by auto
  have cont: "unat b2 div 64 = 2"
    using u2 by simp
  have "64 * (unat b1 - 192) + unat b2 mod 64 = (of_char c :: nat)"
    unfolding u1 u2 by (simp add: mod_64_two_byte)
  then have "char_of (64 * (unat b1 - 192) + unat b2 mod 64) = c"
    by simp
  with lead cont have "utf8_decode (b1 # b2 # bs) = map_option (Cons c) (utf8_decode bs)"
    by (rule utf8_decode_pair)
  with bytes show ?thesis
    by simp
qed

lemma utf8_decode_encode [encoding_simps]: "utf8_decode (utf8_encode s) = Some s"
  by (induction s) (simp_all add: utf8_encode_def utf8_decode_char)

lemma hex_value_hex_digit [encoding_simps]: "d < 16 \<Longrightarrow> hex_value (hex_digit d) = Some d"
  by (auto simp: hex_value_def hex_digit_def Let_def)

lemma byte_to_hex_nibbles:
  "byte_to_hex b = [hex_digit (unat b div 16), hex_digit (unat b mod 16)]"
proof -
  have "(b AND 15) = take_bit 4 b"
    by (simp add: take_bit_eq_mask mask_eq_exp_minus_1)
  then have "unat (b AND 15) = unat b mod 16"
    by (simp add: take_bit_eq_mod unat_mod)
  moreover have "unat (drop_bit 4 b) = unat b div 16"
    by (simp add: drop_bit_eq_div unat_div)
  ultimately show ?thesis by (simp add: byte_to_hex_def)
qed

lemma from_hex_to_hex [encoding_simps]: "from_hex (to_hex bs) = Some bs"
proof (induction bs)
  case Nil
  then show ?case by (simp add: to_hex_def)
next
  case (Cons b bs)
  have "unat b < 256"
    using unsigned_less [of b] by simp
  then have "unat b div 16 < 16" and "unat b mod 16 < 16" and
    "word_of_nat (16 * (unat b div 16) + unat b mod 16) = b"
    by simp_all
  with Cons.IH show ?case
    by (simp add: to_hex_def byte_to_hex_nibbles hex_value_hex_digit)
qed

lemma toText_fromText [encoding_simps]: "toText (fromText s) = Some s"
  by (simp add: toText_def fromText_def from_hex_to_hex utf8_decode_encode)

lemma fromText_inj: "fromText s = fromText t \<longleftrightarrow> s = t"
  by (metis option.inject toText_fromText)

lemma length_to_hex: "length (to_hex bs) = 2 * length bs"
  by (induction bs) (simp_all add: to_hex_def byte_to_hex_def)

lemma length_utf8_ascii: "(\<And>c. c \<in> set s \<Longrightarrow> (of_char c :: nat) < 128) \<Longrightarrow> length (utf8_encode s) = length s"
  by (induction s) (simp_all add: utf8_encode_def utf8_char_def Let_def)

lemma length_fromText_ascii:
  "(\<And>c. c \<in> set s \<Longrightarrow> (of_char c :: nat) < 128) \<Longrightarrow> length (fromText s) = 2 * length s"
  by (simp add: fromText_def length_to_hex length_utf8_ascii)

lemma fromText_append: "fromText (s @ t) = fromText s @ fromText t"
  by (simp add: fromText_def utf8_encode_def to_hex_def)

text \<open>For ASCII text, \<open>fromText\<close> is the two lower-case hex digits of each
  character's code, the reference definition of the bitwise \<open>byte_to_hex\<close>.\<close>

section \<open>Asset units\<close>

lemma toUnit_Inr_iff:
  "toUnit p n = Inr u \<longleftrightarrow> length n \<le> 64 \<and> length p = 56 \<and> u = p @ n"
  by (auto simp: toUnit_def)

lemma toUnit_inj:
  "toUnit p n = Inr u \<Longrightarrow> toUnit p' n' = Inr u \<Longrightarrow> p = p' \<and> n = n'"
  by (auto simp: toUnit_Inr_iff)

lemma toUnit_length: "toUnit p n = Inr u \<Longrightarrow> 56 \<le> length u"
  by (auto simp: toUnit_Inr_iff)

end
