(* ===== verification/PlutusData.thy ===== *)
theory PlutusData
  imports Encoding
begin

text \<open>
  On-chain data. Lucid represents Plutus data as \<open>Constr\<close> objects, maps, arrays,
  BigInts and hex strings (\<open>plutus_data\<close>). The datum schemas \<open>AsteriaDatum\<close> and
  \<open>ShipDatum\<close> and the asset class \<open>AssetClassT\<close> come from \<open>types.ts\<close>, which
  \<open>create-ship.ts\<close> imports but which is not part of the sources; they are modelled
  after the specification (\<open>spec.md\<close> section 3): a \<open>Data.Object\<close> schema is the
  constructor 0 with the fields in declaration order. \<open>Data.to\<close> with a schema is
  \<open>asteria_to_data\<close>/\<open>ship_to_data\<close>; \<open>Data.from\<close> with a schema casts back and
  throws on a shape mismatch (\<open>asteria_from_data\<close>/\<open>ship_from_data\<close>). The CBOR
  serialisation below the Plutus data value is not modelled: a datum is held as the
  decoded value. The lemmas are the two round trips of each schema.
\<close>

datatype plutus_data =
    Constr int "plutus_data list"
  | Map "(plutus_data \<times> plutus_data) list"
  | List "plutus_data list"
  | Integer int
  | Bytes hex

record asteria_datum =
  ship_counter :: int
  shipyard_policy :: hex

record ship_datum =
  fuel :: int
  pos_x :: int
  pos_y :: int
  ship_token_name :: hex
  pilot_token_name :: hex

record asset_class =
  policy :: hex
  name :: hex

definition asteria_to_data :: "asteria_datum \<Rightarrow> plutus_data" where
  "asteria_to_data d = Constr 0 [Integer (ship_counter d), Bytes (shipyard_policy d)]"

fun asteria_from_data :: "plutus_data \<Rightarrow> js_error + asteria_datum" where
  "asteria_from_data (Constr i [Integer c, Bytes p]) =
     (if i = 0 then Inr \<lparr>ship_counter = c, shipyard_policy = p\<rparr> else Inl CastError)"
| "asteria_from_data _ = Inl CastError"

definition ship_to_data :: "ship_datum \<Rightarrow> plutus_data" where
  "ship_to_data d =
     Constr 0 [Integer (fuel d), Integer (pos_x d), Integer (pos_y d),
               Bytes (ship_token_name d), Bytes (pilot_token_name d)]"

fun ship_from_data :: "plutus_data \<Rightarrow> js_error + ship_datum" where
  "ship_from_data (Constr i [Integer f, Integer x, Integer y, Bytes s, Bytes p]) =
     (if i = 0 then Inr \<lparr>fuel = f, pos_x = x, pos_y = y, ship_token_name = s, pilot_token_name = p\<rparr>
      else Inl CastError)"
| "ship_from_data _ = Inl CastError"

text \<open>\<open>Data.to(new Constr(0, []))\<close>: the redeemers of the create-ship transaction.\<close>

definition unit_redeemer :: plutus_data where
  "unit_redeemer = Constr 0 []"

lemma asteria_from_to_data [simp]: "asteria_from_data (asteria_to_data d) = Inr d"
  by (simp add: asteria_to_data_def)

lemma asteria_to_from_data: "asteria_from_data v = Inr d \<Longrightarrow> asteria_to_data d = v"
  by (induction v rule: asteria_from_data.induct) (auto simp: asteria_to_data_def split: if_splits)

lemma ship_from_to_data [simp]: "ship_from_data (ship_to_data d) = Inr d"
  by (simp add: ship_to_data_def)

lemma ship_to_from_data: "ship_from_data v = Inr d \<Longrightarrow> ship_to_data d = v"
  by (induction v rule: ship_from_data.induct) (auto simp: ship_to_data_def split: if_splits)

lemma asteria_to_data_inj [simp]: "asteria_to_data d = asteria_to_data d' \<longleftrightarrow> d = d'"
  by (metis asteria_from_to_data sum.inject(2))

lemma ship_to_data_inj [simp]: "ship_to_data d = ship_to_data d' \<longleftrightarrow> d = d'"
  by (metis ship_from_to_data sum.inject(2))

lemma asteria_ship_data_distinct [simp]: "asteria_to_data a \<noteq> ship_to_data s"
  by (simp add: asteria_to_data_def ship_to_data_def)

end
