(* ===== verification/Ledger.thy ===== *)
theory Ledger
  imports PlutusData
begin

text \<open>
  The environment of the program: the Cardano ledger as the Blockfrost provider shows it,
  and the part of Lucid 0.10.7 that \<open>create-ship.ts\<close> and \<open>utils.ts\<close> call.
  \<^item> \<open>tx_output\<close> and its extension \<open>utxo\<close> are Lucid's \<open>TxOutput\<close> and
    \<open>UTxO\<close> (address, assets, inline datum, reference script; transaction hash and
    output index). Assets are a JavaScript object from a unit (policy id and hex asset
    name) or \<open>"lovelace"\<close> to a BigInt.
  \<^item> A \<open>world\<close> holds the process environment (\<open>SEED\<close>), the selected wallet, the
    live UTxO set in the order the indexer lists it, every output ever created (the
    indexer answers \<open>utxosByOutRef\<close> from transaction outputs whether spent or not),
    the record of minted assets, a counter that names fresh transactions, the log of
    provider requests, the script hash (\<open>blake2b-224\<close>, not modelled: any function),
    and the node's verdict on a transaction beyond the checks written here (fees,
    balancing, collateral, script evaluation).
  \<^item> Provider queries (\<open>utxosByOutRef\<close>, \<open>utxosAt\<close>) read the world and log the
    request; the builder calls (\<open>readFrom\<close>, \<open>mintAssets\<close>, \<open>collectFrom\<close>,
    \<open>payToContract\<close>) accumulate a transaction; \<open>submitTx\<close> checks that every spent and
    every reference input is live and that the node accepts, and then applies the
    transaction: inputs removed, outputs appended under a fresh transaction hash.
\<close>

type_synonym script = string

datatype address = ScriptAddress hex | KeyAddress hex

type_synonym assets = "(string \<times> int) list"

record tx_output =
  address :: address
  assets :: assets
  datum :: "plutus_data option"
  scriptRef :: "script option"

record utxo = tx_output +
  txHash :: hex
  outputIndex :: nat

type_synonym out_ref = "hex \<times> nat"

definition out_ref :: "'a utxo_scheme \<Rightarrow> out_ref" where
  "out_ref u = (txHash u, outputIndex u)"

record tx =
  tx_reads :: "utxo list"
  tx_mints :: "(assets \<times> plutus_data) list"
  tx_inputs :: "(utxo \<times> plutus_data) list"
  tx_outputs :: "tx_output list"

datatype net_call =
    GetProtocolParameters
  | UtxosByOutRef "out_ref list"
  | UtxosAt address
  | GetWalletUtxos
  | SubmitTx

record world =
  env_seed :: "string option"
  wallet :: "string option"
  chain :: "utxo list"
  history :: "utxo list"
  minted :: assets
  tx_count :: nat
  calls :: "net_call list"
  hashScript :: "script \<Rightarrow> hex"
  node_accepts :: "tx \<Rightarrow> bool"

section \<open>Provider queries\<close>

definition log_call :: "net_call \<Rightarrow> world \<Rightarrow> world" where
  "log_call c w = w\<lparr>calls := calls w @ [c]\<rparr>"

definition utxosByOutRef :: "out_ref list \<Rightarrow> (world, utxo list) io" where
  "utxosByOutRef refs w =
     (Inr (filter (\<lambda>u. out_ref u \<in> set refs) (history w)), log_call (UtxosByOutRef refs) w)"

definition utxosAt :: "address \<Rightarrow> (world, utxo list) io" where
  "utxosAt a w = (Inr (filter (\<lambda>u. address u = a) (chain w)), log_call (UtxosAt a) w)"

text \<open>\<open>lucid.utils.validatorToAddress\<close> and \<open>mintingPolicyToId\<close>.\<close>

definition validatorToAddress :: "script \<Rightarrow> (world, address) io" where
  "validatorToAddress s w = (Inr (ScriptAddress (hashScript w s)), w)"

definition mintingPolicyToId :: "script \<Rightarrow> (world, hex) io" where
  "mintingPolicyToId s w = (Inr (hashScript w s), w)"

text \<open>
  \<open>Deno.env.get("SEED")\<close>; \<open>lucid.selectWalletFromSeed(seed)\<close> (key derivation and
  the check of the mnemonic are not modelled); \<open>ref.scriptRef as Script\<close> handed to a
  Lucid utility, which reads the script's fields and so fails on \<open>undefined\<close>.
\<close>

definition env_get_seed :: "(world, string option) io" where
  "env_get_seed w = (Inr (env_seed w), w)"

definition selectWalletFromSeed :: "string \<Rightarrow> (world, unit) io" where
  "selectWalletFromSeed s w = (Inr (), w\<lparr>wallet := Some s\<rparr>)"

definition script_of :: "utxo \<Rightarrow> js_error + script" where
  "script_of u =
     (case scriptRef u of
        None \<Rightarrow> Inl (TypeError ''Cannot read properties of undefined (reading 'type')'')
      | Some s \<Rightarrow> Inr s)"

section \<open>Transaction builder\<close>

definition newTx :: tx where
  "newTx = \<lparr>tx_reads = [], tx_mints = [], tx_inputs = [], tx_outputs = []\<rparr>"

definition readFrom :: "utxo list \<Rightarrow> tx \<Rightarrow> tx" where
  "readFrom us tx = tx\<lparr>tx_reads := tx_reads tx @ us\<rparr>"

definition mintAssets :: "assets \<Rightarrow> plutus_data \<Rightarrow> tx \<Rightarrow> tx" where
  "mintAssets a r tx = tx\<lparr>tx_mints := tx_mints tx @ [(a, r)]\<rparr>"

definition collectFrom :: "utxo list \<Rightarrow> plutus_data \<Rightarrow> tx \<Rightarrow> tx" where
  "collectFrom us r tx = tx\<lparr>tx_inputs := tx_inputs tx @ map (\<lambda>u. (u, r)) us\<rparr>"

text \<open>\<open>payToContract(address, {inline: datum}, assets)\<close>.\<close>

definition payToContract :: "address \<Rightarrow> plutus_data \<Rightarrow> assets \<Rightarrow> tx \<Rightarrow> tx" where
  "payToContract a d v tx =
     tx\<lparr>tx_outputs := tx_outputs tx @
        [\<lparr>address = a, assets = v, datum = Some d, scriptRef = None\<rparr>]\<rparr>"

section \<open>Submission and the ledger rule\<close>

definition live :: "world \<Rightarrow> out_ref \<Rightarrow> bool" where
  "live w r \<longleftrightarrow> r \<in> set (map out_ref (chain w))"

definition tx_spent :: "tx \<Rightarrow> out_ref list" where
  "tx_spent tx = map (out_ref \<circ> fst) (tx_inputs tx)"

definition tx_valid :: "world \<Rightarrow> tx \<Rightarrow> bool" where
  "tx_valid w tx \<longleftrightarrow>
     list_all (live w) (tx_spent tx) \<and> list_all (live w \<circ> out_ref) (tx_reads tx) \<and>
     node_accepts w tx"

text \<open>A fresh transaction hash for the \<open>n\<close>-th submission.\<close>

definition tx_id :: "nat \<Rightarrow> hex" where
  "tx_id n = fromText (''tx'' @ nat_to_dec n)"

definition output_utxo :: "hex \<Rightarrow> nat \<Rightarrow> tx_output \<Rightarrow> utxo" where
  "output_utxo h i out =
     \<lparr>address = address out, assets = assets out, datum = datum out, scriptRef = scriptRef out,
      txHash = h, outputIndex = i\<rparr>"

definition tx_new_utxos :: "hex \<Rightarrow> tx \<Rightarrow> utxo list" where
  "tx_new_utxos h tx = map2 (output_utxo h) [0..<length (tx_outputs tx)] (tx_outputs tx)"

definition apply_tx :: "tx \<Rightarrow> world \<Rightarrow> world" where
  "apply_tx tx w =
     (let h = tx_id (tx_count w); new = tx_new_utxos h tx
      in w\<lparr>chain := filter (\<lambda>u. out_ref u \<notin> set (tx_spent tx)) (chain w) @ new,
           history := history w @ new,
           minted := minted w @ concat (map fst (tx_mints tx)),
           tx_count := Suc (tx_count w)\<rparr>)"

text \<open>
  \<open>tx.complete()\<close> fetches the wallet's UTxOs for coin selection (fees and change to
  the wallet are not modelled); \<open>sign().complete()\<close> adds the wallet's witness; the
  provider's \<open>submitTx\<close> returns the transaction hash or the node's rejection.
\<close>

definition complete :: "tx \<Rightarrow> (world, tx) io" where
  "complete tx w = (Inr tx, log_call GetWalletUtxos w)"

definition signTx :: "tx \<Rightarrow> (world, tx) io" where
  "signTx tx w =
     (if wallet w = None then (Inl (TypeError ''Cannot read properties of undefined (reading 'signTx')''), w)
      else (Inr tx, w))"

definition submitTx :: "tx \<Rightarrow> (world, hex) io" where
  "submitTx tx w =
     (let w' = log_call SubmitTx w
      in if tx_valid w tx then (Inr (tx_id (tx_count w)), apply_tx tx w')
         else (Inl (RemoteError ''transaction rejected''), w'))"

text \<open>Two worlds that agree on everything the ledger and the node decide by, and on the
  environment: they differ at most in the selected wallet and the request log.\<close>

definition same_ledger :: "world \<Rightarrow> world \<Rightarrow> bool" where
  "same_ledger w w' \<longleftrightarrow>
     chain w' = chain w \<and> history w' = history w \<and> minted w' = minted w \<and>
     tx_count w' = tx_count w \<and> hashScript w' = hashScript w \<and> node_accepts w' = node_accepts w \<and>
     env_seed w' = env_seed w"

text \<open>The index a transaction hash made by \<open>tx_id\<close> was made from; \<open>None\<close> for every
  other hash (the outputs the world starts with).\<close>

definition tx_index :: "hex \<Rightarrow> nat option" where
  "tx_index h =
     (case toText h of Some (t # x # ds) \<Rightarrow> if t = CHR ''t'' \<and> x = CHR ''x'' then dec_to_nat ds else None
      | _ \<Rightarrow> None)"

text \<open>Well-formed ledger: the live outputs are outputs ever created, with distinct
  references, and no output carries the hash of a transaction not yet submitted.\<close>

definition ledger_wf :: "world \<Rightarrow> bool" where
  "ledger_wf w \<longleftrightarrow>
     set (chain w) \<subseteq> set (history w) \<and> distinct (map out_ref (chain w)) \<and>
     list_all (\<lambda>u. pred_option (\<lambda>n. n < tx_count w) (tx_index (txHash u))) (history w)"

section \<open>Lemmas\<close>

lemma out_ref_output_utxo [simp]: "out_ref (output_utxo h i out) = (h, i)"
  by (simp add: out_ref_def output_utxo_def)

lemma txHash_output_utxo [simp]: "txHash (output_utxo h i out) = h"
  by (simp add: output_utxo_def)

lemma outputIndex_output_utxo [simp]: "outputIndex (output_utxo h i out) = i"
  by (simp add: output_utxo_def)

lemma address_output_utxo [simp]: "address (output_utxo h i out) = address out"
  by (simp add: output_utxo_def)

lemma assets_output_utxo [simp]: "assets (output_utxo h i out) = assets out"
  by (simp add: output_utxo_def)

lemma datum_output_utxo [simp]: "datum (output_utxo h i out) = datum out"
  by (simp add: output_utxo_def)

lemma scriptRef_output_utxo [simp]: "scriptRef (output_utxo h i out) = scriptRef out"
  by (simp add: output_utxo_def)

lemma log_call_fields [simp]:
  "chain (log_call c w) = chain w" "history (log_call c w) = history w"
  "minted (log_call c w) = minted w" "tx_count (log_call c w) = tx_count w"
  "env_seed (log_call c w) = env_seed w" "wallet (log_call c w) = wallet w"
  "hashScript (log_call c w) = hashScript w" "node_accepts (log_call c w) = node_accepts w"
  "calls (log_call c w) = calls w @ [c]"
  by (simp_all add: log_call_def)

lemma tx_new_utxos_two [simp]:
  "tx_new_utxos h (tx\<lparr>tx_outputs := [out1, out2]\<rparr>) = [output_utxo h 0 out1, output_utxo h 1 out2]"
  by (simp add: tx_new_utxos_def upt_rec)

lemma apply_tx_fields [simp]:
  "env_seed (apply_tx tx w) = env_seed w" "wallet (apply_tx tx w) = wallet w"
  "calls (apply_tx tx w) = calls w" "hashScript (apply_tx tx w) = hashScript w"
  "node_accepts (apply_tx tx w) = node_accepts w"
  "tx_count (apply_tx tx w) = Suc (tx_count w)"
  "minted (apply_tx tx w) = minted w @ concat (map fst (tx_mints tx))"
  "chain (apply_tx tx w) =
     filter (\<lambda>u. out_ref u \<notin> set (tx_spent tx)) (chain w) @ tx_new_utxos (tx_id (tx_count w)) tx"
  "history (apply_tx tx w) = history w @ tx_new_utxos (tx_id (tx_count w)) tx"
  by (simp_all add: apply_tx_def Let_def)

lemma tx_valid_cong:
  "chain w' = chain w \<Longrightarrow> node_accepts w' = node_accepts w \<Longrightarrow> tx_valid w' tx = tx_valid w tx"
proof -
  assume "chain w' = chain w" "node_accepts w' = node_accepts w"
  moreover from this have "live w' = live w"
    by (simp add: live_def fun_eq_iff)
  ultimately show ?thesis by (simp add: tx_valid_def)
qed

lemma tx_valid_log_call [simp]: "tx_valid (log_call c w) tx = tx_valid w tx"
  by (rule tx_valid_cong) simp_all

lemma submitTx_Inr:
  "tx_valid w tx \<Longrightarrow> submitTx tx w = (Inr (tx_id (tx_count w)), apply_tx tx (log_call SubmitTx w))"
  by (simp add: submitTx_def)

lemma submitTx_Inl:
  "\<not> tx_valid w tx \<Longrightarrow> submitTx tx w = (Inl (RemoteError ''transaction rejected''), log_call SubmitTx w)"
  by (simp add: submitTx_def)

text \<open>
  Double spending: once a transaction that spends an output is applied, no transaction
  that spends the same output is valid any more.
\<close>

lemma spent_not_live:
  assumes "r \<in> set (tx_spent tx)" and "r \<notin> set (map out_ref (tx_new_utxos (tx_id (tx_count w)) tx))"
  shows "\<not> live (apply_tx tx w) r"
  using assms by (auto simp: live_def)

lemma tx_id_inj: "tx_id m = tx_id n \<longleftrightarrow> m = n"
proof -
  have "nat_to_dec m = nat_to_dec n \<Longrightarrow> m = n"
    by (metis dec_to_nat_nat_to_dec option.inject)
  then show ?thesis by (auto simp: tx_id_def fromText_inj)
qed

lemma same_ledger_refl [simp]: "same_ledger w w"
  by (simp add: same_ledger_def)

lemma same_ledger_trans [trans]: "same_ledger w w1 \<Longrightarrow> same_ledger w1 w2 \<Longrightarrow> same_ledger w w2"
  by (simp add: same_ledger_def)

lemma same_ledger_log [simp]: "same_ledger w (log_call c w') = same_ledger w w'"
  by (simp add: same_ledger_def)

lemma same_ledger_wallet [simp]: "same_ledger w (w'\<lparr>wallet := x\<rparr>) = same_ledger w w'"
  by (simp add: same_ledger_def)

lemma tx_valid_wallet [simp]: "tx_valid (w\<lparr>wallet := x\<rparr>) tx = tx_valid w tx"
  by (rule tx_valid_cong) simp_all

lemma same_ledger_bind:
  assumes "same_ledger w (snd (m w))"
    and "\<And>a w1. m w = (Inr a, w1) \<Longrightarrow> same_ledger w1 (snd (k a w1))"
  shows "same_ledger w (snd (io_bind m k w))"
proof (cases "m w")
  case (Pair r w1)
  with assms show ?thesis
    by (cases r) (auto simp: io_bind_def intro: same_ledger_trans)
qed

lemma tx_valid_same_ledger: "same_ledger w w' \<Longrightarrow> tx_valid w' tx = tx_valid w tx"
  by (rule tx_valid_cong) (simp_all add: same_ledger_def)

lemma tx_index_tx_id [simp]: "tx_index (tx_id n) = Some n"
  by (simp add: tx_index_def tx_id_def toText_fromText dec_to_nat_nat_to_dec)

lemma map_out_ref_tx_new_utxos:
  "map out_ref (tx_new_utxos h tx) = map (Pair h) [0..<length (tx_outputs tx)]"
proof -
  have "map out_ref (tx_new_utxos h tx) = map (Pair h \<circ> fst) (zip [0..<length (tx_outputs tx)] (tx_outputs tx))"
    by (simp add: tx_new_utxos_def comp_def case_prod_beta)
  then show ?thesis by (simp only: map_map [symmetric]) simp
qed

lemma txHash_tx_new_utxos: "u \<in> set (tx_new_utxos h tx) \<Longrightarrow> txHash u = h"
proof -
  assume "u \<in> set (tx_new_utxos h tx)"
  then have "out_ref u \<in> set (map out_ref (tx_new_utxos h tx))" by simp
  then show ?thesis by (auto simp: map_out_ref_tx_new_utxos out_ref_def)
qed

lemma ledger_wf_fresh: "ledger_wf w \<Longrightarrow> u \<in> set (history w) \<Longrightarrow> txHash u \<noteq> tx_id (tx_count w)"
  by (fastforce simp: ledger_wf_def list_all_iff)

lemma ledger_wf_log [simp]: "ledger_wf (log_call c w) = ledger_wf w"
  by (simp add: ledger_wf_def)

lemma ledger_wf_same_ledger: "same_ledger w w' \<Longrightarrow> ledger_wf w' = ledger_wf w"
  by (simp add: ledger_wf_def same_ledger_def)

lemma ledger_wf_apply_tx:
  assumes wf: "ledger_wf w"
  shows "ledger_wf (apply_tx tx w)"
proof -
  let ?h = "tx_id (tx_count w)"
  let ?new = "tx_new_utxos ?h tx"
  have sub: "set (chain w) \<subseteq> set (history w)" and dist: "distinct (map out_ref (chain w))"
    and old: "list_all (\<lambda>u. pred_option (\<lambda>n. n < tx_count w) (tx_index (txHash u))) (history w)"
    using wf by (simp_all add: ledger_wf_def)
  have new_refs: "map out_ref ?new = map (Pair ?h) [0..<length (tx_outputs tx)]"
    by (rule map_out_ref_tx_new_utxos)
  have disj: "set (map out_ref (chain w)) \<inter> set (map out_ref ?new) = {}"
  proof -
    have nr: "out_ref u \<notin> set (map out_ref ?new)" if u: "u \<in> set (chain w)" for u
    proof
      assume "out_ref u \<in> set (map out_ref ?new)"
      then have "fst (out_ref u) = ?h" by (auto simp: new_refs)
      moreover have "fst (out_ref u) \<noteq> ?h"
        using ledger_wf_fresh [OF wf] sub u by (auto simp: out_ref_def)
      ultimately show False by simp
    qed
    show ?thesis
      unfolding disjoint_iff
    proof (intro allI impI)
      fix r assume "r \<in> set (map out_ref (chain w))"
      then obtain u where "u \<in> set (chain w)" "r = out_ref u" by auto
      then show "r \<notin> set (map out_ref ?new)" using nr by simp
    qed
  qed
  have "distinct (map out_ref (filter (\<lambda>u. out_ref u \<notin> set (tx_spent tx)) (chain w) @ ?new))"
  proof -
    have "distinct (map out_ref ?new)" by (simp add: new_refs distinct_map inj_on_def)
    moreover have "distinct (map out_ref (filter (\<lambda>u. out_ref u \<notin> set (tx_spent tx)) (chain w)))"
      using dist by (rule distinct_map_filter)
    ultimately show ?thesis using disj by auto
  qed
  moreover have "list_all (\<lambda>u. pred_option (\<lambda>n. n < Suc (tx_count w)) (tx_index (txHash u))) (history w @ ?new)"
    using old by (auto simp: list_all_iff txHash_tx_new_utxos option.pred_set)
  ultimately show ?thesis
    using sub by (auto simp: ledger_wf_def)
qed

end
