(* ===== verification/Utils.thy ===== *)
theory Utils
  imports Ledger
begin

text \<open>
  \<open>src/transactions/utils.ts\<close>:
  \<^item> \<open>lucidBase\<close>: \<open>Lucid.new(new Blockfrost(url, projectId), "Preprod")\<close>; with a
    provider, \<open>Lucid.new\<close> fetches the protocol parameters, so this is a provider
    request (\<open>lucidBase\<close>). The project id and the URL are configuration and are not
    modelled;
  \<^item> \<open>abs\<close>, \<open>distance\<close> and \<open>required_fuel\<close> over BigInt (\<open>int\<close>);
  \<^item> \<open>fetchReferenceScript\<close>: one \<open>utxosByOutRef\<close> request for output 0 of the
    given transaction; \<open>ref[0].scriptRef\<close> on an empty answer is a \<open>TypeError\<close>, a
    missing script the error the code throws;
  \<^item> \<open>writeJson\<close> is modelled in \<open>WriteJson\<close>.
  The lemmas give each branch of \<open>fetchReferenceScript\<close> and the arithmetic facts
  callers of \<open>distance\<close> and \<open>required_fuel\<close> rely on.
\<close>

definition lucidBase :: "(world, unit) io" where
  "lucidBase w = (Inr (), log_call GetProtocolParameters w)"

definition abs_bigint :: "int \<Rightarrow> int" where
  "abs_bigint n = (if n < 0 then - n else n)"

definition fetchReferenceScript :: "hex \<Rightarrow> (world, utxo) io" where
  "fetchReferenceScript txhash =
     io_bind (utxosByOutRef [(txhash, 0)]) (\<lambda>ref.
       case js_first ref of
         None \<Rightarrow> io_throw (TypeError ''Cannot read properties of undefined (reading 'scriptRef')'')
       | Some r \<Rightarrow>
           if scriptRef r = None then io_throw (Error ''Could not read validator from ref UTxO'')
           else io_return r)"

definition distance :: "int \<Rightarrow> int \<Rightarrow> int" where
  "distance delta_x delta_y = abs_bigint delta_x + abs_bigint delta_y"

definition required_fuel :: "int \<Rightarrow> int \<Rightarrow> int" where
  "required_fuel dist fuel_per_step = dist * fuel_per_step"

section \<open>fetchReferenceScript\<close>

text \<open>The output the indexer returns for \<open>(txhash, 0)\<close>, in its order.\<close>

definition ref_output :: "world \<Rightarrow> hex \<Rightarrow> utxo option" where
  "ref_output w h = js_first (filter (\<lambda>u. out_ref u \<in> set [(h, 0)]) (history w))"

lemma fetchReferenceScript_eq:
  "fetchReferenceScript h w =
     (case ref_output w h of
        None \<Rightarrow> Inl (TypeError ''Cannot read properties of undefined (reading 'scriptRef')'')
      | Some r \<Rightarrow> if scriptRef r = None then Inl (Error ''Could not read validator from ref UTxO'')
                 else Inr r,
      log_call (UtxosByOutRef [(h, 0)]) w)"
  by (simp add: fetchReferenceScript_def io_bind_def utxosByOutRef_def ref_output_def
      split: option.splits)

lemma fetchReferenceScript_world:
  "snd (fetchReferenceScript h w) = log_call (UtxosByOutRef [(h, 0)]) w"
  by (simp add: fetchReferenceScript_eq)

lemma fetchReferenceScript_ok:
  "ref_output w h = Some r \<Longrightarrow> scriptRef r = Some s \<Longrightarrow>
   fetchReferenceScript h w = (Inr r, log_call (UtxosByOutRef [(h, 0)]) w)"
  by (simp add: fetchReferenceScript_eq)

lemma fetchReferenceScript_Inr:
  "fst (fetchReferenceScript h w) = Inr r \<Longrightarrow>
   ref_output w h = Some r \<and> scriptRef r \<noteq> None"
  by (simp add: fetchReferenceScript_eq split: option.splits if_splits)

lemma fetchReferenceScript_Inr_out_ref:
  "fst (fetchReferenceScript h w) = Inr r \<Longrightarrow> out_ref r = (h, 0) \<and> r \<in> set (history w)"
  using fetchReferenceScript_Inr [of h w r] js_first_filter_Some
  by (fastforce simp: ref_output_def)

lemma ref_output_None_iff: "ref_output w h = None \<longleftrightarrow> (\<forall>u \<in> set (history w). out_ref u \<noteq> (h, 0))"
  by (simp add: ref_output_def filter_empty_conv)

section \<open>Arithmetic helpers\<close>

lemma abs_bigint_abs [simp]: "abs_bigint n = \<bar>n\<bar>"
  by (simp add: abs_bigint_def)

lemma distance_abs: "distance dx dy = \<bar>dx\<bar> + \<bar>dy\<bar>"
  by (simp add: distance_def)

end
