(* ===== verification/CreateShip.thy ===== *)
theory CreateShip
  imports Utils
begin

text \<open>
  \<open>src/transactions/create-ship.ts\<close>, function \<open>createShip\<close>. The pure parts of the
  handler are definitions of their own, named after the source's variables:
  \<open>asteriaInfo\<close> (the next Asteria datum, lines 66--69), \<open>shipTokenName\<close> and
  \<open>pilotTokenName\<close> (lines 76--77), \<open>shipInfo\<close> (lines 79--85) and
  \<open>create_ship_tx\<close> (the builder chain, lines 96--125). \<open>createShip\<close> is the whole
  handler in the world-passing monad, with every await, every check and every
  expression that can throw as a step: the protocol-parameter fetch of
  \<open>lucidBase\<close>, the \<open>SEED\<close> check, wallet selection, both reference lookups, the
  address and policy derivations, the Asteria lookup (\<open>[0]\<close> of the answer), the datum
  check, the schema cast, the three \<open>toUnit\<close> calls, the BigInt addition with
  \<open>assets.lovelace\<close>, \<open>complete\<close>, signing and submission.
\<close>

definition asteriaInfo :: "asteria_datum \<Rightarrow> asteria_datum" where
  "asteriaInfo asteriaInputDatum =
     \<lparr>ship_counter = ship_counter asteriaInputDatum + 1,
      shipyard_policy = shipyard_policy asteriaInputDatum\<rparr>"

definition shipTokenName :: "int \<Rightarrow> hex" where
  "shipTokenName ship_counter_value = fromText (''SHIP'' @ bigint_to_string ship_counter_value)"

definition pilotTokenName :: "int \<Rightarrow> hex" where
  "pilotTokenName ship_counter_value = fromText (''PILOT'' @ bigint_to_string ship_counter_value)"

definition shipInfo :: "int \<Rightarrow> int \<Rightarrow> int \<Rightarrow> int \<Rightarrow> ship_datum" where
  "shipInfo initial_fuel pos_x' pos_y' ship_counter_value =
     \<lparr>fuel = initial_fuel, pos_x = pos_x', pos_y = pos_y',
      ship_token_name = shipTokenName ship_counter_value,
      pilot_token_name = pilotTokenName ship_counter_value\<rparr>"

text \<open>The minimum lovelace the code puts beside the ship token.\<close>

definition ship_output_lovelace :: int where
  "ship_output_lovelace = 2000000"

definition create_ship_tx ::
  "utxo \<Rightarrow> utxo \<Rightarrow> utxo \<Rightarrow> address \<Rightarrow> address \<Rightarrow> string \<Rightarrow> string \<Rightarrow> string \<Rightarrow>
   plutus_data \<Rightarrow> plutus_data \<Rightarrow> int \<Rightarrow> tx" where
  "create_ship_tx asteriaRef spacetimeRef asteria spacetimeAddressBech32 asteriaAddressBech32
     shipTokenUnit pilotTokenUnit adminTokenUnit shipDatum asteriaOutputDatum asteriaOutputAda =
     (let addNewShipRedeemer = unit_redeemer;
          mintRedeemer = unit_redeemer
      in payToContract asteriaAddressBech32 asteriaOutputDatum
           (js_object [(adminTokenUnit, 1), (''lovelace'', asteriaOutputAda)])
         (payToContract spacetimeAddressBech32 shipDatum
           (js_object [(shipTokenUnit, 1), (''lovelace'', ship_output_lovelace)])
         (collectFrom [asteria] addNewShipRedeemer
         (mintAssets (js_object [(shipTokenUnit, 1), (pilotTokenUnit, 1)]) mintRedeemer
         (readFrom [asteriaRef, spacetimeRef] newTx)))))"

text \<open>
  The handler in the order of the source. Local variables that later phases read are
  gathered in \<open>ship_refs\<close> (lines 37--51); the Lucid instance itself carries no
  state of the model beyond the world.
\<close>

record ship_refs =
  asteriaRef :: utxo
  asteriaAddressBech32 :: address
  spacetimeRef :: utxo
  shipyardPolicyId :: hex
  spacetimeAddressBech32 :: address

text \<open>Lines 28--35: \<open>lucidBase()\<close>, the \<open>SEED\<close> check, wallet selection.\<close>

definition initWallet :: "(world, unit) io" where
  "initWallet =
     io_bind lucidBase (\<lambda>_.
     io_bind env_get_seed (\<lambda>seed.
     case js_truthy_string seed of
       None \<Rightarrow> io_throw (Error ''Unable to read wallet's seed from env'')
     | Some s \<Rightarrow> selectWalletFromSeed s))"

text \<open>Lines 37--51: both reference scripts, the Asteria address, the shipyard policy and
  the Spacetime address.\<close>

definition resolveReferences :: "hex \<Rightarrow> hex \<Rightarrow> (world, ship_refs) io" where
  "resolveReferences asteriaRefTxHash spacetimeRefTxHash =
     io_bind (fetchReferenceScript asteriaRefTxHash) (\<lambda>asteriaRef.
     io_bind (io_lift (script_of asteriaRef)) (\<lambda>asteriaScript.
     io_bind (validatorToAddress asteriaScript) (\<lambda>asteriaAddressBech32.
     io_bind (fetchReferenceScript spacetimeRefTxHash) (\<lambda>spacetimeRef.
     io_bind (io_lift (script_of spacetimeRef)) (\<lambda>spacetimeScript.
     io_bind (mintingPolicyToId spacetimeScript) (\<lambda>shipyardPolicyId.
     io_bind (validatorToAddress spacetimeScript) (\<lambda>spacetimeAddressBech32.
     io_return \<lparr>asteriaRef = asteriaRef, asteriaAddressBech32 = asteriaAddressBech32,
                spacetimeRef = spacetimeRef, shipyardPolicyId = shipyardPolicyId,
                spacetimeAddressBech32 = spacetimeAddressBech32\<rparr>)))))))"

text \<open>Lines 53--64: the first UTxO at the Asteria address, its datum, the schema cast.\<close>

definition readAsteria :: "address \<Rightarrow> (world, utxo \<times> asteria_datum) io" where
  "readAsteria asteriaAddress =
     io_bind (utxosAt asteriaAddress) (\<lambda>asteriaUtxos.
     case js_first asteriaUtxos of
       None \<Rightarrow> io_throw (TypeError ''Cannot read properties of undefined (reading 'datum')'')
     | Some asteria \<Rightarrow>
     case datum asteria of
       None \<Rightarrow> io_throw (Error ''Asteria datum not found'')
     | Some asteriaDatum \<Rightarrow>
     io_bind (io_lift (asteria_from_data asteriaDatum)) (\<lambda>asteriaInputDatum.
     io_return (asteria, asteriaInputDatum)))"

text \<open>Lines 59 and 66--125: the new datums and token names, the three units, the BigInt
  addition with \<open>asteria.assets.lovelace\<close> and the builder chain. Nothing here
  touches the world; it throws where \<open>toUnit\<close> or the addition throws.\<close>

definition buildCreateShipTx ::
  "ship_refs \<Rightarrow> utxo \<Rightarrow> asteria_datum \<Rightarrow> asset_class \<Rightarrow> int \<Rightarrow> int \<Rightarrow> int \<Rightarrow> int \<Rightarrow> js_error + tx" where
  "buildCreateShipTx refs asteria asteriaInputDatum admin_token ship_mint_lovelace_fee
     initial_fuel pos_x' pos_y' =
     (case toUnit (policy admin_token) (name admin_token) of
        Inl e \<Rightarrow> Inl e
      | Inr adminTokenUnit \<Rightarrow>
      case toUnit (shipyardPolicyId refs) (shipTokenName (ship_counter asteriaInputDatum)) of
        Inl e \<Rightarrow> Inl e
      | Inr shipTokenUnit \<Rightarrow>
      case toUnit (shipyardPolicyId refs) (pilotTokenName (ship_counter asteriaInputDatum)) of
        Inl e \<Rightarrow> Inl e
      | Inr pilotTokenUnit \<Rightarrow>
      case map_of (assets asteria) ''lovelace'' of
        None \<Rightarrow> Inl (TypeError ''Cannot mix BigInt and other types, use explicit conversions'')
      | Some asteriaInputAda \<Rightarrow>
      Inr (create_ship_tx (asteriaRef refs) (spacetimeRef refs) asteria
             (spacetimeAddressBech32 refs) (asteriaAddressBech32 refs)
             shipTokenUnit pilotTokenUnit adminTokenUnit
             (ship_to_data (shipInfo initial_fuel pos_x' pos_y' (ship_counter asteriaInputDatum)))
             (asteria_to_data (asteriaInfo asteriaInputDatum))
             (asteriaInputAda + ship_mint_lovelace_fee)))"

text \<open>Lines 125--129: \<open>complete()\<close>, \<open>sign().complete()\<close>, \<open>submit()\<close>.\<close>

definition signAndSubmit :: "tx \<Rightarrow> (world, hex) io" where
  "signAndSubmit tx =
     io_bind (complete tx) (\<lambda>txComplete.
     io_bind (signTx txComplete) (\<lambda>signedTx.
     submitTx signedTx))"

text \<open>Lines 28--125: everything up to the completed transaction; no world change
  beyond the wallet and the provider log.\<close>

definition prepareCreateShip ::
  "hex \<Rightarrow> hex \<Rightarrow> asset_class \<Rightarrow> int \<Rightarrow> int \<Rightarrow> int \<Rightarrow> int \<Rightarrow> (world, tx) io" where
  "prepareCreateShip asteriaRefTxHash spacetimeRefTxHash admin_token ship_mint_lovelace_fee
     initial_fuel pos_x' pos_y' =
     io_bind initWallet (\<lambda>_.
     io_bind (resolveReferences asteriaRefTxHash spacetimeRefTxHash) (\<lambda>refs.
     io_bind (readAsteria (asteriaAddressBech32 refs)) (\<lambda>(asteria, asteriaInputDatum).
     io_lift (buildCreateShipTx refs asteria asteriaInputDatum admin_token
                ship_mint_lovelace_fee initial_fuel pos_x' pos_y'))))"

text \<open>Lines 19--130: the whole handler.\<close>

definition createShip :: "hex \<Rightarrow> hex \<Rightarrow> asset_class \<Rightarrow> int \<Rightarrow> int \<Rightarrow> int \<Rightarrow> int \<Rightarrow> (world, hex) io" where
  "createShip asteriaRefTxHash spacetimeRefTxHash admin_token ship_mint_lovelace_fee
     initial_fuel pos_x' pos_y' =
     io_bind (prepareCreateShip asteriaRefTxHash spacetimeRefTxHash admin_token
                ship_mint_lovelace_fee initial_fuel pos_x' pos_y')
       signAndSubmit"


text \<open>The world after the requests of a successful run of \<open>prepareCreateShip\<close>,
  and after those of \<open>complete\<close> and \<open>submit\<close>.\<close>

definition prepare_world :: "world \<Rightarrow> string \<Rightarrow> hex \<Rightarrow> hex \<Rightarrow> address \<Rightarrow> world" where
  "prepare_world w s ah sh asteriaAddr =
     log_call (UtxosAt asteriaAddr)
       (log_call (UtxosByOutRef [(sh, 0)]) (log_call (UtxosByOutRef [(ah, 0)])
         ((log_call GetProtocolParameters w)\<lparr>wallet := Some s\<rparr>)))"

definition create_ship_world :: "world \<Rightarrow> string \<Rightarrow> hex \<Rightarrow> hex \<Rightarrow> address \<Rightarrow> world" where
  "create_ship_world w s ah sh asteriaAddr =
     log_call SubmitTx (log_call GetWalletUtxos (prepare_world w s ah sh asteriaAddr))"

text \<open>The transaction \<open>createShip\<close> builds from the reference outputs \<open>ar\<close>, \<open>sr\<close>
  with scripts \<open>asc\<close>, \<open>ssc\<close>, the Asteria UTxO \<open>a\<close> with datum \<open>d\<close>, the three units
  and the Asteria lovelace \<open>ada\<close>.\<close>

abbreviation ship_tx_of ::
  "world \<Rightarrow> utxo \<Rightarrow> script \<Rightarrow> utxo \<Rightarrow> script \<Rightarrow> utxo \<Rightarrow> asteria_datum \<Rightarrow> string \<Rightarrow> string \<Rightarrow> string \<Rightarrow>
   int \<Rightarrow> int \<Rightarrow> int \<Rightarrow> int \<Rightarrow> int \<Rightarrow> tx" where
  "ship_tx_of w ar asc sr ssc a d au su pu ada fee f x y \<equiv>
     create_ship_tx ar sr a (ScriptAddress (hashScript w ssc)) (ScriptAddress (hashScript w asc))
        su pu au (ship_to_data (shipInfo f x y (ship_counter d))) (asteria_to_data (asteriaInfo d)) (ada + fee)"

section \<open>Phase lemmas\<close>

lemma initWallet_eq:
  "initWallet w =
     (case js_truthy_string (env_seed w) of
        None \<Rightarrow> (Inl (Error ''Unable to read wallet's seed from env''), log_call GetProtocolParameters w)
      | Some s \<Rightarrow> (Inr (), (log_call GetProtocolParameters w)\<lparr>wallet := Some s\<rparr>))"
  by (simp add: initWallet_def io_bind_def lucidBase_def env_get_seed_def selectWalletFromSeed_def
      split: option.split)

lemma initWallet_Inr:
  "initWallet w = (Inr u, w1) \<longleftrightarrow>
   (\<exists>s. js_truthy_string (env_seed w) = Some s \<and> w1 = (log_call GetProtocolParameters w)\<lparr>wallet := Some s\<rparr>)"
  by (auto simp: initWallet_eq split: option.split)

lemma initWallet_ledger: "same_ledger w (snd (initWallet w))"
  by (simp add: initWallet_eq split: option.split)

lemma resolveReferences_Inr:
  "resolveReferences ah sh w = (Inr refs, w') \<longleftrightarrow>
   (\<exists>ar asc sr ssc. ref_output w ah = Some ar \<and> scriptRef ar = Some asc \<and>
      ref_output w sh = Some sr \<and> scriptRef sr = Some ssc \<and>
      refs = \<lparr>asteriaRef = ar, asteriaAddressBech32 = ScriptAddress (hashScript w asc),
              spacetimeRef = sr, shipyardPolicyId = hashScript w ssc,
              spacetimeAddressBech32 = ScriptAddress (hashScript w ssc)\<rparr> \<and>
      w' = log_call (UtxosByOutRef [(sh, 0)]) (log_call (UtxosByOutRef [(ah, 0)]) w))"
  by (auto simp: resolveReferences_def io_bind_eq_Inr fetchReferenceScript_eq script_of_def
      validatorToAddress_def mintingPolicyToId_def ref_output_def
      split: option.splits if_splits)

lemma resolveReferences_ledger: "same_ledger w (snd (resolveReferences ah sh w))"
  by (simp add: resolveReferences_def io_bind_def fetchReferenceScript_eq script_of_def
      validatorToAddress_def mintingPolicyToId_def ref_output_def
      split: option.split prod.split sum.split)

lemma readAsteria_Inr:
  "readAsteria addr w = (Inr (a, d), w') \<longleftrightarrow>
   js_first (filter (\<lambda>u. address u = addr) (chain w)) = Some a \<and>
   datum a = Some (asteria_to_data d) \<and> w' = log_call (UtxosAt addr) w"
  by (auto simp: readAsteria_def io_bind_eq_Inr utxosAt_def asteria_to_from_data
      split: option.splits list.splits dest: asteria_to_from_data)

lemma readAsteria_world: "snd (readAsteria addr w) = log_call (UtxosAt addr) w"
  by (simp add: readAsteria_def io_bind_def utxosAt_def split: option.split list.split sum.split)

lemma buildCreateShipTx_Inr:
  "buildCreateShipTx refs a d adm fee f x y = Inr tx \<longleftrightarrow>
   (\<exists>au su pu ada. toUnit (policy adm) (name adm) = Inr au \<and>
      toUnit (shipyardPolicyId refs) (shipTokenName (ship_counter d)) = Inr su \<and>
      toUnit (shipyardPolicyId refs) (pilotTokenName (ship_counter d)) = Inr pu \<and>
      map_of (assets a) ''lovelace'' = Some ada \<and>
      tx = create_ship_tx (asteriaRef refs) (spacetimeRef refs) a
             (spacetimeAddressBech32 refs) (asteriaAddressBech32 refs) su pu au
             (ship_to_data (shipInfo f x y (ship_counter d))) (asteria_to_data (asteriaInfo d))
             (ada + fee))"
  by (auto simp: buildCreateShipTx_def split: sum.splits option.splits)

lemma signAndSubmit_eq:
  "signAndSubmit tx w =
     (if wallet w = None
      then (Inl (TypeError ''Cannot read properties of undefined (reading 'signTx')''), log_call GetWalletUtxos w)
      else submitTx tx (log_call GetWalletUtxos w))"
  by (simp add: signAndSubmit_def io_bind_def complete_def signTx_def)

lemma signAndSubmit_Inr:
  "signAndSubmit tx w = (Inr h, w') \<longleftrightarrow>
   wallet w \<noteq> None \<and> tx_valid w tx \<and> h = tx_id (tx_count w) \<and>
   w' = apply_tx tx (log_call SubmitTx (log_call GetWalletUtxos w))"
  by (auto simp: signAndSubmit_eq submitTx_def Let_def)

lemma create_ship_tx_fields [simp]:
  "tx_reads (create_ship_tx ar sr a sa aa su pu au sd ad v) = [ar, sr]"
  "tx_mints (create_ship_tx ar sr a sa aa su pu au sd ad v) = [(js_object [(su, 1), (pu, 1)], unit_redeemer)]"
  "tx_inputs (create_ship_tx ar sr a sa aa su pu au sd ad v) = [(a, unit_redeemer)]"
  "tx_outputs (create_ship_tx ar sr a sa aa su pu au sd ad v) =
     [\<lparr>address = sa, assets = js_object [(su, 1), (''lovelace'', ship_output_lovelace)],
       datum = Some sd, scriptRef = None\<rparr>,
      \<lparr>address = aa, assets = js_object [(au, 1), (''lovelace'', v)], datum = Some ad, scriptRef = None\<rparr>]"
  by (simp_all add: create_ship_tx_def payToContract_def collectFrom_def mintAssets_def readFrom_def newTx_def)

lemma prepare_world_fields [simp]:
  "wallet (prepare_world w s ah sh addr) = Some s"
  "tx_count (prepare_world w s ah sh addr) = tx_count w"
  "same_ledger w (prepare_world w s ah sh addr)"
  by (simp_all add: prepare_world_def)

lemma create_ship_world_fields [simp]:
  "chain (create_ship_world w s ah sh addr) = chain w"
  "history (create_ship_world w s ah sh addr) = history w"
  "minted (create_ship_world w s ah sh addr) = minted w"
  "tx_count (create_ship_world w s ah sh addr) = tx_count w"
  "hashScript (create_ship_world w s ah sh addr) = hashScript w"
  "node_accepts (create_ship_world w s ah sh addr) = node_accepts w"
  "env_seed (create_ship_world w s ah sh addr) = env_seed w"
  "calls (create_ship_world w s ah sh addr) = calls w @ [GetProtocolParameters, UtxosByOutRef [(ah, 0)],
     UtxosByOutRef [(sh, 0)], UtxosAt addr, GetWalletUtxos, SubmitTx]"
  by (simp_all add: create_ship_world_def prepare_world_def log_call_def)

lemma tx_new_utxos_create_ship_tx [simp]:
  "tx_new_utxos h (create_ship_tx ar sr a sa aa su pu au sd ad v) =
     [output_utxo h 0 \<lparr>address = sa, assets = js_object [(su, 1), (''lovelace'', ship_output_lovelace)],
        datum = Some sd, scriptRef = None\<rparr>,
      output_utxo h 1 \<lparr>address = aa, assets = js_object [(au, 1), (''lovelace'', v)],
        datum = Some ad, scriptRef = None\<rparr>]"
  by (simp add: tx_new_utxos_def upt_rec)

lemma tx_spent_create_ship_tx [simp]: "tx_spent (create_ship_tx ar sr a sa aa su pu au sd ad v) = [out_ref a]"
  by (simp add: tx_spent_def)

lemma toUnit_not_lovelace: "toUnit p n = Inr u \<Longrightarrow> u \<noteq> ''lovelace''"
  using toUnit_length [of p n u] by auto

lemma shipTokenName_neq_pilotTokenName: "shipTokenName i \<noteq> pilotTokenName j"
  by (simp add: shipTokenName_def pilotTokenName_def fromText_inj)

lemma shipTokenName_inj: "shipTokenName i = shipTokenName j \<longleftrightarrow> i = j"
  by (simp add: shipTokenName_def fromText_inj bigint_to_string_inj)

lemma pilotTokenName_inj: "pilotTokenName i = pilotTokenName j \<longleftrightarrow> i = j"
  by (simp add: pilotTokenName_def fromText_inj bigint_to_string_inj)

lemma ship_pilot_units_distinct:
  "toUnit p (shipTokenName c) = Inr su \<Longrightarrow> toUnit p (pilotTokenName c) = Inr pu \<Longrightarrow> su \<noteq> pu"
  using shipTokenName_neq_pilotTokenName by (auto simp: toUnit_Inr_iff)

text \<open>Token names are ASCII: two hex digits per character of \<open>"SHIP"\<close> or
  \<open>"PILOT"\<close> and of the decimal counter; \<open>toUnit\<close> accepts them up to 64 hex digits,
  that is up to 28 and 27 decimal digits of the counter.\<close>

lemma length_shipTokenName: "length (shipTokenName c) = 2 * (4 + length (bigint_to_string c))"
proof -
  have "(of_char ch :: nat) < 128" if "ch \<in> set (''SHIP'' @ bigint_to_string c)" for ch
    using that bigint_to_string_ascii by auto
  then have "length (fromText (''SHIP'' @ bigint_to_string c)) = 2 * length (''SHIP'' @ bigint_to_string c)"
    by (rule length_fromText_ascii)
  then show ?thesis by (simp add: shipTokenName_def)
qed

lemma length_pilotTokenName: "length (pilotTokenName c) = 2 * (5 + length (bigint_to_string c))"
proof -
  have "(of_char ch :: nat) < 128" if "ch \<in> set (''PILOT'' @ bigint_to_string c)" for ch
    using that bigint_to_string_ascii by auto
  then have "length (fromText (''PILOT'' @ bigint_to_string c)) = 2 * length (''PILOT'' @ bigint_to_string c)"
    by (rule length_fromText_ascii)
  then show ?thesis by (simp add: pilotTokenName_def)
qed

lemma shipTokenName_ascii: "ch \<in> set (''SHIP'' @ bigint_to_string c) \<Longrightarrow> (of_char ch :: nat) < 128"
  using bigint_to_string_ascii by auto

lemma pilotTokenName_ascii: "ch \<in> set (''PILOT'' @ bigint_to_string c) \<Longrightarrow> (of_char ch :: nat) < 128"
  using bigint_to_string_ascii by auto

lemma ship_unit_ok:
  "length p = 56 \<Longrightarrow> 0 \<le> c \<Longrightarrow> c < 10 ^ 28 \<Longrightarrow> toUnit p (shipTokenName c) = Inr (p @ shipTokenName c)"
  using length_bigint_to_string [of c 28] by (simp add: toUnit_Inr_iff length_shipTokenName)

lemma pilot_unit_ok:
  "length p = 56 \<Longrightarrow> 0 \<le> c \<Longrightarrow> c < 10 ^ 27 \<Longrightarrow> toUnit p (pilotTokenName c) = Inr (p @ pilotTokenName c)"
  using length_bigint_to_string [of c 27] by (simp add: toUnit_Inr_iff length_pilotTokenName)

lemma pilot_unit_bound: "toUnit p (pilotTokenName c) = Inr u \<Longrightarrow> c < 10 ^ 27"
proof (rule ccontr)
  assume u: "toUnit p (pilotTokenName c) = Inr u" and "\<not> c < 10 ^ 27"
  then have "27 < length (bigint_to_string c)" by (intro length_bigint_to_string_ge) simp
  then have "64 < length (pilotTokenName c)" by (simp add: length_pilotTokenName)
  with u show False by (simp add: toUnit_Inr_iff)
qed

lemma ship_unit_overflow:
  "length p = 56 \<Longrightarrow> 10 ^ 28 \<le> c \<Longrightarrow>
   toUnit p (shipTokenName c) = Inl (Error ''Asset name size exceeds 32 bytes.'')"
  using length_bigint_to_string_ge [of 28 c] by (simp add: toUnit_def length_shipTokenName)

lemma pilot_unit_overflow:
  "length p = 56 \<Longrightarrow> 10 ^ 27 \<le> c \<Longrightarrow>
   toUnit p (pilotTokenName c) = Inl (Error ''Asset name size exceeds 32 bytes.'')"
  using length_bigint_to_string_ge [of 27 c] by (simp add: toUnit_def length_pilotTokenName)

section \<open>The handler\<close>

text \<open>The conditions under which \<open>prepareCreateShip\<close> returns a transaction, as an
  introduction and an elimination rule.\<close>

lemma prepareCreateShip_success:
  assumes seed: "js_truthy_string (env_seed w) = Some s"
    and aref: "ref_output w ah = Some ar" "scriptRef ar = Some asc"
    and sref: "ref_output w sh = Some sr" "scriptRef sr = Some ssc"
    and ast: "js_first (filter (\<lambda>u. address u = ScriptAddress (hashScript w asc)) (chain w)) = Some a"
    and dat: "datum a = Some (asteria_to_data d)"
    and units: "toUnit (policy adm) (name adm) = Inr au"
      "toUnit (hashScript w ssc) (shipTokenName (ship_counter d)) = Inr su"
      "toUnit (hashScript w ssc) (pilotTokenName (ship_counter d)) = Inr pu"
    and ada: "map_of (assets a) ''lovelace'' = Some ada"
  shows "prepareCreateShip ah sh adm fee f x y w =
           (Inr (ship_tx_of w ar asc sr ssc a d au su pu ada fee f x y),
            prepare_world w s ah sh (ScriptAddress (hashScript w asc)))"
proof -
  let ?w1 = "(log_call GetProtocolParameters w)\<lparr>wallet := Some s\<rparr>"
  let ?w2 = "log_call (UtxosByOutRef [(sh, 0)]) (log_call (UtxosByOutRef [(ah, 0)]) ?w1)"
  let ?refs = "\<lparr>asteriaRef = ar, asteriaAddressBech32 = ScriptAddress (hashScript w asc),
              spacetimeRef = sr, shipyardPolicyId = hashScript w ssc,
              spacetimeAddressBech32 = ScriptAddress (hashScript w ssc)\<rparr>"
  have 1: "initWallet w = (Inr (), ?w1)"
    using seed by (simp add: initWallet_Inr)
  have 2: "resolveReferences ah sh ?w1 = (Inr ?refs, ?w2)"
    using aref sref by (simp add: resolveReferences_Inr ref_output_def)
  have 3: "readAsteria (ScriptAddress (hashScript w asc)) ?w2 =
             (Inr (a, d), prepare_world w s ah sh (ScriptAddress (hashScript w asc)))"
    using ast dat by (simp add: readAsteria_Inr prepare_world_def)
  have 4: "buildCreateShipTx ?refs a d adm fee f x y = Inr (ship_tx_of w ar asc sr ssc a d au su pu ada fee f x y)"
    using units ada by (simp add: buildCreateShipTx_Inr)
  show ?thesis
    by (simp add: prepareCreateShip_def io_bind_def 1 2 3 4)
qed


lemma prepareCreateShip_InrE:
  assumes "prepareCreateShip ah sh adm fee f x y w = (Inr tx, w')"
  obtains (prepared) s ar asc sr ssc a d au su pu ada where
    "js_truthy_string (env_seed w) = Some s"
    "ref_output w ah = Some ar" "scriptRef ar = Some asc"
    "ref_output w sh = Some sr" "scriptRef sr = Some ssc"
    "js_first (filter (\<lambda>u. address u = ScriptAddress (hashScript w asc)) (chain w)) = Some a"
    "datum a = Some (asteria_to_data d)"
    "toUnit (policy adm) (name adm) = Inr au"
    "toUnit (hashScript w ssc) (shipTokenName (ship_counter d)) = Inr su"
    "toUnit (hashScript w ssc) (pilotTokenName (ship_counter d)) = Inr pu"
    "map_of (assets a) ''lovelace'' = Some ada"
    "tx = ship_tx_of w ar asc sr ssc a d au su pu ada fee f x y"
    "w' = prepare_world w s ah sh (ScriptAddress (hashScript w asc))"
proof -
  from assms obtain u w1 refs w2 p where
    iw: "initWallet w = (Inr u, w1)" and
    rr: "resolveReferences ah sh w1 = (Inr refs, w2)" and
    ra: "readAsteria (asteriaAddressBech32 refs) w2 = (Inr p, w')" and
    bt: "buildCreateShipTx refs (fst p) (snd p) adm fee f x y = Inr tx"
    by (auto simp: prepareCreateShip_def io_bind_eq_Inr split_beta)
  from iw obtain s where s: "js_truthy_string (env_seed w) = Some s"
    and w1: "w1 = (log_call GetProtocolParameters w)\<lparr>wallet := Some s\<rparr>"
    by (auto simp: initWallet_Inr)
  from rr w1 obtain ar asc sr ssc where refs:
    "ref_output w ah = Some ar" "scriptRef ar = Some asc"
    "ref_output w sh = Some sr" "scriptRef sr = Some ssc"
    and refs_eq: "refs = \<lparr>asteriaRef = ar, asteriaAddressBech32 = ScriptAddress (hashScript w asc),
              spacetimeRef = sr, shipyardPolicyId = hashScript w ssc,
              spacetimeAddressBech32 = ScriptAddress (hashScript w ssc)\<rparr>"
    and w2: "w2 = log_call (UtxosByOutRef [(sh, 0)]) (log_call (UtxosByOutRef [(ah, 0)]) w1)"
    by (auto simp: resolveReferences_Inr ref_output_def)
  obtain a d where p: "p = (a, d)" by (cases p)
  from ra refs_eq w2 w1 p have ad:
    "js_first (filter (\<lambda>u. address u = ScriptAddress (hashScript w asc)) (chain w)) = Some a"
    "datum a = Some (asteria_to_data d)"
    and w3: "w' = prepare_world w s ah sh (ScriptAddress (hashScript w asc))"
    by (simp_all add: readAsteria_Inr prepare_world_def)
  from bt refs_eq p obtain au su pu ada where units:
    "toUnit (policy adm) (name adm) = Inr au"
    "toUnit (hashScript w ssc) (shipTokenName (ship_counter d)) = Inr su"
    "toUnit (hashScript w ssc) (pilotTokenName (ship_counter d)) = Inr pu"
    "map_of (assets a) ''lovelace'' = Some ada"
    and tx: "tx = ship_tx_of w ar asc sr ssc a d au su pu ada fee f x y"
    by (auto simp: buildCreateShipTx_Inr)
  from s refs ad units tx w3 show ?thesis
    by (rule that)
qed

text \<open>Every failure of \<open>prepareCreateShip\<close> and every run of it leaves the ledger
  as it was: it only reads.\<close>

lemma prepareCreateShip_ledger: "same_ledger w (snd (prepareCreateShip ah sh adm fee f x y w))"
  unfolding prepareCreateShip_def
proof (intro same_ledger_bind)
  show "same_ledger w (snd (initWallet w))" by (rule initWallet_ledger)
  fix u w1 w2 and refs :: ship_refs
  show "same_ledger w1 (snd (resolveReferences ah sh w1))" by (rule resolveReferences_ledger)
  show "same_ledger w2 (snd (readAsteria (asteriaAddressBech32 refs) w2))"
    by (simp add: readAsteria_world)
  fix p w3
  show "same_ledger w3 (snd ((\<lambda>(asteria, asteriaInputDatum). io_lift (buildCreateShipTx refs asteria
          asteriaInputDatum adm fee f x y)) p w3))"
    by (simp add: split_beta)
qed

lemma signAndSubmit_Inl_ledger: "signAndSubmit tx w = (Inl e, w') \<Longrightarrow> same_ledger w w'"
  by (auto simp: signAndSubmit_eq submitTx_def Let_def split: if_splits)

lemma createShip_Inl_ledger:
  "createShip ah sh adm fee f x y w = (Inl e, w') \<Longrightarrow> same_ledger w w'"
  using prepareCreateShip_ledger [of w ah sh adm fee f x y]
  by (auto simp: createShip_def io_bind_eq_Inl dest: signAndSubmit_Inl_ledger intro: same_ledger_trans)

lemma createShip_success:
  assumes seed: "js_truthy_string (env_seed w) = Some s"
    and aref: "ref_output w ah = Some ar" "scriptRef ar = Some asc"
    and sref: "ref_output w sh = Some sr" "scriptRef sr = Some ssc"
    and ast: "js_first (filter (\<lambda>u. address u = ScriptAddress (hashScript w asc)) (chain w)) = Some a"
    and dat: "datum a = Some (asteria_to_data d)"
    and units: "toUnit (policy adm) (name adm) = Inr au"
      "toUnit (hashScript w ssc) (shipTokenName (ship_counter d)) = Inr su"
      "toUnit (hashScript w ssc) (pilotTokenName (ship_counter d)) = Inr pu"
    and ada: "map_of (assets a) ''lovelace'' = Some ada"
    and valid: "tx_valid w (ship_tx_of w ar asc sr ssc a d au su pu ada fee f x y)"
  shows "createShip ah sh adm fee f x y w =
           (Inr (tx_id (tx_count w)),
            apply_tx (ship_tx_of w ar asc sr ssc a d au su pu ada fee f x y)
              (create_ship_world w s ah sh (ScriptAddress (hashScript w asc))))"
proof -
  have p: "prepareCreateShip ah sh adm fee f x y w =
           (Inr (ship_tx_of w ar asc sr ssc a d au su pu ada fee f x y),
            prepare_world w s ah sh (ScriptAddress (hashScript w asc)))"
    by (rule prepareCreateShip_success [OF seed aref sref ast dat units ada])
  have v: "tx_valid (prepare_world w s ah sh (ScriptAddress (hashScript w asc)))
             (ship_tx_of w ar asc sr ssc a d au su pu ada fee f x y)"
    using valid tx_valid_same_ledger [OF prepare_world_fields(3)] by simp
  have ss: "signAndSubmit (ship_tx_of w ar asc sr ssc a d au su pu ada fee f x y)
              (prepare_world w s ah sh (ScriptAddress (hashScript w asc))) =
            (Inr (tx_id (tx_count w)), apply_tx (ship_tx_of w ar asc sr ssc a d au su pu ada fee f x y)
              (create_ship_world w s ah sh (ScriptAddress (hashScript w asc))))"
    using v by (simp add: signAndSubmit_Inr create_ship_world_def)
  show ?thesis
    using p ss by (simp add: createShip_def io_bind_def)
qed

lemma createShip_InrE:
  assumes "createShip ah sh adm fee f x y w = (Inr h, w')"
  obtains (success) s ar asc sr ssc a d au su pu ada where
    "js_truthy_string (env_seed w) = Some s"
    "ref_output w ah = Some ar" "scriptRef ar = Some asc"
    "ref_output w sh = Some sr" "scriptRef sr = Some ssc"
    "js_first (filter (\<lambda>u. address u = ScriptAddress (hashScript w asc)) (chain w)) = Some a"
    "datum a = Some (asteria_to_data d)"
    "toUnit (policy adm) (name adm) = Inr au"
    "toUnit (hashScript w ssc) (shipTokenName (ship_counter d)) = Inr su"
    "toUnit (hashScript w ssc) (pilotTokenName (ship_counter d)) = Inr pu"
    "map_of (assets a) ''lovelace'' = Some ada"
    "tx_valid w (ship_tx_of w ar asc sr ssc a d au su pu ada fee f x y)"
    "h = tx_id (tx_count w)"
    "w' = apply_tx (ship_tx_of w ar asc sr ssc a d au su pu ada fee f x y)
            (create_ship_world w s ah sh (ScriptAddress (hashScript w asc)))"
proof -
  from assms obtain tx w3 where
    pr: "prepareCreateShip ah sh adm fee f x y w = (Inr tx, w3)" and
    ss: "signAndSubmit tx w3 = (Inr h, w')"
    by (auto simp: createShip_def io_bind_eq_Inr)
  from pr show ?thesis
  proof (rule prepareCreateShip_InrE)
    fix s ar asc sr ssc a d au su pu ada
    assume c: "js_truthy_string (env_seed w) = Some s"
      "ref_output w ah = Some ar" "scriptRef ar = Some asc"
      "ref_output w sh = Some sr" "scriptRef sr = Some ssc"
      "js_first (filter (\<lambda>u. address u = ScriptAddress (hashScript w asc)) (chain w)) = Some a"
      "datum a = Some (asteria_to_data d)"
      "toUnit (policy adm) (name adm) = Inr au"
      "toUnit (hashScript w ssc) (shipTokenName (ship_counter d)) = Inr su"
      "toUnit (hashScript w ssc) (pilotTokenName (ship_counter d)) = Inr pu"
      "map_of (assets a) ''lovelace'' = Some ada"
      and tx: "tx = ship_tx_of w ar asc sr ssc a d au su pu ada fee f x y"
      and w3: "w3 = prepare_world w s ah sh (ScriptAddress (hashScript w asc))"
    have sl: "same_ledger w w3" using w3 by simp
    from ss tx w3 tx_valid_same_ledger [OF sl] have
      "tx_valid w (ship_tx_of w ar asc sr ssc a d au su pu ada fee f x y)"
      "h = tx_id (tx_count w)"
      "w' = apply_tx (ship_tx_of w ar asc sr ssc a d au su pu ada fee f x y)
              (create_ship_world w s ah sh (ScriptAddress (hashScript w asc)))"
      using sl by (simp_all add: signAndSubmit_Inr create_ship_world_def same_ledger_def)
    with c show ?thesis by (rule that)
  qed
qed


text \<open>What a successful run did to the ledger, in the terms of the source: the
  consumed Asteria UTxO, its datum and lovelace, the admin unit and the shipyard policy.\<close>

lemma createShip_Inr_effect:
  assumes "createShip ah sh adm fee f x y w = (Inr h, w')"
  obtains (effect) ar asc sr ssc a d ada au where
    "ref_output w ah = Some ar" "scriptRef ar = Some asc"
    "ref_output w sh = Some sr" "scriptRef sr = Some ssc"
    "js_first (filter (\<lambda>u. address u = ScriptAddress (hashScript w asc)) (chain w)) = Some a"
    "a \<in> set (chain w)" "address a = ScriptAddress (hashScript w asc)"
    "datum a = Some (asteria_to_data d)"
    "map_of (assets a) ''lovelace'' = Some ada"
    "toUnit (policy adm) (name adm) = Inr au"
    "length (hashScript w ssc) = 56"
    "h = tx_id (tx_count w)"
    "chain w' = filter (\<lambda>u. out_ref u \<noteq> out_ref a) (chain w) @
       [output_utxo h 0 \<lparr>address = ScriptAddress (hashScript w ssc),
          assets = [(hashScript w ssc @ shipTokenName (ship_counter d), 1), (''lovelace'', ship_output_lovelace)],
          datum = Some (ship_to_data (shipInfo f x y (ship_counter d))), scriptRef = None\<rparr>,
        output_utxo h 1 \<lparr>address = address a, assets = [(au, 1), (''lovelace'', ada + fee)],
          datum = Some (asteria_to_data (asteriaInfo d)), scriptRef = None\<rparr>]"
    "history w' = history w @
       [output_utxo h 0 \<lparr>address = ScriptAddress (hashScript w ssc),
          assets = [(hashScript w ssc @ shipTokenName (ship_counter d), 1), (''lovelace'', ship_output_lovelace)],
          datum = Some (ship_to_data (shipInfo f x y (ship_counter d))), scriptRef = None\<rparr>,
        output_utxo h 1 \<lparr>address = address a, assets = [(au, 1), (''lovelace'', ada + fee)],
          datum = Some (asteria_to_data (asteriaInfo d)), scriptRef = None\<rparr>]"
    "minted w' = minted w @ [(hashScript w ssc @ shipTokenName (ship_counter d), 1),
                             (hashScript w ssc @ pilotTokenName (ship_counter d), 1)]"
    "tx_count w' = Suc (tx_count w)" "hashScript w' = hashScript w"
    "node_accepts w' = node_accepts w" "env_seed w' = env_seed w"
    "ship_counter d < 10 ^ 27"
    "calls w' = calls w @ [GetProtocolParameters, UtxosByOutRef [(ah, 0)], UtxosByOutRef [(sh, 0)],
       UtxosAt (ScriptAddress (hashScript w asc)), GetWalletUtxos, SubmitTx]"
proof -
  from assms show ?thesis
  proof (rule createShip_InrE)
    fix s ar asc sr ssc a d au su pu ada
    assume r: "js_truthy_string (env_seed w) = Some s"
      "ref_output w ah = Some ar" "scriptRef ar = Some asc"
      "ref_output w sh = Some sr" "scriptRef sr = Some ssc"
      and a: "js_first (filter (\<lambda>u. address u = ScriptAddress (hashScript w asc)) (chain w)) = Some a"
      and d: "datum a = Some (asteria_to_data d)"
      and au: "toUnit (policy adm) (name adm) = Inr au"
      and su: "toUnit (hashScript w ssc) (shipTokenName (ship_counter d)) = Inr su"
      and pu: "toUnit (hashScript w ssc) (pilotTokenName (ship_counter d)) = Inr pu"
      and ada: "map_of (assets a) ''lovelace'' = Some ada"
      and h: "h = tx_id (tx_count w)"
      and w': "w' = apply_tx (ship_tx_of w ar asc sr ssc a d au su pu ada fee f x y)
                 (create_ship_world w s ah sh (ScriptAddress (hashScript w asc)))"
    have addr: "address a = ScriptAddress (hashScript w asc)" and mem: "a \<in> set (chain w)"
      using js_first_filter_Some [OF a] by simp_all
    have objs: "js_object [(su, 1), (''lovelace'', ship_output_lovelace)] = [(su, 1), (''lovelace'', ship_output_lovelace)]"
      "js_object [(au, 1), (''lovelace'', ada + fee)] = [(au, 1), (''lovelace'', ada + fee)]"
      "js_object [(su, 1), (pu, 1)] = [(su, 1), (pu, 1)]"
      using toUnit_not_lovelace [OF su] toUnit_not_lovelace [OF au] ship_pilot_units_distinct [OF su pu]
      by (simp_all add: js_object_two)
    have units: "su = hashScript w ssc @ shipTokenName (ship_counter d)"
      "pu = hashScript w ssc @ pilotTokenName (ship_counter d)" "length (hashScript w ssc) = 56"
      using su pu by (simp_all add: toUnit_Inr_iff)
    have "ship_counter d < 10 ^ 27" by (rule pilot_unit_bound [OF pu])
    with h show ?thesis
      by (intro that [OF r(2-5) a mem addr d ada au units(3) h])
        (simp_all add: w' objs [unfolded units(1,2)] units addr)
  qed
qed


text \<open>Once the seed is there and both reference outputs carry scripts, the handler is
  the Asteria lookup and the pure build on the world after the three lookups.\<close>

lemma prepareCreateShip_resolved:
  assumes "js_truthy_string (env_seed w) = Some s"
    and "ref_output w ah = Some ar" "scriptRef ar = Some asc"
    and "ref_output w sh = Some sr" "scriptRef sr = Some ssc"
  shows "prepareCreateShip ah sh adm fee f x y w =
           io_bind (readAsteria (ScriptAddress (hashScript w asc)))
             (\<lambda>(a, d). io_lift (buildCreateShipTx
                \<lparr>asteriaRef = ar, asteriaAddressBech32 = ScriptAddress (hashScript w asc),
                 spacetimeRef = sr, shipyardPolicyId = hashScript w ssc,
                 spacetimeAddressBech32 = ScriptAddress (hashScript w ssc)\<rparr> a d adm fee f x y))
             (log_call (UtxosByOutRef [(sh, 0)]) (log_call (UtxosByOutRef [(ah, 0)])
               ((log_call GetProtocolParameters w)\<lparr>wallet := Some s\<rparr>)))"
proof -
  have "initWallet w = (Inr (), (log_call GetProtocolParameters w)\<lparr>wallet := Some s\<rparr>)"
    using assms(1) by (simp add: initWallet_Inr)
  moreover have "resolveReferences ah sh ((log_call GetProtocolParameters w)\<lparr>wallet := Some s\<rparr>) =
      (Inr \<lparr>asteriaRef = ar, asteriaAddressBech32 = ScriptAddress (hashScript w asc),
            spacetimeRef = sr, shipyardPolicyId = hashScript w ssc,
            spacetimeAddressBech32 = ScriptAddress (hashScript w ssc)\<rparr>,
       log_call (UtxosByOutRef [(sh, 0)]) (log_call (UtxosByOutRef [(ah, 0)])
         ((log_call GetProtocolParameters w)\<lparr>wallet := Some s\<rparr>)))"
    using assms(2-5) by (simp add: resolveReferences_Inr ref_output_def)
  ultimately show ?thesis
    by (simp add: prepareCreateShip_def io_bind_def)
qed

lemma ledger_wf_create_ship_world [simp]: "ledger_wf (create_ship_world w s ah sh addr) = ledger_wf w"
  by (simp add: ledger_wf_def)

lemma createShip_ledger_wf: "ledger_wf w \<Longrightarrow> ledger_wf (snd (createShip ah sh adm fee f x y w))"
proof (cases "createShip ah sh adm fee f x y w")
  case (Pair r w')
  assume wf: "ledger_wf w"
  show ?thesis
  proof (cases r)
    case (Inl e)
    with Pair have "same_ledger w w'" by (simp add: createShip_Inl_ledger)
    with Pair wf show ?thesis by (simp add: ledger_wf_same_ledger)
  next
    case (Inr h)
    with Pair have run: "createShip ah sh adm fee f x y w = (Inr h, w')" by simp
    then show ?thesis
    proof (cases rule: createShip_InrE)
      case (success s ar asc sr ssc a d au su pu ada)
      with run wf show ?thesis by (simp add: ledger_wf_apply_tx)
    qed
  qed
qed


text \<open>Once the references resolve and the first UTxO at the Asteria address has a datum,
  the handler's result is decided by \<open>buildCreateShipTx\<close> and, when it builds, by the
  submission.\<close>

lemma createShip_built:
  assumes seed: "js_truthy_string (env_seed w) = Some s"
    and refs: "ref_output w ah = Some ar" "scriptRef ar = Some asc"
      "ref_output w sh = Some sr" "scriptRef sr = Some ssc"
    and ast: "js_first (filter (\<lambda>u. address u = ScriptAddress (hashScript w asc)) (chain w)) = Some a"
    and dat: "datum a = Some (asteria_to_data d)"
  shows "createShip ah sh adm fee f x y w =
           (case buildCreateShipTx
                   \<lparr>asteriaRef = ar, asteriaAddressBech32 = ScriptAddress (hashScript w asc),
                    spacetimeRef = sr, shipyardPolicyId = hashScript w ssc,
                    spacetimeAddressBech32 = ScriptAddress (hashScript w ssc)\<rparr> a d adm fee f x y of
              Inl e \<Rightarrow> (Inl e, prepare_world w s ah sh (ScriptAddress (hashScript w asc)))
            | Inr tx \<Rightarrow> signAndSubmit tx (prepare_world w s ah sh (ScriptAddress (hashScript w asc))))"
proof -
  have "readAsteria (ScriptAddress (hashScript w asc))
          (log_call (UtxosByOutRef [(sh, 0)]) (log_call (UtxosByOutRef [(ah, 0)])
            ((log_call GetProtocolParameters w)\<lparr>wallet := Some s\<rparr>))) =
        (Inr (a, d), prepare_world w s ah sh (ScriptAddress (hashScript w asc)))"
    using ast dat by (simp add: readAsteria_Inr prepare_world_def)
  then show ?thesis
    using prepareCreateShip_resolved [OF seed refs]
    by (simp add: createShip_def io_bind_def split: sum.split)
qed

text \<open>With a 56-digit shipyard policy, a counter in \<open>[0, 10^27)\<close> and a valid admin
  token, the three units are built and only the lovelace entry remains to be read.\<close>

lemma buildCreateShipTx_units:
  assumes "length (shipyardPolicyId R) = 56" "0 \<le> ship_counter d" "ship_counter d < 10 ^ 27"
    and "length (policy adm) = 56" "length (name adm) \<le> 64"
  shows "buildCreateShipTx R a d adm fee f x y =
           (case map_of (assets a) ''lovelace'' of
              None \<Rightarrow> Inl (TypeError ''Cannot mix BigInt and other types, use explicit conversions'')
            | Some ada \<Rightarrow> Inr (create_ship_tx (asteriaRef R) (spacetimeRef R) a
                (spacetimeAddressBech32 R) (asteriaAddressBech32 R)
                (shipyardPolicyId R @ shipTokenName (ship_counter d))
                (shipyardPolicyId R @ pilotTokenName (ship_counter d)) (policy adm @ name adm)
                (ship_to_data (shipInfo f x y (ship_counter d))) (asteria_to_data (asteriaInfo d))
                (ada + fee)))"
proof -
  have "toUnit (shipyardPolicyId R) (shipTokenName (ship_counter d)) =
          Inr (shipyardPolicyId R @ shipTokenName (ship_counter d))"
    using assms by (simp add: ship_unit_ok)
  moreover have "toUnit (shipyardPolicyId R) (pilotTokenName (ship_counter d)) =
          Inr (shipyardPolicyId R @ pilotTokenName (ship_counter d))"
    using assms by (simp add: pilot_unit_ok)
  moreover have "toUnit (policy adm) (name adm) = Inr (policy adm @ name adm)"
    using assms by (simp add: toUnit_Inr_iff)
  ultimately show ?thesis
    by (simp add: buildCreateShipTx_def split: option.split)
qed

end
