(* ===== verification/Protocol.thy ===== *)
theory Protocol
  imports CreateShip
begin

text \<open>
  The Asteria protocol as the bot drives it: one deployment (the two reference
  transactions \<open>ah\<close>, \<open>sh\<close>), any number of \<open>createShip\<close> runs with any admin token,
  fee, fuel and position, each run succeeding or failing. \<open>ship_step\<close> is one run;
  its reflexive-transitive closure the reachable worlds. The abstraction
  \<open>abs_world\<close> reads the protocol state the spec speaks of from a world: the datum of
  the single UTxO at the Asteria address, and the minted assets. \<open>abs_create\<close> is the
  spec's transition (section 4.2, steps 3--6): counter plus one, one ship and one pilot
  token named from the counter before the increment.
\<close>

inductive ship_step :: "hex \<Rightarrow> hex \<Rightarrow> world \<Rightarrow> world \<Rightarrow> bool" for ah sh where
  run: "createShip ah sh adm fee f x y w = (r, w') \<Longrightarrow> ship_step ah sh w w'"

text \<open>The successful runs only: those that return a transaction hash.\<close>

inductive ship_success :: "hex \<Rightarrow> hex \<Rightarrow> world \<Rightarrow> world \<Rightarrow> bool" for ah sh where
  run: "createShip ah sh adm fee f x y w = (Inr h, w') \<Longrightarrow> ship_success ah sh w w'"

text \<open>The hash of the script of output 0 of \<open>h\<close>, as \<open>fetchReferenceScript\<close> finds it.\<close>

definition script_hash_of :: "world \<Rightarrow> hex \<Rightarrow> hex option" where
  "script_hash_of w h =
     (case ref_output w h of None \<Rightarrow> None | Some r \<Rightarrow> map_option (hashScript w) (scriptRef r))"

text \<open>The Asteria state: the datum of the only UTxO at the address, if there is exactly
  one and its datum decodes.\<close>

definition asteria_state :: "world \<Rightarrow> address \<Rightarrow> asteria_datum option" where
  "asteria_state w addr =
     (case filter (\<lambda>u. address u = addr) (chain w) of
        [u] \<Rightarrow> (case datum u of
                 None \<Rightarrow> None
               | Some v \<Rightarrow> (case asteria_from_data v of Inl _ \<Rightarrow> None | Inr d \<Rightarrow> Some d))
      | _ \<Rightarrow> None)"

definition abs_world :: "hex \<Rightarrow> world \<Rightarrow> (asteria_datum \<times> assets) option" where
  "abs_world ha w = map_option (\<lambda>d. (d, minted w)) (asteria_state w (ScriptAddress ha))"

text \<open>The spec's transition on the abstract state, under the shipyard policy \<open>hs\<close>.\<close>

definition abs_create :: "hex \<Rightarrow> asteria_datum \<times> assets \<Rightarrow> asteria_datum \<times> assets" where
  "abs_create hs s =
     (let d = fst s; c = ship_counter d
      in (\<lparr>ship_counter = c + 1, shipyard_policy = shipyard_policy d\<rparr>,
          snd s @ [(hs @ fromText (''SHIP'' @ bigint_to_string c), 1),
                   (hs @ fromText (''PILOT'' @ bigint_to_string c), 1)]))"

text \<open>The tokens minted while the counter went from \<open>c0\<close> to \<open>c\<close>.\<close>

definition minted_names :: "hex \<Rightarrow> int \<Rightarrow> int \<Rightarrow> assets" where
  "minted_names hs c0 c =
     concat (map (\<lambda>k. [(hs @ shipTokenName k, 1), (hs @ pilotTokenName k, 1)]) [c0..c - 1])"

text \<open>A deployment: well-formed ledger, both reference outputs with scripts, and two
  different scripts (so the Spacetime address is not the Asteria address).\<close>

definition deployed :: "hex \<Rightarrow> hex \<Rightarrow> hex \<Rightarrow> hex \<Rightarrow> world \<Rightarrow> bool" where
  "deployed ah sh ha hs w \<longleftrightarrow>
     ledger_wf w \<and> script_hash_of w ah = Some ha \<and> script_hash_of w sh = Some hs \<and> ha \<noteq> hs"

text \<open>The protocol invariant from a start counter \<open>c0\<close>, policy \<open>p\<close> and minted list
  \<open>m0\<close>.\<close>

definition ship_inv ::
  "hex \<Rightarrow> hex \<Rightarrow> hex \<Rightarrow> hex \<Rightarrow> int \<Rightarrow> hex \<Rightarrow> assets \<Rightarrow> world \<Rightarrow> bool" where
  "ship_inv ah sh ha hs c0 p m0 w \<longleftrightarrow>
     deployed ah sh ha hs w \<and>
     (case asteria_state w (ScriptAddress ha) of
        None \<Rightarrow> False
      | Some d \<Rightarrow> c0 \<le> ship_counter d \<and> shipyard_policy d = p \<and>
                  minted w = m0 @ minted_names hs c0 (ship_counter d))"

text \<open>What the next run needs of the ledger beyond the invariant: both reference
  outputs live, and the Asteria UTxO distinct from them and holding a lovelace entry.\<close>

definition progress_inv :: "hex \<Rightarrow> hex \<Rightarrow> hex \<Rightarrow> world \<Rightarrow> bool" where
  "progress_inv ah sh ha w \<longleftrightarrow>
     live w (ah, 0) \<and> live w (sh, 0) \<and>
     (case filter (\<lambda>u. address u = ScriptAddress ha) (chain w) of
        [u] \<Rightarrow> out_ref u \<noteq> (ah, 0) \<and> out_ref u \<noteq> (sh, 0) \<and> map_of (assets u) ''lovelace'' \<noteq> None
      | _ \<Rightarrow> False)"

section \<open>Lemmas\<close>

lemma ref_output_append:
  "ref_output w h = Some r \<Longrightarrow> history w' = history w @ new \<Longrightarrow> ref_output w' h = Some r"
  by (cases "filter (\<lambda>u. out_ref u \<in> set [(h, 0)]) (history w)") (simp_all add: ref_output_def)

lemma script_hash_of_same_ledger: "same_ledger w w' \<Longrightarrow> script_hash_of w' h = script_hash_of w h"
  by (simp add: script_hash_of_def ref_output_def same_ledger_def cong: option.case_cong)

lemma asteria_state_same_ledger: "same_ledger w w' \<Longrightarrow> asteria_state w' addr = asteria_state w addr"
  by (simp add: asteria_state_def same_ledger_def)

lemma asteria_state_SomeE:
  assumes "asteria_state w addr = Some d"
  obtains u where "filter (\<lambda>u. address u = addr) (chain w) = [u]" "datum u = Some (asteria_to_data d)"
  using assms
  by (auto simp: asteria_state_def split: list.splits option.splits sum.splits
      dest: asteria_to_from_data)

lemma minted_names_step:
  "c0 \<le> c \<Longrightarrow> minted_names hs c0 (c + 1) =
     minted_names hs c0 c @ [(hs @ shipTokenName c, 1), (hs @ pilotTokenName c, 1)]"
  by (simp add: minted_names_def upto_rec2)

lemma minted_names_distinct: "distinct (map fst (minted_names hs c0 c))"
proof -
  have "distinct (map fst (concat (map (\<lambda>k. [(hs @ shipTokenName k, 1::int), (hs @ pilotTokenName k, 1)]) ks)))"
    if "distinct ks" for ks
    using that
    by (induction ks) (auto simp: shipTokenName_neq_pilotTokenName shipTokenName_inj pilotTokenName_inj
        shipTokenName_neq_pilotTokenName [symmetric])
  then show ?thesis by (simp add: minted_names_def)
qed


lemma filter_singleton_remove:
  "filter P xs = [u] \<Longrightarrow> \<not> Q u \<Longrightarrow> filter P (filter Q xs) = []"
proof -
  assume "filter P xs = [u]" "\<not> Q u"
  then have "filter Q (filter P xs) = []" by simp
  then show ?thesis by (simp add: filter_filter conj_commute)
qed

lemma filter_replace_single:
  assumes "filter P xs = [a]" "\<not> P o0" "P o1"
  shows "filter P (filter (\<lambda>u. out_ref u \<noteq> out_ref a) xs @ [o0, o1]) = [o1]"
proof -
  have "filter P (filter (\<lambda>u. out_ref u \<noteq> out_ref a) xs) = []"
    using assms(1) by (intro filter_singleton_remove) simp_all
  with assms(2,3) show ?thesis by simp
qed

lemma ref_output_live_ref: "ref_output w h = Some r \<Longrightarrow> out_ref r = (h, 0)"
  using js_first_filter_Some [of "\<lambda>u. out_ref u \<in> set [(h, 0)]" "history w" r]
  by (simp add: ref_output_def)

text \<open>A successful run on a deployment with an Asteria state: the state advances by
  \<open>asteriaInfo\<close>, the two tokens of the old counter are minted, the deployment stays.\<close>

lemma createShip_step_Inr:
  assumes dep: "deployed ah sh ha hs w" and st: "asteria_state w (ScriptAddress ha) = Some d"
    and run: "createShip ah sh adm fee f x y w = (Inr h, w')"
  shows "deployed ah sh ha hs w' \<and> asteria_state w' (ScriptAddress ha) = Some (asteriaInfo d) \<and>
         minted w' = minted w @ [(hs @ shipTokenName (ship_counter d), 1), (hs @ pilotTokenName (ship_counter d), 1)]"
  using run
proof (cases rule: createShip_Inr_effect)
  case (effect ar asc sr ssc a d' ada au)
  note refs = effect(1-4) and first = effect(5) and addr = effect(7) and da = effect(8)
    and ch = effect(13) and hi = effect(14) and mi = effect(15) and hsc = effect(17)
  have ha: "ha = hashScript w asc" and hs: "hs = hashScript w ssc" and neq: "ha \<noteq> hs"
    and wf: "ledger_wf w"
    using dep refs by (simp_all add: deployed_def script_hash_of_def)
  from st obtain u where u: "filter (\<lambda>u. address u = ScriptAddress ha) (chain w) = [u]"
    and du: "datum u = Some (asteria_to_data d)"
    by (rule asteria_state_SomeE)
  have "a = u" using first u ha by simp
  then have dd: "d' = d" using da du by simp
  have gone: "filter (\<lambda>v. address v = ScriptAddress ha) (filter (\<lambda>v. out_ref v \<noteq> out_ref a) (chain w)) = []"
    using u \<open>a = u\<close> by (intro filter_singleton_remove) simp_all
  have "filter (\<lambda>v. address v = ScriptAddress ha) (chain w') =
          [output_utxo h 1 \<lparr>address = address a, assets = [(au, 1), (''lovelace'', ada + fee)],
             datum = Some (asteria_to_data (asteriaInfo d')), scriptRef = None\<rparr>]"
    using gone neq addr ha hs by (simp add: ch)
  then have st': "asteria_state w' (ScriptAddress ha) = Some (asteriaInfo d)"
    using dd by (simp add: asteria_state_def)
  have "ledger_wf w'"
    using createShip_ledger_wf [OF wf, of ah sh adm fee f x y] run by simp
  moreover have "script_hash_of w' ah = Some ha" "script_hash_of w' sh = Some hs"
    using ref_output_append [OF refs(1) hi] ref_output_append [OF refs(3) hi] refs hsc ha hs
    by (simp_all add: script_hash_of_def)
  ultimately have "deployed ah sh ha hs w'"
    using neq by (simp add: deployed_def)
  with st' mi hs dd show ?thesis by simp
qed

lemma createShip_step_bound:
  assumes dep: "deployed ah sh ha hs w" and st: "asteria_state w (ScriptAddress ha) = Some d"
    and run: "createShip ah sh adm fee f x y w = (Inr h, w')"
  shows "ship_counter d < 10 ^ 27"
  using run
proof (cases rule: createShip_Inr_effect)
  case (effect ar asc sr ssc a d' ada au)
  have ha: "ha = hashScript w asc"
    using dep effect(1,2) by (simp add: deployed_def script_hash_of_def)
  from st obtain u where u: "filter (\<lambda>u. address u = ScriptAddress ha) (chain w) = [u]"
    and du: "datum u = Some (asteria_to_data d)"
    by (rule asteria_state_SomeE)
  have "a = u" using effect(5) u ha by simp
  then have "d' = d" using effect(8) du by simp
  with effect(20) show ?thesis by simp
qed

lemma ship_success_step: "ship_success ah sh w w' \<Longrightarrow> ship_step ah sh w w'"
  by (induction rule: ship_success.induct) (rule ship_step.run)

lemma ship_success_Inr:
  assumes "deployed ah sh ha hs w" "asteria_state w (ScriptAddress ha) = Some d"
    and "ship_success ah sh w w'"
  shows "deployed ah sh ha hs w' \<and> asteria_state w' (ScriptAddress ha) = Some (asteriaInfo d) \<and>
         ship_counter d < 10 ^ 27"
  using assms(3)
proof (cases rule: ship_success.cases)
  case (run adm fee f x y h)
  with createShip_step_Inr [OF assms(1,2) run] createShip_step_bound [OF assms(1,2) run]
  show ?thesis by simp
qed

lemma createShip_step_Inl:
  assumes "createShip ah sh adm fee f x y w = (Inl e, w')"
  shows "deployed ah sh ha hs w' = deployed ah sh ha hs w \<and>
         asteria_state w' addr = asteria_state w addr \<and> minted w' = minted w"
proof -
  have sl: "same_ledger w w'" by (rule createShip_Inl_ledger [OF assms])
  then have "minted w' = minted w" by (simp add: same_ledger_def)
  with ledger_wf_same_ledger [OF sl] script_hash_of_same_ledger [OF sl] asteria_state_same_ledger [OF sl]
  show ?thesis by (simp add: deployed_def)
qed


lemma ship_inv_start:
  "deployed ah sh ha hs w \<Longrightarrow> asteria_state w (ScriptAddress ha) = Some d \<Longrightarrow>
   ship_inv ah sh ha hs (ship_counter d) (shipyard_policy d) (minted w) w"
  by (simp add: ship_inv_def minted_names_def)

lemma ship_inv_step:
  assumes inv: "ship_inv ah sh ha hs c0 p m0 w" and step: "ship_step ah sh w w'"
  shows "ship_inv ah sh ha hs c0 p m0 w'"
  using step
proof (cases rule: ship_step.cases)
  case (run adm fee f x y r)
  from inv obtain d where dep: "deployed ah sh ha hs w" and st: "asteria_state w (ScriptAddress ha) = Some d"
    and c: "c0 \<le> ship_counter d" "shipyard_policy d = p" "minted w = m0 @ minted_names hs c0 (ship_counter d)"
    by (auto simp: ship_inv_def split: option.splits)
  show ?thesis
  proof (cases r)
    case (Inl e)
    with run have "deployed ah sh ha hs w' = deployed ah sh ha hs w \<and>
        asteria_state w' (ScriptAddress ha) = asteria_state w (ScriptAddress ha) \<and> minted w' = minted w"
      by (intro createShip_step_Inl) simp
    with dep st c show ?thesis
      by (simp add: ship_inv_def)
  next
    case (Inr h)
    with run have "deployed ah sh ha hs w' \<and> asteria_state w' (ScriptAddress ha) = Some (asteriaInfo d) \<and>
        minted w' = minted w @ [(hs @ shipTokenName (ship_counter d), 1), (hs @ pilotTokenName (ship_counter d), 1)]"
      by (intro createShip_step_Inr [OF dep st]) simp
    with c show ?thesis
      by (simp add: ship_inv_def asteriaInfo_def minted_names_step)
  qed
qed

lemma ship_inv_reach:
  "(ship_step ah sh)\<^sup>*\<^sup>* w0 w \<Longrightarrow> ship_inv ah sh ha hs c0 p m0 w0 \<Longrightarrow> ship_inv ah sh ha hs c0 p m0 w"
  by (induction rule: rtranclp_induct) (auto intro: ship_inv_step)

lemma ship_step_env:
  assumes "ship_step ah sh w w'"
  shows "env_seed w' = env_seed w \<and> node_accepts w' = node_accepts w \<and> hashScript w' = hashScript w"
  using assms
proof (cases rule: ship_step.cases)
  case (run adm fee f x y r)
  show ?thesis
  proof (cases r)
    case (Inl e)
    with run show ?thesis using createShip_Inl_ledger [of ah sh adm fee f x y w e w']
      by (simp add: same_ledger_def)
  next
    case (Inr h)
    with run show ?thesis by (auto elim: createShip_Inr_effect)
  qed
qed

lemma progress_inv_step:
  assumes dep: "deployed ah sh ha hs w" and pi: "progress_inv ah sh ha w"
    and step: "ship_step ah sh w w'"
  shows "progress_inv ah sh ha w'"
  using step
proof (cases rule: ship_step.cases)
  case (run adm fee f x y r)
  show ?thesis
  proof (cases r)
    case (Inl e)
    with run have "chain w' = chain w"
      using createShip_Inl_ledger [of ah sh adm fee f x y w e w'] by (simp add: same_ledger_def)
    with pi show ?thesis by (simp add: progress_inv_def live_def)
  next
    case (Inr h)
    with run have r: "createShip ah sh adm fee f x y w = (Inr h, w')" by simp
    then show ?thesis
    proof (cases rule: createShip_Inr_effect)
      case (effect ar asc sr ssc a d ada au)
      note refs = effect(1-4) and first = effect(5) and addr = effect(7)
        and ch = effect(13) and uau = effect(10)
      have ha: "ha = hashScript w asc" and hs: "hs = hashScript w ssc" and neq: "ha \<noteq> hs"
        using dep refs by (simp_all add: deployed_def script_hash_of_def)
      from pi obtain u where u: "filter (\<lambda>u. address u = ScriptAddress ha) (chain w) = [u]"
        and nr: "out_ref u \<noteq> (ah, 0)" "out_ref u \<noteq> (sh, 0)"
        and live0: "live w (ah, 0)" "live w (sh, 0)"
        by (auto simp: progress_inv_def split: list.splits)
      have "a = u" using first u ha by simp
      have after: "filter (\<lambda>v. address v = ScriptAddress ha) (chain w') =
          [output_utxo h 1 \<lparr>address = address a, assets = [(au, 1), (''lovelace'', ada + fee)],
             datum = Some (asteria_to_data (asteriaInfo d)), scriptRef = None\<rparr>]"
        unfolding ch using u \<open>a = u\<close> neq addr ha hs by (intro filter_replace_single) simp_all
      have "live w' (ah, 0)" "live w' (sh, 0)"
        using live0 nr \<open>a = u\<close> by (auto simp: live_def ch)
      moreover have "au \<noteq> ''lovelace''" by (rule toUnit_not_lovelace [OF uau])
      ultimately show ?thesis
        using after by (simp add: progress_inv_def)
    qed
  qed
qed

lemma progress_reach:
  assumes "(ship_step ah sh)\<^sup>*\<^sup>* w0 w" "ship_inv ah sh ha hs c0 p m0 w0" "progress_inv ah sh ha w0"
  shows "ship_inv ah sh ha hs c0 p m0 w \<and> progress_inv ah sh ha w \<and>
         env_seed w = env_seed w0 \<and> node_accepts w = node_accepts w0 \<and> hashScript w = hashScript w0"
  using assms
proof (induction rule: rtranclp_induct)
  case base
  then show ?case by simp
next
  case (step w w')
  then have "ship_inv ah sh ha hs c0 p m0 w" "progress_inv ah sh ha w" by simp_all
  moreover from this(1) have "deployed ah sh ha hs w" by (simp add: ship_inv_def)
  ultimately show ?case
    using step ship_inv_step progress_inv_step ship_step_env [OF step(2)] by metis
qed

lemma createShip_progress:
  assumes dep: "deployed ah sh ha hs w" and pi: "progress_inv ah sh ha w"
    and st: "asteria_state w (ScriptAddress ha) = Some d"
    and seed: "env_seed w = Some s" "s \<noteq> []" and node: "\<forall>t. node_accepts w t"
    and hs: "length hs = 56" and c: "0 \<le> ship_counter d" "ship_counter d < 10 ^ 27"
    and adm: "length (policy adm) = 56" "length (name adm) \<le> 64"
  shows "\<exists>h w'. createShip ah sh adm fee f x y w = (Inr h, w')"
proof -
  from dep obtain ar asc sr ssc where refs: "ref_output w ah = Some ar" "scriptRef ar = Some asc"
      "ref_output w sh = Some sr" "scriptRef sr = Some ssc"
    and ha: "ha = hashScript w asc" and hsc: "hs = hashScript w ssc"
    by (auto simp: deployed_def script_hash_of_def split: option.splits)
  from st obtain u where u: "filter (\<lambda>u. address u = ScriptAddress ha) (chain w) = [u]"
    and dat: "datum u = Some (asteria_to_data d)"
    by (rule asteria_state_SomeE)
  from pi u obtain ada where ada: "map_of (assets u) ''lovelace'' = Some ada"
    and live: "live w (ah, 0)" "live w (sh, 0)"
    by (auto simp: progress_inv_def)
  have ast: "js_first (filter (\<lambda>u. address u = ScriptAddress (hashScript w asc)) (chain w)) = Some u"
    using u ha by simp
  have "u \<in> set (filter (\<lambda>u. address u = ScriptAddress ha) (chain w))"
    using u by simp
  then have "live w (out_ref u)" by (simp add: live_def)
  moreover have "out_ref ar = (ah, 0)" "out_ref sr = (sh, 0)"
    using refs by (simp_all add: ref_output_live_ref)
  ultimately have valid: "tx_valid w (ship_tx_of w ar asc sr ssc u d (policy adm @ name adm)
      (hashScript w ssc @ shipTokenName (ship_counter d))
      (hashScript w ssc @ pilotTokenName (ship_counter d)) ada fee f x y)"
    using live node by (simp add: tx_valid_def)
  have units: "toUnit (policy adm) (name adm) = Inr (policy adm @ name adm)"
    "toUnit (hashScript w ssc) (shipTokenName (ship_counter d)) =
       Inr (hashScript w ssc @ shipTokenName (ship_counter d))"
    "toUnit (hashScript w ssc) (pilotTokenName (ship_counter d)) =
       Inr (hashScript w ssc @ pilotTokenName (ship_counter d))"
    using adm hs hsc c ship_unit_ok [of "hashScript w ssc" "ship_counter d"]
      pilot_unit_ok [of "hashScript w ssc" "ship_counter d"]
    by (simp_all add: toUnit_Inr_iff)
  have "js_truthy_string (env_seed w) = Some s"
    using seed by (simp add: js_truthy_string_def)
  from createShip_success [OF this refs ast dat units ada valid] show ?thesis by blast
qed

end
