(* ===== verification/Scenario.thy ===== *)
theory Scenario
  imports Protocol
begin

text \<open>
  A concrete deployment used to evaluate the handler: two reference outputs (\<open>0a#0\<close>
  with the Asteria validator, \<open>0b#0\<close> with the Spacetime validator and shipyard
  policy), script hashes of 56 hex digits, one Asteria UTxO holding the admin token and
  5 ADA with counter \<open>c\<close>, a seed in the environment and a node that accepts every
  transaction that passes the ledger checks. The variants below remove one ingredient
  each, to reach the error branches of \<open>createShip\<close>.
\<close>

definition demo_asteria_hash :: hex where
  "demo_asteria_hash = replicate 56 (CHR ''a'')"

definition demo_spacetime_hash :: hex where
  "demo_spacetime_hash = replicate 56 (CHR ''b'')"

definition demo_hash :: "script \<Rightarrow> hex" where
  "demo_hash s = (if s = ''asteria'' then demo_asteria_hash else demo_spacetime_hash)"

definition demo_admin :: asset_class where
  "demo_admin = \<lparr>policy = replicate 56 (CHR ''c''), name = ''41444d494e''\<rparr>"

definition demo_ref :: "hex \<Rightarrow> script \<Rightarrow> utxo" where
  "demo_ref h s = \<lparr>address = KeyAddress ''deployer'', assets = [(''lovelace'', 20000000)],
     datum = None, scriptRef = Some s, txHash = h, outputIndex = 0\<rparr>"

definition demo_asteria :: "int \<Rightarrow> utxo" where
  "demo_asteria c = \<lparr>address = ScriptAddress demo_asteria_hash,
     assets = [(replicate 56 (CHR ''c'') @ ''41444d494e'', 1), (''lovelace'', 5000000)],
     datum = Some (asteria_to_data \<lparr>ship_counter = c, shipyard_policy = demo_spacetime_hash\<rparr>),
     scriptRef = None, txHash = ''0c'', outputIndex = 0\<rparr>"

definition demo_world_with :: "utxo list \<Rightarrow> world" where
  "demo_world_with us = \<lparr>env_seed = Some ''seed'', wallet = None,
     chain = us, history = us, minted = [], tx_count = 0, calls = [], hashScript = demo_hash,
     node_accepts = (\<lambda>_. True)\<rparr>"

definition demo_world_at :: "int \<Rightarrow> world" where
  "demo_world_at c =
     demo_world_with [demo_ref ''0a'' ''asteria'', demo_ref ''0b'' ''spacetime'', demo_asteria c]"

text \<open>The same deployment where the Asteria reference output carries no script.\<close>

definition demo_world_noscript :: world where
  "demo_world_noscript =
     demo_world_with [(demo_ref ''0a'' ''asteria'')\<lparr>scriptRef := None\<rparr>, demo_ref ''0b'' ''spacetime'',
                      demo_asteria 5]"

abbreviation demo_world :: world where
  "demo_world \<equiv> demo_world_at 5"

abbreviation demo_run :: "(js_error + hex) \<times> world" where
  "demo_run \<equiv> createShip ''0a'' ''0b'' demo_admin 1000000 50 3 4 demo_world"

abbreviation demo_prepare :: "world \<Rightarrow> (js_error + tx) \<times> world" where
  "demo_prepare \<equiv> prepareCreateShip ''0a'' ''0b'' demo_admin 1000000 50 3 4"

text \<open>The transaction the demo run builds, and the worlds of two clients that prepare
  it one after the other, of the first client's submission, and of the second's.\<close>

definition demo_tx :: tx where
  "demo_tx = projr (fst (demo_prepare demo_world))"

abbreviation demo_w1 :: world where
  "demo_w1 \<equiv> prepare_world demo_world ''seed'' ''0a'' ''0b'' (ScriptAddress demo_asteria_hash)"

abbreviation demo_w2 :: world where
  "demo_w2 \<equiv> prepare_world demo_w1 ''seed'' ''0a'' ''0b'' (ScriptAddress demo_asteria_hash)"

abbreviation demo_w3 :: world where
  "demo_w3 \<equiv> snd (signAndSubmit demo_tx demo_w2)"

lemmas demo_defs = demo_asteria_hash_def demo_spacetime_hash_def demo_hash_def demo_admin_def
  demo_ref_def demo_asteria_def demo_world_with_def demo_world_at_def

text \<open>Evaluation rules for the handler on concrete worlds.\<close>

lemmas demo_eval = demo_defs createShip_def prepareCreateShip_def io_bind_def initWallet_eq
  resolveReferences_def fetchReferenceScript_eq ref_output_def out_ref_def script_of_def
  validatorToAddress_def mintingPolicyToId_def readAsteria_def utxosAt_def buildCreateShipTx_def
  toUnit_def shipTokenName_def pilotTokenName_def signAndSubmit_eq submitTx_def tx_valid_def
  live_def tx_spent_def bigint_to_string_def nat_to_dec_def nat_digits.simps fromText_def
  utf8_encode_def utf8_char_def to_hex_def byte_to_hex_def digit_char_def Let_def

lemma demo_run_ok: "demo_run = (Inr (tx_id 0), snd demo_run)"
proof -
  have "fst demo_run = Inr (tx_id 0)"
    by (simp add: demo_eval)
  then show ?thesis by (simp add: prod_eq_iff)
qed

lemma demo_ledger_wf: "ledger_wf demo_world"
  by (simp add: demo_defs ledger_wf_def tx_index_def toText_def out_ref_def hex_value_def)


lemma demo_prepare_at:
  assumes "chain w = chain demo_world" "history w = history demo_world" "hashScript w = demo_hash"
    "env_seed w = Some ''seed''"
  shows "demo_prepare w = (Inr demo_tx, prepare_world w ''seed'' ''0a'' ''0b'' (ScriptAddress demo_asteria_hash))"
proof -
  have gen: "demo_prepare w' =
      (Inr (ship_tx_of w' (demo_ref ''0a'' ''asteria'') ''asteria'' (demo_ref ''0b'' ''spacetime'')
              ''spacetime'' (demo_asteria 5) \<lparr>ship_counter = 5, shipyard_policy = demo_spacetime_hash\<rparr>
              (replicate 56 (CHR ''c'') @ ''41444d494e'') (demo_spacetime_hash @ shipTokenName 5)
              (demo_spacetime_hash @ pilotTokenName 5) 5000000 1000000 50 3 4),
       prepare_world w' ''seed'' ''0a'' ''0b'' (ScriptAddress (hashScript w' ''asteria'')))"
    if "chain w' = chain demo_world" "history w' = history demo_world" "hashScript w' = demo_hash"
      "env_seed w' = Some ''seed''" for w'
  proof -
    have hs: "demo_hash ''spacetime'' = demo_spacetime_hash" "demo_hash ''asteria'' = demo_asteria_hash"
      by (simp_all add: demo_hash_def)
    show ?thesis
      apply (rule prepareCreateShip_success)
      using that hs by (simp_all add: demo_defs ref_output_def out_ref_def toUnit_Inr_iff length_shipTokenName
            length_pilotTokenName bigint_to_string_def nat_to_dec_def nat_digits.simps)
  qed
  have "demo_tx = ship_tx_of demo_world (demo_ref ''0a'' ''asteria'') ''asteria'' (demo_ref ''0b'' ''spacetime'')
              ''spacetime'' (demo_asteria 5) \<lparr>ship_counter = 5, shipyard_policy = demo_spacetime_hash\<rparr>
              (replicate 56 (CHR ''c'') @ ''41444d494e'') (demo_spacetime_hash @ shipTokenName 5)
              (demo_spacetime_hash @ pilotTokenName 5) 5000000 1000000 50 3 4"
    using gen [of demo_world] by (simp add: demo_tx_def demo_world_at_def demo_world_with_def)
  with gen [OF assms] assms(3) show ?thesis
    by (simp add: demo_world_at_def demo_world_with_def demo_hash_def)
qed

lemma demo_submit: "signAndSubmit demo_tx demo_w2 = (Inr (tx_id 0), demo_w3)"
proof -
  have "demo_prepare demo_world = (Inr demo_tx, demo_w1)"
    by (rule demo_prepare_at) (simp_all add: demo_world_at_def demo_world_with_def)
  then have "fst (signAndSubmit demo_tx demo_w2) = Inr (tx_id 0)"
    by (simp add: demo_tx_def demo_eval prepare_world_def create_ship_tx_def payToContract_def
        collectFrom_def mintAssets_def readFrom_def newTx_def)
  then show ?thesis by (simp add: prod_eq_iff)
qed

lemma demo_deployed: "deployed ''0a'' ''0b'' demo_asteria_hash demo_spacetime_hash demo_world"
  using demo_ledger_wf
  by (simp add: deployed_def script_hash_of_def ref_output_def demo_defs out_ref_def)

lemma demo_asteria_state:
  "asteria_state demo_world (ScriptAddress demo_asteria_hash) =
     Some \<lparr>ship_counter = 5, shipyard_policy = demo_spacetime_hash\<rparr>"
  by (simp add: asteria_state_def demo_world_at_def demo_world_with_def demo_ref_def demo_asteria_def
      demo_asteria_hash_def)

lemma demo_reach: "(ship_step ''0a'' ''0b'')\<^sup>*\<^sup>* demo_world (snd demo_run)"
  using ship_step.run [OF demo_run_ok] by (rule r_into_rtranclp)

lemma demo_progress: "progress_inv ''0a'' ''0b'' demo_asteria_hash demo_world"
  by (simp add: progress_inv_def live_def demo_world_at_def demo_world_with_def demo_ref_def
      demo_asteria_def demo_asteria_hash_def out_ref_def)

lemma demo_asteria_state_after:
  "asteria_state (snd demo_run) (ScriptAddress demo_asteria_hash) =
     Some (asteriaInfo \<lparr>ship_counter = 5, shipyard_policy = demo_spacetime_hash\<rparr>)"
  using createShip_step_Inr [OF demo_deployed demo_asteria_state demo_run_ok] by simp

end
