(* ===== verification/WriteJson.thy ===== *)
theory WriteJson
  imports Utils
begin

text \<open>
  \<open>writeJson\<close> of \<open>src/transactions/utils.ts\<close> (lines 14--21): \<open>JSON.stringify\<close>
  of the data, \<open>Deno.writeTextFileSync\<close> of the text, and a \<open>try\<close>/\<open>catch\<close> that turns
  every exception into its message, returned like the success message.
  \<^item> \<open>js_value\<close> is the JavaScript value given to \<open>JSON.stringify\<close>, as a tree (the
    \<open>('string, 'number) json\<close> layout of Nano_JSON, with \<open>undefined\<close> and BigInt
    added): objects are their own enumerable properties in enumeration order, numbers
    are integral (a \<open>Number\<close> is modelled by the integer it holds; \<open>NaN\<close>, infinities,
    fractions and \<open>toJSON\<close> methods are not modelled, nor cyclic objects; integral
    Numbers are printed in plain decimal, which JavaScript does below \<open>10^21\<close> only).
  \<^item> \<open>json_stringify\<close> follows ECMA-262 \<open>SerializeJSONProperty\<close>: \<open>undefined\<close>
    gives no text (\<open>None\<close>), is left out of objects and is \<open>null\<close> inside arrays; a BigInt
    throws the \<open>TypeError\<close> \<open>Do not know how to serialize a BigInt\<close>; strings go through
    \<open>QuoteJSONString\<close> (\<open>json_quote\<close>).
  \<^item> The file system is a record of the files' contents and of the error the operating
    system reports for a path that cannot be written (\<open>write_error\<close>, arbitrary).
\<close>

datatype js_value =
    JUndefined
  | JNull
  | JBool bool
  | JNumber int
  | JBigInt int
  | JString string
  | JArray "js_value list"
  | JObject "(string \<times> js_value) list"

record fs_state =
  files :: "string \<Rightarrow> string option"
  write_error :: "string \<Rightarrow> string option"

text \<open>The exception V8 throws when \<open>JSON.stringify\<close> meets a BigInt.\<close>

definition bigint_error :: js_error where
  "bigint_error = TypeError ''Do not know how to serialize a BigInt''"

definition json_dq :: char where "json_dq = CHR 0x22"

definition json_bs :: char where "json_bs = CHR 0x5C"

text \<open>\<open>QuoteJSONString\<close> on one code unit: the two-character escapes, \<open>\u00XX\<close> with
  lower-case hex digits for the other control characters, the character itself otherwise.\<close>

definition json_escape_char :: "char \<Rightarrow> string" where
  "json_escape_char c =
     (let n = (of_char c :: nat)
      in if n = 8 then [json_bs, CHR ''b'']
         else if n = 9 then [json_bs, CHR ''t'']
         else if n = 10 then [json_bs, CHR ''n'']
         else if n = 12 then [json_bs, CHR ''f'']
         else if n = 13 then [json_bs, CHR ''r'']
         else if c = json_dq then [json_bs, json_dq]
         else if c = json_bs then [json_bs, json_bs]
         else if n < 32 then [json_bs, CHR ''u'', CHR ''0'', CHR ''0'', hex_digit (n div 16), hex_digit (n mod 16)]
         else [c])"

definition json_quote :: "string \<Rightarrow> string" where
  "json_quote s = json_dq # concat (map json_escape_char s) @ [json_dq]"

fun join_with :: "string \<Rightarrow> string list \<Rightarrow> string" where
  "join_with sep [] = []"
| "join_with sep [x] = x"
| "join_with sep (x # xs) = x @ sep @ join_with sep xs"

fun json_stringify :: "js_value \<Rightarrow> js_error + string option"
  and json_elems :: "js_value list \<Rightarrow> js_error + string list"
  and json_props :: "(string \<times> js_value) list \<Rightarrow> js_error + string list" where
  "json_stringify JUndefined = Inr None"
| "json_stringify JNull = Inr (Some ''null'')"
| "json_stringify (JBool b) = Inr (Some (if b then ''true'' else ''false''))"
| "json_stringify (JNumber n) = Inr (Some (bigint_to_string n))"
| "json_stringify (JBigInt n) = Inl bigint_error"
| "json_stringify (JString s) = Inr (Some (json_quote s))"
| "json_stringify (JArray vs) =
     (case json_elems vs of Inl e \<Rightarrow> Inl e | Inr ts \<Rightarrow> Inr (Some (''['' @ join_with '','' ts @ '']'')))"
| "json_stringify (JObject ps) =
     (case json_props ps of Inl e \<Rightarrow> Inl e | Inr ts \<Rightarrow> Inr (Some (''{'' @ join_with '','' ts @ ''}'')))"
| "json_elems [] = Inr []"
| "json_elems (v # vs) =
     (case json_stringify v of
        Inl e \<Rightarrow> Inl e
      | Inr t \<Rightarrow> (case json_elems vs of
                   Inl e \<Rightarrow> Inl e
                 | Inr ts \<Rightarrow> Inr ((case t of None \<Rightarrow> ''null'' | Some x \<Rightarrow> x) # ts)))"
| "json_props [] = Inr []"
| "json_props ((k, v) # ps) =
     (case json_stringify v of
        Inl e \<Rightarrow> Inl e
      | Inr t \<Rightarrow> (case json_props ps of
                   Inl e \<Rightarrow> Inl e
                 | Inr ts \<Rightarrow> Inr (case t of None \<Rightarrow> ts | Some x \<Rightarrow> (json_quote k @ '':'' @ x) # ts)))"

text \<open>\<open>e.message\<close> of a caught exception.\<close>

definition js_message :: "js_error \<Rightarrow> string" where
  "js_message e = (case e of Error m \<Rightarrow> m | TypeError m \<Rightarrow> m | RemoteError m \<Rightarrow> m
                   | CastError \<Rightarrow> ''Could not type cast to object.'')"

text \<open>\<open>Deno.writeTextFileSync(path, text)\<close>: \<open>undefined\<close> is encoded as the empty text
  (\<open>TextEncoder.encode\<close>'s default).\<close>

definition writeTextFileSync :: "string \<Rightarrow> string option \<Rightarrow> fs_state \<Rightarrow> js_error + fs_state" where
  "writeTextFileSync path text fs =
     (case write_error fs path of
        Some m \<Rightarrow> Inl (Error m)
      | None \<Rightarrow> Inr (fs\<lparr>files := (files fs)(path \<mapsto> (case text of None \<Rightarrow> [] | Some t \<Rightarrow> t))\<rparr>))"

definition writeJson :: "string \<Rightarrow> js_value \<Rightarrow> fs_state \<Rightarrow> string \<times> fs_state" where
  "writeJson path data fs =
     (case json_stringify data of
        Inl e \<Rightarrow> (js_message e, fs)
      | Inr text \<Rightarrow> (case writeTextFileSync path text fs of
                      Inl e \<Rightarrow> (js_message e, fs)
                    | Inr fs' \<Rightarrow> (''Written to '' @ path, fs')))"

text \<open>Whether a BigInt occurs anywhere in a value.\<close>

fun has_bigint :: "js_value \<Rightarrow> bool"
  and has_bigint_list :: "js_value list \<Rightarrow> bool"
  and has_bigint_props :: "(string \<times> js_value) list \<Rightarrow> bool" where
  "has_bigint JUndefined = False"
| "has_bigint JNull = False"
| "has_bigint (JBool b) = False"
| "has_bigint (JNumber n) = False"
| "has_bigint (JBigInt n) = True"
| "has_bigint (JString s) = False"
| "has_bigint (JArray vs) = has_bigint_list vs"
| "has_bigint (JObject ps) = has_bigint_props ps"
| "has_bigint_list [] = False"
| "has_bigint_list (v # vs) = (has_bigint v \<or> has_bigint_list vs)"
| "has_bigint_props [] = False"
| "has_bigint_props ((k, v) # ps) = (has_bigint v \<or> has_bigint_props ps)"

section \<open>Lemmas\<close>

text \<open>\<open>JSON.stringify\<close> throws exactly when a BigInt occurs, and then the BigInt error.\<close>

lemma json_stringify_error:
  "(\<forall>e. json_stringify v = Inl e \<longrightarrow> e = bigint_error) \<and> isl (json_stringify v) = has_bigint v"
  "(\<forall>e. json_elems vs = Inl e \<longrightarrow> e = bigint_error) \<and> isl (json_elems vs) = has_bigint_list vs"
  "(\<forall>e. json_props ps = Inl e \<longrightarrow> e = bigint_error) \<and> isl (json_props ps) = has_bigint_props ps"
  by (induction v and vs and ps rule: json_stringify_json_elems_json_props.induct)
     (auto simp: bigint_error_def split: sum.splits option.splits)

lemma json_stringify_Inl: "json_stringify v = Inl e \<longleftrightarrow> has_bigint v \<and> e = bigint_error"
  using json_stringify_error(1) [of v] by (cases "json_stringify v") auto

lemma json_stringify_Inr: "\<not> has_bigint v \<Longrightarrow> \<exists>t. json_stringify v = Inr t"
  using json_stringify_Inl(1) [of v] by (cases "json_stringify v") auto

lemma writeJson_stringified:
  "json_stringify data = Inr t \<Longrightarrow>
   writeJson path data fs =
     (case write_error fs path of
        Some m \<Rightarrow> (m, fs)
      | None \<Rightarrow> (''Written to '' @ path, fs\<lparr>files := (files fs)(path \<mapsto> (case t of None \<Rightarrow> [] | Some x \<Rightarrow> x))\<rparr>))"
  by (simp add: writeJson_def writeTextFileSync_def js_message_def split: option.split)

end
