(* ===== verification/Spec2Isabelle.thy ===== *)
theory Spec2Isabelle
  imports Scenario WriteJson
begin

text \<open>
  \<^bold>\<open>Verification of asteria-bot-lucid: the create-ship transaction\<close>

  \<^bold>\<open>The program.\<close> \<open>src/transactions/create-ship.ts\<close> defines one handler,
  \<open>createShip\<close>, which builds, signs and submits the Cardano transaction that adds a ship
  to the Asteria game. \<open>src/transactions/utils.ts\<close> gives it \<open>lucidBase\<close> (a Lucid
  instance on a Blockfrost provider) and \<open>fetchReferenceScript\<close> (output 0 of a reference
  transaction, which must carry a script), plus the arithmetic helpers \<open>distance\<close>,
  \<open>required_fuel\<close>, \<open>abs\<close> and the file helper \<open>writeJson\<close>. The handler reads
  the environment, queries the provider four times, computes the new datums and token
  names, builds the transaction with Lucid, and submits it.

  \<^bold>\<open>Theories.\<close>
  \<^item> \<open>Prelude\<close>: JavaScript exceptions as the datatype \<open>js_error\<close>; an \<open>async\<close>
    function as a world-passing state transformer \<open>('s, 'a) io\<close> returning
    \<open>js_error + 'a\<close> (\<open>io_bind\<close>, \<open>io_return\<close>, \<open>io_throw\<close>, \<open>io_lift\<close>), with
    the decomposition rules \<open>io_bind_eq_Inr\<close>/\<open>io_bind_eq_Inl\<close>; object literals with
    computed keys (\<open>js_object\<close>), \<open>xs[0]\<close> (\<open>js_first\<close>) and \<open>!seed\<close>
    (\<open>js_truthy_string\<close>).
  \<^item> \<open>Encoding\<close>: the string conversions the handler relies on, from Lucid 0.10.7 and
    the JavaScript engine: \<open>"SHIP" + counter\<close> (\<open>bigint_to_string\<close>), \<open>fromText\<close>
    (UTF-8 bytes as \<open>8 word\<close>s, printed as lower-case hex by \<open>drop_bit\<close>/\<open>AND\<close>),
    \<open>toText\<close> and \<open>toUnit\<close> with its two checks. Lemmas: decimal, UTF-8 and hex round
    trips (\<open>string_to_bigint_to_string\<close>, \<open>utf8_decode_encode\<close>, \<open>from_hex_to_hex\<close>,
    \<open>toText_fromText\<close>), lengths of the encodings in both directions.
  \<^item> \<open>PlutusData\<close>: the datum schemas of \<open>types.ts\<close> (not in the repository's
    \<open>src/\<close>, modelled from the spec and the usage in \<open>create-ship.ts\<close>) as records, with
    \<open>Data.to\<close>/\<open>Data.from\<close> and their round trips.
  \<^item> \<open>Ledger\<close>: the environment. A \<open>world\<close> record holds \<open>SEED\<close>, the selected
    wallet, the live UTxO list (what \<open>utxosAt\<close> lists), every output ever created (what
    \<open>utxosByOutRef\<close> answers from), the minted assets, the number of submitted
    transactions, the log of provider requests (\<open>calls\<close>), the script hash and the node's
    verdict beyond the ledger rule. The builder calls of Lucid accumulate a \<open>tx\<close>;
    \<open>submitTx\<close> checks that every input and reference input is live and that the node
    accepts, then applies it (\<open>apply_tx\<close>). \<open>ledger_wf\<close> is the ledger invariant
    (live outputs were created, distinct references, no output carries the hash of a future
    transaction), preserved by \<open>apply_tx\<close>.
  \<^item> \<open>Utils\<close>: \<open>lucidBase\<close>, \<open>abs_bigint\<close>, \<open>fetchReferenceScript\<close>,
    \<open>distance\<close>, \<open>required_fuel\<close>, one definition each, with each branch of
    \<open>fetchReferenceScript\<close> as a lemma.
  \<^item> \<open>WriteJson\<close>: \<open>writeJson\<close> (\<open>utils.ts\<close>, lines 14--21). A JavaScript value
    is the tree \<open>js_value\<close> (with \<open>undefined\<close> and BigInt); \<open>json_stringify\<close> follows
    ECMA-262 \<open>SerializeJSONProperty\<close> and \<open>QuoteJSONString\<close> (\<open>json_quote\<close>); the
    file system is a record of file contents and of the error the operating system gives
    for an unwritable path; \<open>writeJson\<close> returns the success text or the caught
    exception's message. Lemma: \<open>JSON.stringify\<close> throws exactly when a BigInt occurs
    (\<open>json_stringify_error\<close>, by mutual induction).
  \<^item> \<open>CreateShip\<close>: the handler. The pure parts keep the source's names
    (\<open>asteriaInfo\<close>, \<open>shipTokenName\<close>, \<open>pilotTokenName\<close>, \<open>shipInfo\<close>, the
    builder chain \<open>create_ship_tx\<close>); the handler is split along its phases, in the order
    of the source: \<open>initWallet\<close> (lines 28--35), \<open>resolveReferences\<close> (37--51),
    \<open>readAsteria\<close> (53--64), \<open>buildCreateShipTx\<close> (59, 66--124, pure, throwing where
    \<open>toUnit\<close> or the BigInt addition throws), \<open>prepareCreateShip\<close> (their composition),
    \<open>signAndSubmit\<close> (125--129) and \<open>createShip\<close> (19--130). Lemmas: one
    characterisation per phase, the introduction and elimination rules of a successful run
    (\<open>createShip_success\<close>, \<open>createShip_InrE\<close>), its effect on the ledger
    (\<open>createShip_Inr_effect\<close>), the frame of every failure (\<open>createShip_Inl_ledger\<close>),
    preservation of \<open>ledger_wf\<close>, and the bounds of the token names under \<open>toUnit\<close>.
  \<^item> \<open>Protocol\<close>: the protocol the bot drives. \<open>ship_step ah sh\<close> is one run of
    \<open>createShip\<close> on a deployment (any admin token, fee, fuel, position; success or
    failure), its reflexive-transitive closure the reachable worlds. \<open>asteria_state\<close>
    reads the datum of the single UTxO at the Asteria address, \<open>abs_world\<close> pairs it
    with the minted assets (the abstraction function), \<open>abs_create\<close> is the spec's
    transition on that abstract state (section 4.2), \<open>ship_inv\<close> the invariant
    (a deployment with two distinct scripts, a well-formed ledger, one Asteria UTxO, and
    the minted assets equal to the tokens of the counters passed, \<open>minted_names\<close>),
    proved preserved by one run (\<open>ship_inv_step\<close>) and by rule induction along runs
    (\<open>ship_inv_reach\<close>), and \<open>progress_inv\<close> (both reference outputs live, the Asteria UTxO
    distinct from them and holding lovelace), preserved along runs together with the seed,
    the node and the script hashes (\<open>progress_reach\<close>), from which the next run succeeds
    (\<open>createShip_progress\<close>). \<open>ship_success ah sh\<close> is the successful runs only; each
    raises the counter by one from below \<open>10 ^ 27\<close> (\<open>ship_success_Inr\<close>).
  \<^item> \<open>Scenario\<close>: a concrete deployment (two reference outputs, an Asteria UTxO with
    counter 5, 56-digit script hashes) and variants of it, on which the handler is
    evaluated by \<open>simp\<close>; the witnesses below use it.
  \<^item> This theory: the properties of the program, C1--C29, and their witnesses.

  \<^bold>\<open>The properties.\<close> C1--C4 are the functional contract of a successful run: the
  counter goes up by one, the names come from the counter before the increment, exactly one
  ship and one pilot token are minted, and the two outputs the handler adds carry exactly
  the assets and datums of the source. C5 is the concurrency hazard of the spec: two runs
  prepared against the same Asteria UTxO cannot both be accepted. C6--C10 are the error
  paths, each with the exception the code really raises and the requests made before it.
  C11 is the liveness of the handler (enough conditions for it to return a transaction
  hash), C12 the counter bound beyond which it always fails. C13 and C14 are the
  uniqueness of the token units, C15 the contract of \<open>fetchReferenceScript\<close>, C16 the
  arithmetic helpers. C17--C19 are the protocol: every run refines the abstract transition
  \<open>abs_create\<close> (a simulation through \<open>abs_world\<close>), the invariant holds in every
  reachable world, and no token is minted twice. C20--C22 are \<open>writeJson\<close>: the file
  written on success, and the BigInt and file-system errors returned as strings. C23 is the
  exact range of counters for which \<open>toUnit\<close> accepts the token names, C24 the error of
  a missing lovelace entry, C25 the liveness of the protocol: no reachable world gets
  stuck while the counter is below the bound. C26 is its termination: successful runs
  through reachable worlds are well-founded (\<open>wfp\<close>, by the measure \<open>10 ^ 27\<close> minus
  the counter), C27 the exact counter after \<open>n\<close> successes and the bound
  \<open>c + n \<le> 10 ^ 27\<close>, C28 the order of the provider requests of a successful run,
  C29 that a successful run spends the Asteria UTxO and leaves its two outputs live.

  \<^bold>\<open>Bounds.\<close> No loop of the program is unbounded: the only recursion is over the
  digits of a number and the bytes of a string, structural or by \<open>div 10\<close>, and every
  definition is total. The constant \<open>10^27\<close> of C11/C12 is where the pilot token name
  \<open>"PILOT" + counter\<close> reaches 33 bytes (66 hex digits), over \<open>toUnit\<close>'s limit
  of 64 hex digits for a name; ship names reach it at \<open>10^28\<close>. The same constant bounds
  the protocol: no more than \<open>10^27 - c\<close> ships can be created from counter \<open>c\<close>.

  \<^bold>\<open>Not modelled.\<close> Of \<open>JSON.stringify\<close>: the exponent form of integral
  Numbers from \<open>10^21\<close> on (printed here in plain decimal), non-integral numbers, \<open>NaN\<close> and
  infinities, \<open>toJSON\<close> methods, symbols and functions, cyclic objects (which throw) and
  code units above 255 (a HOL \<open>char\<close> is a byte); the
  Blockfrost URL and project id (configuration); key derivation from the seed and the
  check that it is a valid mnemonic (\<open>selectWalletFromSeed\<close> accepts any non-empty
  string); coin selection, fees, change and collateral in \<open>complete()\<close>, which the model
  takes as the identity on the transaction the handler built: the real transaction also
  spends wallet UTxOs and adds a change output, so the theorems speak of the inputs,
  outputs and mints the handler adds, never of the whole transaction; CBOR serialisation
  of datums;
  script evaluation on the node (the node's verdict is the world's \<open>node_accepts\<close>,
  an arbitrary predicate, so every theorem holds for every validator); the script hash
  (the world's \<open>hashScript\<close>, an arbitrary function); network failures of the provider
  other than rejection on submission.
\<close>

text \<open>C1: After a successful \<open>createShip\<close> the Asteria UTxO it consumed had a datum with counter \<open>c\<close>, and output 1 of the new transaction sits at the same address with the datum whose counter is \<open>c + 1\<close> and whose shipyard policy is unchanged.\<close>

theorem createShip_increments_counter:
  assumes "createShip ah sh adm fee f x y w = (Inr h, w')"
  shows "\<exists>a d u. a \<in> set (chain w) \<and> datum a = Some (asteria_to_data d) \<and>
           u \<in> set (chain w') \<and> out_ref u = (h, 1) \<and> address u = address a \<and>
           datum u = Some (asteria_to_data \<lparr>ship_counter = ship_counter d + 1,
                                             shipyard_policy = shipyard_policy d\<rparr>)"
  using assms
proof (cases rule: createShip_Inr_effect)
  case (effect ar asc sr ssc a d ada au)
  then show ?thesis by (fastforce simp: asteriaInfo_def)
qed

text \<open>C2: A successful run mints exactly one ship token and one pilot token, named \<open>SHIP<c>\<close> and \<open>PILOT<c>\<close> (UTF-8, hex) from the counter \<open>c\<close> read before the increment, under the policy of the Spacetime reference script, and nothing else.\<close>

theorem createShip_mints_ship_and_pilot:
  assumes "createShip ah sh adm fee f x y w = (Inr h, w')"
  shows "\<exists>sr ssc a d. ref_output w sh = Some sr \<and> scriptRef sr = Some ssc \<and>
           a \<in> set (chain w) \<and> datum a = Some (asteria_to_data d) \<and>
           minted w' = minted w @
             [(hashScript w ssc @ fromText (''SHIP'' @ bigint_to_string (ship_counter d)), 1),
              (hashScript w ssc @ fromText (''PILOT'' @ bigint_to_string (ship_counter d)), 1)]"
  using assms
proof (cases rule: createShip_Inr_effect)
  case (effect ar asc sr ssc a d ada au)
  then show ?thesis by (fastforce simp: shipTokenName_def pilotTokenName_def)
qed

text \<open>C3: Output 0 of the new transaction is at the Spacetime address, holds the ship token and exactly 2,000,000 lovelace, and carries the ship datum with the given fuel and position and the two token names.\<close>

theorem createShip_ship_output:
  assumes "createShip ah sh adm fee f x y w = (Inr h, w')"
  shows "\<exists>sr ssc a d. ref_output w sh = Some sr \<and> scriptRef sr = Some ssc \<and>
           a \<in> set (chain w) \<and> datum a = Some (asteria_to_data d) \<and>
           output_utxo h 0
             \<lparr>address = ScriptAddress (hashScript w ssc),
              assets = [(hashScript w ssc @ fromText (''SHIP'' @ bigint_to_string (ship_counter d)), 1),
                        (''lovelace'', 2000000)],
              datum = Some (ship_to_data
                \<lparr>fuel = f, pos_x = x, pos_y = y,
                 ship_token_name = fromText (''SHIP'' @ bigint_to_string (ship_counter d)),
                 pilot_token_name = fromText (''PILOT'' @ bigint_to_string (ship_counter d))\<rparr>),
              scriptRef = None\<rparr> \<in> set (chain w')"
  using assms
proof (cases rule: createShip_Inr_effect)
  case (effect ar asc sr ssc a d ada au)
  then show ?thesis
    by (fastforce simp: shipInfo_def shipTokenName_def pilotTokenName_def ship_output_lovelace_def)
qed

text \<open>C4: Output 1 of the new transaction is at the Asteria address and holds exactly the admin token and the consumed UTxO's lovelace plus the fee.\<close>

theorem createShip_asteria_output:
  assumes "createShip ah sh adm fee f x y w = (Inr h, w')"
  shows "\<exists>a ada u. a \<in> set (chain w) \<and> map_of (assets a) ''lovelace'' = Some ada \<and>
           u \<in> set (chain w') \<and> out_ref u = (h, 1) \<and> address u = address a \<and>
           assets u = [(policy adm @ name adm, 1), (''lovelace'', ada + fee)]"
  using assms
proof (cases rule: createShip_Inr_effect)
  case (effect ar asc sr ssc a d ada au)
  then show ?thesis by (fastforce simp: toUnit_Inr_iff)
qed

text \<open>C5: Two runs prepared against the same Asteria reference, in either order of preparation, cannot both be accepted: once the first is submitted the second is rejected by the node (double spend).\<close>

theorem createShip_race:
  assumes wf: "ledger_wf w"
    and p1: "prepareCreateShip ah sh1 adm1 fee1 f1 x1 y1 w = (Inr t1, w1)"
    and p2: "prepareCreateShip ah sh2 adm2 fee2 f2 x2 y2 w1 = (Inr t2, w2)"
    and s1: "signAndSubmit t1 w2 = (Inr h, w3)"
  shows "signAndSubmit t2 w3 =
           (Inl (RemoteError ''transaction rejected''), log_call SubmitTx (log_call GetWalletUtxos w3))"
  using p1
proof (cases rule: prepareCreateShip_InrE)
  case (prepared s ar asc sr ssc a d au su pu ada)
  note c1 = prepared
  have sl1: "same_ledger w w1" using c1 by simp
  from p2 show ?thesis
  proof (cases rule: prepareCreateShip_InrE)
    case (prepared s' ar' asc' sr' ssc' a' d' au' su' pu' ada')
    have sl2: "same_ledger w1 w2" using prepared by simp
    have "ref_output w1 ah = ref_output w ah" "hashScript w1 = hashScript w" "chain w1 = chain w"
      using sl1 by (simp_all add: same_ledger_def ref_output_def)
    then have a': "a' = a"
      using c1 prepared by simp
    have w3: "w3 = apply_tx t1 (log_call SubmitTx (log_call GetWalletUtxos w2))"
      and wal: "wallet w2 \<noteq> None"
      using s1 by (simp_all add: signAndSubmit_Inr)
    have fresh: "txHash a \<noteq> tx_id (tx_count w2)"
    proof -
      have "a \<in> set (history w)"
        using js_first_filter_Some [OF c1(6)] wf by (auto simp: ledger_wf_def)
      with ledger_wf_fresh [OF wf] sl1 sl2 show ?thesis
        by (simp add: same_ledger_def)
    qed
    have "\<not> live w3 (out_ref a)"
      using fresh w3 c1(12) by (auto simp: live_def out_ref_def)
    then have "\<not> tx_valid w3 t2"
      using prepared a' by (simp add: tx_valid_def)
    moreover have "wallet w3 \<noteq> None" using w3 wal by simp
    ultimately show ?thesis
      by (simp add: signAndSubmit_eq submitTx_Inl)
  qed
qed

text \<open>C6: Without a seed in the environment the handler throws \<open>Unable to read wallet's seed from env\<close>; the only request made before is the protocol-parameter fetch of \<open>Lucid.new\<close>.\<close>

theorem createShip_no_seed:
  assumes "env_seed w = None \<or> env_seed w = Some []"
  shows "createShip ah sh adm fee f x y w =
           (Inl (Error ''Unable to read wallet's seed from env''), log_call GetProtocolParameters w)"
  using assms by (auto simp: createShip_def prepareCreateShip_def io_bind_def initWallet_eq)

text \<open>C7: A reference output without a script makes the handler throw \<open>Could not read validator from ref UTxO\<close> after the one lookup.\<close>

theorem createShip_missing_validator:
  assumes "env_seed w = Some s" "s \<noteq> []" "ref_output w ah = Some r" "scriptRef r = None"
  shows "createShip ah sh adm fee f x y w =
           (Inl (Error ''Could not read validator from ref UTxO''),
            log_call (UtxosByOutRef [(ah, 0)]) ((log_call GetProtocolParameters w)\<lparr>wallet := Some s\<rparr>))"
  using assms
  by (simp add: createShip_def prepareCreateShip_def io_bind_def initWallet_eq resolveReferences_def
      fetchReferenceScript_eq ref_output_def)

text \<open>C8: A reference transaction with no output 0 makes the handler fail with the JavaScript \<open>TypeError\<close> of reading \<open>scriptRef\<close> of \<open>undefined\<close>, not with the validator error.\<close>

theorem createShip_absent_reference:
  assumes "env_seed w = Some s" "s \<noteq> []" "\<forall>u \<in> set (history w). out_ref u \<noteq> (ah, 0)"
  shows "createShip ah sh adm fee f x y w =
           (Inl (TypeError ''Cannot read properties of undefined (reading 'scriptRef')''),
            log_call (UtxosByOutRef [(ah, 0)]) ((log_call GetProtocolParameters w)\<lparr>wallet := Some s\<rparr>))"
proof -
  have "ref_output w ah = None" using assms(3) by (simp add: ref_output_None_iff)
  with assms(1,2) show ?thesis
    by (simp add: createShip_def prepareCreateShip_def io_bind_def initWallet_eq resolveReferences_def
        fetchReferenceScript_eq ref_output_def)
qed

text \<open>C9: No UTxO at the Asteria address makes the handler fail with the \<open>TypeError\<close> of reading \<open>datum\<close> of \<open>undefined\<close>.\<close>

theorem createShip_no_asteria_utxo:
  assumes "env_seed w = Some s" "s \<noteq> []"
    and "ref_output w ah = Some ar" "scriptRef ar = Some asc"
    and "ref_output w sh = Some sr" "scriptRef sr = Some ssc"
    and "\<forall>u \<in> set (chain w). address u \<noteq> ScriptAddress (hashScript w asc)"
  shows "fst (createShip ah sh adm fee f x y w) =
           Inl (TypeError ''Cannot read properties of undefined (reading 'datum')'')"
proof -
  have "filter (\<lambda>u. address u = ScriptAddress (hashScript w asc)) (chain w) = []"
    using assms(7) by (simp add: filter_empty_conv)
  with assms(1-6) show ?thesis
    by (simp add: createShip_def io_bind_def prepareCreateShip_resolved readAsteria_def utxosAt_def)
qed

text \<open>C10: An Asteria UTxO without an inline datum makes the handler throw \<open>Asteria datum not found\<close>.\<close>

theorem createShip_asteria_without_datum:
  assumes "env_seed w = Some s" "s \<noteq> []"
    and "ref_output w ah = Some ar" "scriptRef ar = Some asc"
    and "ref_output w sh = Some sr" "scriptRef sr = Some ssc"
    and "js_first (filter (\<lambda>u. address u = ScriptAddress (hashScript w asc)) (chain w)) = Some a"
    and "datum a = None"
  shows "fst (createShip ah sh adm fee f x y w) = Inl (Error ''Asteria datum not found'')"
  using assms
  by (simp add: createShip_def io_bind_def prepareCreateShip_resolved readAsteria_def utxosAt_def)

text \<open>C11: With a seed, both reference scripts live, an Asteria UTxO with a datum whose counter is below \<open>10^27\<close> and a lovelace entry, 56-digit policy ids and an accepting node, the handler returns the hash of the next transaction.\<close>

theorem createShip_succeeds:
  assumes seed: "env_seed w = Some s" "s \<noteq> []"
    and aref: "ref_output w ah = Some ar" "scriptRef ar = Some asc" "live w (out_ref ar)"
    and sref: "ref_output w sh = Some sr" "scriptRef sr = Some ssc" "live w (out_ref sr)"
    and ast: "js_first (filter (\<lambda>u. address u = ScriptAddress (hashScript w asc)) (chain w)) = Some a"
    and dat: "datum a = Some (asteria_to_data d)" "0 \<le> ship_counter d" "ship_counter d < 10 ^ 27"
    and ada: "map_of (assets a) ''lovelace'' = Some ada"
    and pid: "length (hashScript w ssc) = 56"
    and adm: "length (policy adm) = 56" "length (name adm) \<le> 64"
    and node: "\<forall>t. node_accepts w t"
  shows "\<exists>w'. createShip ah sh adm fee f x y w = (Inr (tx_id (tx_count w)), w')"
proof -
  have su: "toUnit (hashScript w ssc) (shipTokenName (ship_counter d)) =
              Inr (hashScript w ssc @ shipTokenName (ship_counter d))"
    using pid dat by (simp add: ship_unit_ok)
  have pu: "toUnit (hashScript w ssc) (pilotTokenName (ship_counter d)) =
              Inr (hashScript w ssc @ pilotTokenName (ship_counter d))"
    using pid dat by (simp add: pilot_unit_ok)
  have au: "toUnit (policy adm) (name adm) = Inr (policy adm @ name adm)"
    using adm by (simp add: toUnit_Inr_iff)
  have "a \<in> set (chain w)" using js_first_filter_Some [OF ast] by simp
  then have valid: "tx_valid w (ship_tx_of w ar asc sr ssc a d (policy adm @ name adm)
               (hashScript w ssc @ shipTokenName (ship_counter d))
               (hashScript w ssc @ pilotTokenName (ship_counter d)) ada fee f x y)"
    using aref sref node by (simp add: tx_valid_def live_def)
  have "js_truthy_string (env_seed w) = Some s" using seed by simp
  from createShip_success [OF this aref(1,2) sref(1,2) ast dat(1) au su pu ada valid] show ?thesis
    by blast
qed

text \<open>C12: Once the counter reaches \<open>10^27\<close> the pilot token name exceeds 32 bytes and every run throws \<open>Asset name size exceeds 32 bytes.\<close>\<close>

theorem createShip_counter_overflow:
  assumes seed: "env_seed w = Some s" "s \<noteq> []"
    and aref: "ref_output w ah = Some ar" "scriptRef ar = Some asc"
    and sref: "ref_output w sh = Some sr" "scriptRef sr = Some ssc"
    and ast: "js_first (filter (\<lambda>u. address u = ScriptAddress (hashScript w asc)) (chain w)) = Some a"
    and dat: "datum a = Some (asteria_to_data d)" "10 ^ 27 \<le> ship_counter d"
    and pid: "length (hashScript w ssc) = 56"
    and adm: "length (policy adm) = 56" "length (name adm) \<le> 64"
  shows "fst (createShip ah sh adm fee f x y w) = Inl (Error ''Asset name size exceeds 32 bytes.'')"
proof -
  have au: "toUnit (policy adm) (name adm) = Inr (policy adm @ name adm)"
    using adm by (simp add: toUnit_Inr_iff)
  have "buildCreateShipTx \<lparr>asteriaRef = ar, asteriaAddressBech32 = ScriptAddress (hashScript w asc),
          spacetimeRef = sr, shipyardPolicyId = hashScript w ssc,
          spacetimeAddressBech32 = ScriptAddress (hashScript w ssc)\<rparr> a d adm fee f x y =
        Inl (Error ''Asset name size exceeds 32 bytes.'')"
  proof (cases "ship_counter d < 10 ^ 28")
    case True
    with pid dat show ?thesis
      by (simp add: buildCreateShipTx_def au ship_unit_ok pilot_unit_overflow)
  next
    case False
    with pid show ?thesis
      by (simp add: buildCreateShipTx_def au ship_unit_overflow)
  qed
  moreover have "js_truthy_string (env_seed w) = Some s" using seed by simp
  ultimately show ?thesis
    using aref sref ast dat(1) by (simp add: createShip_built)
qed

text \<open>C13: Two ship units that are equal come from the same counter value.\<close>

theorem ship_units_injective:
  assumes "toUnit p (shipTokenName i) = Inr u" "toUnit p' (shipTokenName j) = Inr u"
  shows "i = j"
  using toUnit_inj [OF assms] by (simp add: shipTokenName_inj)

text \<open>C14: A ship unit is never a pilot unit, whatever the counters and policies.\<close>

theorem ship_pilot_units_differ:
  assumes "toUnit p (shipTokenName i) = Inr u" "toUnit p' (pilotTokenName j) = Inr u'"
  shows "u \<noteq> u'"
proof
  assume "u = u'"
  with assms have "p @ shipTokenName i = p' @ pilotTokenName j" "length p = length p'"
    by (simp_all add: toUnit_Inr_iff)
  then show False
    using shipTokenName_neq_pilotTokenName by simp
qed

text \<open>C15: \<open>fetchReferenceScript\<close> returns exactly the output 0 of the given transaction when it carries a script, and only logs one provider request.\<close>

theorem fetchReferenceScript_spec:
  "fetchReferenceScript h w = (Inr r, w') \<longleftrightarrow>
     js_first (filter (\<lambda>u. out_ref u = (h, 0)) (history w)) = Some r \<and> scriptRef r \<noteq> None \<and>
     w' = log_call (UtxosByOutRef [(h, 0)]) w"
  by (auto simp: fetchReferenceScript_eq ref_output_def split: option.splits)

text \<open>C16: \<open>distance\<close> is a metric-like Manhattan distance (triangle inequality, zero only at the origin) and \<open>required_fuel\<close> scales it by the fuel per step.\<close>

theorem distance_triangle:
  "distance (dx1 + dx2) (dy1 + dy2) \<le> distance dx1 dy1 + distance dx2 dy2 \<and>
   (distance dx dy = 0 \<longleftrightarrow> dx = 0 \<and> dy = 0) \<and>
   required_fuel (distance dx dy) k = k * (\<bar>dx\<bar> + \<bar>dy\<bar>)"
  by (auto simp: distance_def required_fuel_def abs_triangle_ineq add_mono)


text \<open>C17: on a deployment with an Asteria state, every run refines the spec's transition
  \<open>abs_create\<close> on the abstract state (Asteria datum, minted assets): a failing run leaves
  it unchanged, a successful run increments the counter and mints the two tokens of the old
  counter.\<close>

theorem createShip_refines_abs_create:
  assumes dep: "deployed ah sh ha hs w" and st: "abs_world ha w \<noteq> None"
    and run: "createShip ah sh adm fee f x y w = (r, w')"
  shows "abs_world ha w' =
           (case r of Inl _ \<Rightarrow> abs_world ha w | Inr _ \<Rightarrow> map_option (abs_create hs) (abs_world ha w))"
proof -
  from st obtain d where d: "asteria_state w (ScriptAddress ha) = Some d"
    by (auto simp: abs_world_def)
  show ?thesis
  proof (cases r)
    case (Inl e)
    with run have "asteria_state w' (ScriptAddress ha) = asteria_state w (ScriptAddress ha) \<and>
        minted w' = minted w"
      using createShip_step_Inl [of ah sh adm fee f x y w e w' ha hs] by simp
    with Inl show ?thesis by (simp add: abs_world_def)
  next
    case (Inr h)
    with run have "deployed ah sh ha hs w' \<and> asteria_state w' (ScriptAddress ha) = Some (asteriaInfo d) \<and>
        minted w' = minted w @ [(hs @ shipTokenName (ship_counter d), 1), (hs @ pilotTokenName (ship_counter d), 1)]"
      by (intro createShip_step_Inr [OF dep d]) simp
    with Inr d show ?thesis
      by (simp add: abs_world_def abs_create_def asteriaInfo_def shipTokenName_def pilotTokenName_def Let_def)
  qed
qed

text \<open>C18: from a deployment whose Asteria address holds exactly one UTxO with state
  \<open>d0\<close>, every world reached by any sequence of runs still holds exactly one UTxO there,
  with a counter no smaller than the first and the same shipyard policy, the ledger stays
  well-formed, and the assets minted since are exactly the ship and pilot tokens of the
  counters passed, in order.\<close>

theorem ship_protocol_invariant:
  assumes "deployed ah sh ha hs w0" "asteria_state w0 (ScriptAddress ha) = Some d0"
    and "(ship_step ah sh)\<^sup>*\<^sup>* w0 w"
  shows "\<exists>d. asteria_state w (ScriptAddress ha) = Some d \<and> ship_counter d0 \<le> ship_counter d \<and>
           shipyard_policy d = shipyard_policy d0 \<and> ledger_wf w \<and>
           minted w = minted w0 @ minted_names hs (ship_counter d0) (ship_counter d)"
  using ship_inv_reach [OF assms(3) ship_inv_start [OF assms(1,2)]]
  by (auto simp: ship_inv_def deployed_def split: option.splits)

text \<open>C19: no token is minted twice: in every world reached from a deployment, the ship and
  pilot units minted since are pairwise distinct.\<close>

theorem minted_tokens_unique:
  assumes "deployed ah sh ha hs w0" "asteria_state w0 (ScriptAddress ha) = Some d0"
    and "(ship_step ah sh)\<^sup>*\<^sup>* w0 w"
  shows "distinct (map fst (drop (length (minted w0)) (minted w)))"
  using ship_inv_reach [OF assms(3) ship_inv_start [OF assms(1,2)]] minted_names_distinct
  by (auto simp: ship_inv_def split: option.splits)

text \<open>C20: \<open>writeJson\<close> on data without a BigInt, to a writable path, stores the text
  of \<open>JSON.stringify\<close> at the path and returns \<open>Written to <path>\<close>.\<close>

theorem writeJson_writes_file:
  assumes "\<not> has_bigint data" "write_error fs path = None"
  shows "\<exists>t. json_stringify data = Inr t \<and>
           writeJson path data fs =
             (''Written to '' @ path, fs\<lparr>files := (files fs)(path \<mapsto> (case t of None \<Rightarrow> [] | Some x \<Rightarrow> x))\<rparr>)"
proof -
  obtain t where "json_stringify data = Inr t" using json_stringify_Inr [OF assms(1)] by blast
  with assms(2) show ?thesis by (simp add: writeJson_stringified)
qed

text \<open>C21: \<open>writeJson\<close> on data holding a BigInt anywhere writes nothing and returns the
  message of the \<open>TypeError\<close> of \<open>JSON.stringify\<close>, as an ordinary string.\<close>

theorem writeJson_bigint_message:
  assumes "has_bigint data"
  shows "writeJson path data fs = (''Do not know how to serialize a BigInt'', fs)"
proof -
  have "json_stringify data = Inl bigint_error" using assms by (simp add: json_stringify_Inl)
  then show ?thesis by (simp add: writeJson_def js_message_def bigint_error_def)
qed

text \<open>C22: when the path cannot be written, \<open>writeJson\<close> writes nothing and returns the
  operating system's message.\<close>

theorem writeJson_write_error:
  assumes "\<not> has_bigint data" "write_error fs path = Some m"
  shows "writeJson path data fs = (m, fs)"
proof -
  obtain t where "json_stringify data = Inr t" using json_stringify_Inr [OF assms(1)] by blast
  with assms(2) show ?thesis by (simp add: writeJson_stringified)
qed

text \<open>C23: with a 56-digit policy and a non-negative counter \<open>c\<close>, the pilot unit is
  accepted by \<open>toUnit\<close> exactly when \<open>c < 10^27\<close> and the ship unit exactly when
  \<open>c < 10^28\<close>.\<close>

theorem token_unit_bounds:
  assumes "length p = 56" "0 \<le> c"
  shows "(\<not> isl (toUnit p (pilotTokenName c)) \<longleftrightarrow> c < 10 ^ 27) \<and>
         (\<not> isl (toUnit p (shipTokenName c)) \<longleftrightarrow> c < 10 ^ 28)"
proof -
  have "\<not> isl (toUnit p (pilotTokenName c)) \<longleftrightarrow> c < 10 ^ 27"
    using assms pilot_unit_ok [of p c] pilot_unit_overflow [of p c] by (cases "c < 10 ^ 27") auto
  moreover have "\<not> isl (toUnit p (shipTokenName c)) \<longleftrightarrow> c < 10 ^ 28"
    using assms ship_unit_ok [of p c] ship_unit_overflow [of p c] by (cases "c < 10 ^ 28") auto
  ultimately show ?thesis ..
qed

text \<open>C24: an Asteria UTxO without a \<open>lovelace\<close> entry makes the BigInt addition of line
  122 throw the JavaScript \<open>TypeError\<close> of mixing BigInt and \<open>undefined\<close>, after all
  three units were computed.\<close>

theorem createShip_missing_lovelace:
  assumes seed: "env_seed w = Some s" "s \<noteq> []"
    and aref: "ref_output w ah = Some ar" "scriptRef ar = Some asc"
    and sref: "ref_output w sh = Some sr" "scriptRef sr = Some ssc"
    and ast: "js_first (filter (\<lambda>u. address u = ScriptAddress (hashScript w asc)) (chain w)) = Some a"
    and dat: "datum a = Some (asteria_to_data d)" "0 \<le> ship_counter d" "ship_counter d < 10 ^ 27"
    and pid: "length (hashScript w ssc) = 56"
    and adm: "length (policy adm) = 56" "length (name adm) \<le> 64"
    and ada: "map_of (assets a) ''lovelace'' = None"
  shows "fst (createShip ah sh adm fee f x y w) =
           Inl (TypeError ''Cannot mix BigInt and other types, use explicit conversions'')"
proof -
  have "js_truthy_string (env_seed w) = Some s" using seed by simp
  with aref sref ast dat(1) show ?thesis
    using pid dat adm ada by (simp add: createShip_built buildCreateShipTx_units)
qed

section \<open>Witnesses\<close>

text \<open>Each property with a hypothesis, applied to the demo deployment of
  \<open>Scenario\<close> or to one of its variants.\<close>

text \<open>C25: the protocol does not get stuck: from a deployment whose reference outputs and
  Asteria UTxO are live and distinct, every world reached by runs of \<open>createShip\<close> lets the
  next run succeed as long as the seed is set, the node accepts, the admin token is well formed
  and the ship counter is below \<open>10 ^ 27\<close>.\<close>

theorem ship_protocol_progress:
  assumes dep: "deployed ah sh ha hs w0" and st0: "asteria_state w0 (ScriptAddress ha) = Some d0"
    and pi: "progress_inv ah sh ha w0" and reach: "(ship_step ah sh)\<^sup>*\<^sup>* w0 w"
    and seed: "env_seed w0 = Some s" "s \<noteq> []" and node: "\<forall>t. node_accepts w0 t"
    and hs: "length hs = 56" and c0: "0 \<le> ship_counter d0"
    and adm: "length (policy adm) = 56" "length (name adm) \<le> 64"
    and st: "asteria_state w (ScriptAddress ha) = Some d" and bound: "ship_counter d < 10 ^ 27"
  shows "\<exists>h w'. createShip ah sh adm fee f x y w = (Inr h, w')"
proof -
  have inv: "ship_inv ah sh ha hs (ship_counter d0) (shipyard_policy d0) (minted w0) w \<and>
      progress_inv ah sh ha w \<and> env_seed w = env_seed w0 \<and> node_accepts w = node_accepts w0 \<and>
      hashScript w = hashScript w0"
    by (rule progress_reach [OF reach ship_inv_start [OF dep st0] pi])
  then have "deployed ah sh ha hs w" "ship_counter d0 \<le> ship_counter d"
    using st by (simp_all add: ship_inv_def)
  with inv seed node hs c0 adm st bound show ?thesis
    by (intro createShip_progress [of ah sh ha hs w d s]) simp_all
qed

text \<open>C26: the creation of ships terminates: from a deployment with an Asteria state, there
  is no infinite sequence of successful runs through reachable worlds. Each success raises
  the counter by one and needs it below \<open>10 ^ 27\<close> (the pilot token name would not fit in
  \<open>toUnit\<close>), so \<open>10 ^ 27\<close> minus the counter decreases.\<close>

theorem ship_creation_terminates:
  assumes dep: "deployed ah sh ha hs w0" and st: "asteria_state w0 (ScriptAddress ha) = Some d0"
  shows "wfp (\<lambda>w' w. (ship_step ah sh)\<^sup>*\<^sup>* w0 w \<and> ship_success ah sh w w')"
proof (rule wfp_if_convertible_to_nat)
  fix w' w
  assume "(ship_step ah sh)\<^sup>*\<^sup>* w0 w \<and> ship_success ah sh w w'"
  then have reach: "(ship_step ah sh)\<^sup>*\<^sup>* w0 w" and succ: "ship_success ah sh w w'" by simp_all
  from ship_inv_reach [OF reach ship_inv_start [OF dep st]] obtain d
    where "deployed ah sh ha hs w" "asteria_state w (ScriptAddress ha) = Some d"
    by (auto simp: ship_inv_def split: option.splits)
  from ship_success_Inr [OF this succ] this(2)
  show "nat (10 ^ 27 - (case asteria_state w' (ScriptAddress ha) of None \<Rightarrow> 0 | Some d \<Rightarrow> ship_counter d)) <
        nat (10 ^ 27 - (case asteria_state w (ScriptAddress ha) of None \<Rightarrow> 0 | Some d \<Rightarrow> ship_counter d))"
    by (simp add: asteriaInfo_def)
qed

text \<open>C27: after \<open>n\<close> successful runs from a deployment with counter \<open>c\<close>, the Asteria
  state is the initial one with counter \<open>c + n\<close>, and if \<open>n > 0\<close> then \<open>c + n \<le> 10 ^ 27\<close>:
  at most \<open>10 ^ 27 - c\<close> ships can ever be created.\<close>

theorem ship_runs_bounded:
  assumes "(ship_success ah sh ^^ n) w0 w" "deployed ah sh ha hs w0"
    and "asteria_state w0 (ScriptAddress ha) = Some d0"
  shows "asteria_state w (ScriptAddress ha) = Some (d0\<lparr>ship_counter := ship_counter d0 + int n\<rparr>) \<and>
         (n = 0 \<or> ship_counter d0 + int n \<le> 10 ^ 27)"
proof -
  have "deployed ah sh ha hs w \<and>
      asteria_state w (ScriptAddress ha) = Some (d0\<lparr>ship_counter := ship_counter d0 + int n\<rparr>) \<and>
      (n = 0 \<or> ship_counter d0 + int n \<le> 10 ^ 27)"
    using assms(1)
  proof (induction n arbitrary: w)
    case 0
    with assms(2,3) show ?case by simp
  next
    case (Suc n)
    from Suc.prems obtain v where v: "(ship_success ah sh ^^ n) w0 v" and s: "ship_success ah sh v w"
      by (rule relpowp_Suc_E)
    from Suc.IH [OF v] have "deployed ah sh ha hs v"
      and "asteria_state v (ScriptAddress ha) = Some (d0\<lparr>ship_counter := ship_counter d0 + int n\<rparr>)"
      by simp_all
    from ship_success_Inr [OF this s] show ?case
      by (simp add: asteriaInfo_def add.assoc)
  qed
  then show ?thesis by simp
qed


text \<open>C29: on a well-formed ledger, a successful run spends the first UTxO at the Asteria
  address: it was live before and is not live after, while the two outputs the handler adds
  (indices 0 and 1 of the new transaction) are live. Coin selection in \<open>complete()\<close> may
  spend further wallet UTxOs and add a change output; this statement is about the inputs
  and outputs the handler itself puts in the transaction.\<close>

theorem createShip_spends_asteria:
  assumes wf: "ledger_wf w" and run: "createShip ah sh adm fee f x y w = (Inr h, w')"
  shows "\<exists>ar asc a. ref_output w ah = Some ar \<and> scriptRef ar = Some asc \<and>
           js_first (filter (\<lambda>u. address u = ScriptAddress (hashScript w asc)) (chain w)) = Some a \<and>
           live w (out_ref a) \<and> \<not> live w' (out_ref a) \<and> live w' (h, 0) \<and> live w' (h, 1)"
  using run
proof (cases rule: createShip_Inr_effect)
  case (effect ar asc sr ssc a d ada au)
  have fresh: "txHash a \<noteq> h"
    using ledger_wf_fresh [OF wf] wf effect by (auto simp: ledger_wf_def)
  have "map out_ref (chain w') = filter (\<lambda>r. r \<noteq> out_ref a) (map out_ref (chain w)) @ [(h, 0), (h, 1)]"
    using effect by (simp add: filter_map comp_def)
  then have "\<not> live w' (out_ref a)" "live w' (h, 0)" "live w' (h, 1)"
    using fresh by (simp_all add: live_def out_ref_def)
  moreover have "live w (out_ref a)"
    using effect by (simp add: live_def)
  ultimately show ?thesis
    using effect by blast
qed

theorem createShip_increments_counter_witness:
  "\<exists>a d u. a \<in> set (chain demo_world) \<and> datum a = Some (asteria_to_data d) \<and>
     u \<in> set (chain (snd demo_run)) \<and> out_ref u = (tx_id 0, 1) \<and> address u = address a \<and>
     datum u = Some (asteria_to_data \<lparr>ship_counter = ship_counter d + 1,
                                       shipyard_policy = shipyard_policy d\<rparr>)"
  by (rule createShip_increments_counter [OF demo_run_ok])

theorem createShip_mints_ship_and_pilot_witness:
  "\<exists>sr ssc a d. ref_output demo_world ''0b'' = Some sr \<and> scriptRef sr = Some ssc \<and>
     a \<in> set (chain demo_world) \<and> datum a = Some (asteria_to_data d) \<and>
     minted (snd demo_run) = minted demo_world @
       [(hashScript demo_world ssc @ fromText (''SHIP'' @ bigint_to_string (ship_counter d)), 1),
        (hashScript demo_world ssc @ fromText (''PILOT'' @ bigint_to_string (ship_counter d)), 1)]"
  by (rule createShip_mints_ship_and_pilot [OF demo_run_ok])

theorem createShip_ship_output_witness:
  "\<exists>sr ssc a d. ref_output demo_world ''0b'' = Some sr \<and> scriptRef sr = Some ssc \<and>
     a \<in> set (chain demo_world) \<and> datum a = Some (asteria_to_data d) \<and>
     output_utxo (tx_id 0) 0
       \<lparr>address = ScriptAddress (hashScript demo_world ssc),
        assets = [(hashScript demo_world ssc @ fromText (''SHIP'' @ bigint_to_string (ship_counter d)), 1),
                  (''lovelace'', 2000000)],
        datum = Some (ship_to_data
          \<lparr>fuel = 50, pos_x = 3, pos_y = 4,
           ship_token_name = fromText (''SHIP'' @ bigint_to_string (ship_counter d)),
           pilot_token_name = fromText (''PILOT'' @ bigint_to_string (ship_counter d))\<rparr>),
        scriptRef = None\<rparr> \<in> set (chain (snd demo_run))"
  by (rule createShip_ship_output [OF demo_run_ok])

theorem createShip_asteria_output_witness:
  "\<exists>a ada u. a \<in> set (chain demo_world) \<and> map_of (assets a) ''lovelace'' = Some ada \<and>
     u \<in> set (chain (snd demo_run)) \<and> out_ref u = (tx_id 0, 1) \<and> address u = address a \<and>
     assets u = [(policy demo_admin @ name demo_admin, 1), (''lovelace'', ada + 1000000)]"
  by (rule createShip_asteria_output [OF demo_run_ok])

theorem createShip_race_witness:
  "signAndSubmit demo_tx demo_w3 =
     (Inl (RemoteError ''transaction rejected''), log_call SubmitTx (log_call GetWalletUtxos demo_w3))"
proof -
  have p1: "demo_prepare demo_world = (Inr demo_tx, demo_w1)"
    by (rule demo_prepare_at) (simp_all add: demo_world_at_def demo_world_with_def)
  have p2: "demo_prepare demo_w1 = (Inr demo_tx, demo_w2)"
    by (rule demo_prepare_at) (simp_all add: prepare_world_def demo_world_at_def demo_world_with_def)
  show ?thesis
    by (rule createShip_race [OF demo_ledger_wf p1 p2 demo_submit])
qed

theorem createShip_no_seed_witness:
  "createShip ''0a'' ''0b'' demo_admin 1000000 50 3 4 (demo_world\<lparr>env_seed := None\<rparr>) =
     (Inl (Error ''Unable to read wallet's seed from env''),
      log_call GetProtocolParameters (demo_world\<lparr>env_seed := None\<rparr>))"
  by (rule createShip_no_seed) simp

theorem createShip_missing_validator_witness:
  "createShip ''0a'' ''0b'' demo_admin 1000000 50 3 4 demo_world_noscript =
     (Inl (Error ''Could not read validator from ref UTxO''),
      log_call (UtxosByOutRef [(''0a'', 0)])
        ((log_call GetProtocolParameters demo_world_noscript)\<lparr>wallet := Some ''seed''\<rparr>))"
  by (rule createShip_missing_validator [where r = "(demo_ref ''0a'' ''asteria'')\<lparr>scriptRef := None\<rparr>"])
     (simp_all add: demo_world_noscript_def demo_defs ref_output_def out_ref_def)

theorem createShip_absent_reference_witness:
  "createShip ''ff'' ''0b'' demo_admin 1000000 50 3 4 demo_world =
     (Inl (TypeError ''Cannot read properties of undefined (reading 'scriptRef')''),
      log_call (UtxosByOutRef [(''ff'', 0)])
        ((log_call GetProtocolParameters demo_world)\<lparr>wallet := Some ''seed''\<rparr>))"
  by (rule createShip_absent_reference) (simp_all add: demo_defs out_ref_def)

theorem createShip_no_asteria_utxo_witness:
  "fst (createShip ''0a'' ''0b'' demo_admin 1000000 50 3 4
          (demo_world_with [demo_ref ''0a'' ''asteria'', demo_ref ''0b'' ''spacetime''])) =
     Inl (TypeError ''Cannot read properties of undefined (reading 'datum')'')"
  by (rule createShip_no_asteria_utxo [where s = "''seed''" and ar = "demo_ref ''0a'' ''asteria''"
        and asc = "''asteria''" and sr = "demo_ref ''0b'' ''spacetime''" and ssc = "''spacetime''"])
     (simp_all add: demo_defs ref_output_def out_ref_def)

theorem createShip_asteria_without_datum_witness:
  "fst (createShip ''0a'' ''0b'' demo_admin 1000000 50 3 4
          (demo_world_with [demo_ref ''0a'' ''asteria'', demo_ref ''0b'' ''spacetime'',
                            (demo_asteria 5)\<lparr>datum := None\<rparr>])) =
     Inl (Error ''Asteria datum not found'')"
  by (rule createShip_asteria_without_datum [where s = "''seed''" and ar = "demo_ref ''0a'' ''asteria''"
        and asc = "''asteria''" and sr = "demo_ref ''0b'' ''spacetime''" and ssc = "''spacetime''"
        and a = "(demo_asteria 5)\<lparr>datum := None\<rparr>"])
     (simp_all add: demo_defs ref_output_def out_ref_def)

theorem createShip_succeeds_witness:
  "\<exists>w'. createShip ''0a'' ''0b'' demo_admin 1000000 50 3 4 demo_world = (Inr (tx_id (tx_count demo_world)), w')"
  by (rule createShip_succeeds [where s = "''seed''" and ar = "demo_ref ''0a'' ''asteria''"
        and asc = "''asteria''" and sr = "demo_ref ''0b'' ''spacetime''" and ssc = "''spacetime''"
        and a = "demo_asteria 5" and d = "\<lparr>ship_counter = 5, shipyard_policy = demo_spacetime_hash\<rparr>"
        and ada = 5000000])
     (simp_all add: demo_defs ref_output_def out_ref_def live_def)

theorem createShip_counter_overflow_witness:
  "fst (createShip ''0a'' ''0b'' demo_admin 1000000 50 3 4 (demo_world_at (10 ^ 27))) =
     Inl (Error ''Asset name size exceeds 32 bytes.'')"
  by (rule createShip_counter_overflow [where s = "''seed''" and ar = "demo_ref ''0a'' ''asteria''"
        and asc = "''asteria''" and sr = "demo_ref ''0b'' ''spacetime''" and ssc = "''spacetime''"
        and a = "demo_asteria (10 ^ 27)" and d = "\<lparr>ship_counter = 10 ^ 27, shipyard_policy = demo_spacetime_hash\<rparr>"])
     (simp_all add: demo_defs ref_output_def out_ref_def)

theorem ship_units_injective_witness:
  "toUnit demo_spacetime_hash (shipTokenName 5) = Inr (demo_spacetime_hash @ shipTokenName 5) \<and> (5::int) = 5"
proof -
  have u: "toUnit demo_spacetime_hash (shipTokenName 5) = Inr (demo_spacetime_hash @ shipTokenName 5)"
    by (simp add: demo_defs toUnit_Inr_iff length_shipTokenName bigint_to_string_def nat_to_dec_def
        nat_digits.simps)
  with ship_units_injective [OF u u] show ?thesis by simp
qed

theorem ship_pilot_units_differ_witness:
  "toUnit demo_spacetime_hash (shipTokenName 5) = Inr (demo_spacetime_hash @ shipTokenName 5) \<and>
   toUnit demo_spacetime_hash (pilotTokenName 5) = Inr (demo_spacetime_hash @ pilotTokenName 5) \<and>
   demo_spacetime_hash @ shipTokenName 5 \<noteq> demo_spacetime_hash @ pilotTokenName 5"
proof -
  have u: "toUnit demo_spacetime_hash (shipTokenName 5) = Inr (demo_spacetime_hash @ shipTokenName 5)"
    "toUnit demo_spacetime_hash (pilotTokenName 5) = Inr (demo_spacetime_hash @ pilotTokenName 5)"
    by (simp_all add: demo_defs toUnit_Inr_iff length_shipTokenName length_pilotTokenName
        bigint_to_string_def nat_to_dec_def nat_digits.simps)
  with ship_pilot_units_differ [OF u] show ?thesis by simp
qed


theorem createShip_refines_abs_create_witness:
  "abs_world demo_asteria_hash (snd demo_run) =
     map_option (abs_create demo_spacetime_hash) (abs_world demo_asteria_hash demo_world)"
  using createShip_refines_abs_create [OF demo_deployed _ demo_run_ok] demo_asteria_state
  by (simp add: abs_world_def)

theorem ship_protocol_invariant_witness:
  "\<exists>d. asteria_state (snd demo_run) (ScriptAddress demo_asteria_hash) = Some d \<and> 5 \<le> ship_counter d \<and>
     shipyard_policy d = demo_spacetime_hash \<and> ledger_wf (snd demo_run) \<and>
     minted (snd demo_run) = minted demo_world @ minted_names demo_spacetime_hash 5 (ship_counter d)"
  using ship_protocol_invariant [OF demo_deployed demo_asteria_state demo_reach] by simp

theorem minted_tokens_unique_witness:
  "distinct (map fst (drop (length (minted demo_world)) (minted (snd demo_run))))"
  by (rule minted_tokens_unique [OF demo_deployed demo_asteria_state demo_reach])


theorem writeJson_writes_file_witness:
  "\<exists>t. json_stringify (JObject [(''txHash'', JString ''0a'')]) = Inr t \<and>
     writeJson ''ship.json'' (JObject [(''txHash'', JString ''0a'')])
       \<lparr>files = Map.empty, write_error = (\<lambda>_. None)\<rparr> =
     (''Written to ship.json'',
      \<lparr>files = [''ship.json'' \<mapsto> (case t of None \<Rightarrow> [] | Some x \<Rightarrow> x)], write_error = (\<lambda>_. None)\<rparr>)"
  using writeJson_writes_file [of "JObject [(''txHash'', JString ''0a'')]"
      "\<lparr>files = Map.empty, write_error = (\<lambda>_. None)\<rparr>" "''ship.json''"]
  by simp

theorem writeJson_bigint_message_witness:
  "writeJson ''ship.json'' (JObject [(''fuel'', JBigInt 50)]) \<lparr>files = Map.empty, write_error = (\<lambda>_. None)\<rparr> =
     (''Do not know how to serialize a BigInt'', \<lparr>files = Map.empty, write_error = (\<lambda>_. None)\<rparr>)"
  by (rule writeJson_bigint_message) simp

theorem writeJson_write_error_witness:
  "writeJson ''out/ship.json'' (JString ''0a'')
     \<lparr>files = Map.empty, write_error = (\<lambda>_. Some ''No such file or directory (os error 2)'')\<rparr> =
   (''No such file or directory (os error 2)'',
    \<lparr>files = Map.empty, write_error = (\<lambda>_. Some ''No such file or directory (os error 2)'')\<rparr>)"
  by (rule writeJson_write_error) simp_all

theorem token_unit_bounds_witness:
  "(\<not> isl (toUnit demo_spacetime_hash (pilotTokenName 5)) \<longleftrightarrow> (5::int) < 10 ^ 27) \<and>
   (\<not> isl (toUnit demo_spacetime_hash (shipTokenName 5)) \<longleftrightarrow> (5::int) < 10 ^ 28)"
  by (rule token_unit_bounds) (simp_all add: demo_spacetime_hash_def)

theorem createShip_missing_lovelace_witness:
  "fst (createShip ''0a'' ''0b'' demo_admin 1000000 50 3 4
          (demo_world_with [demo_ref ''0a'' ''asteria'', demo_ref ''0b'' ''spacetime'',
                            (demo_asteria 5)\<lparr>assets := [(replicate 56 (CHR ''c'') @ ''41444d494e'', 1)]\<rparr>])) =
     Inl (TypeError ''Cannot mix BigInt and other types, use explicit conversions'')"
  by (rule createShip_missing_lovelace [where s = "''seed''" and ar = "demo_ref ''0a'' ''asteria''"
        and asc = "''asteria''" and sr = "demo_ref ''0b'' ''spacetime''" and ssc = "''spacetime''"
        and a = "(demo_asteria 5)\<lparr>assets := [(replicate 56 (CHR ''c'') @ ''41444d494e'', 1)]\<rparr>"
        and d = "\<lparr>ship_counter = 5, shipyard_policy = demo_spacetime_hash\<rparr>"])
     (simp_all add: demo_defs ref_output_def out_ref_def)

theorem ship_protocol_progress_witness:
  "\<exists>h w'. createShip ''0a'' ''0b'' demo_admin 1000000 50 3 4 (snd demo_run) = (Inr h, w')"
  using ship_protocol_progress [OF demo_deployed demo_asteria_state demo_progress demo_reach,
      of "''seed''" demo_admin, OF _ _ _ _ _ _ _ demo_asteria_state_after]
  by (simp add: demo_defs demo_world_at_def demo_world_with_def asteriaInfo_def)

theorem ship_creation_terminates_witness:
  "wfp (\<lambda>w' w. (ship_step ''0a'' ''0b'')\<^sup>*\<^sup>* demo_world w \<and> ship_success ''0a'' ''0b'' w w')"
  by (rule ship_creation_terminates [OF demo_deployed demo_asteria_state])

theorem ship_runs_bounded_witness:
  "asteria_state (snd demo_run) (ScriptAddress demo_asteria_hash) =
     Some \<lparr>ship_counter = 6, shipyard_policy = demo_spacetime_hash\<rparr>"
proof -
  have "(ship_success ''0a'' ''0b'' ^^ 1) demo_world (snd demo_run)"
    using ship_success.run [OF demo_run_ok] by (simp only: relpowp_1)
  from ship_runs_bounded [OF this demo_deployed demo_asteria_state] show ?thesis by simp
qed


theorem createShip_spends_asteria_witness:
  "\<exists>ar asc a. ref_output demo_world ''0a'' = Some ar \<and> scriptRef ar = Some asc \<and>
     js_first (filter (\<lambda>u. address u = ScriptAddress (hashScript demo_world asc)) (chain demo_world)) = Some a \<and>
     live demo_world (out_ref a) \<and> \<not> live (snd demo_run) (out_ref a) \<and>
     live (snd demo_run) (tx_id 0, 0) \<and> live (snd demo_run) (tx_id 0, 1)"
  by (rule createShip_spends_asteria [OF demo_ledger_wf demo_run_ok])

end
